theory Spec2Isabelle
  imports Main "HOL-Library.Word"
begin

section \<open>ARM64 lowering of IL instructions (intermediate\_language\_arm64.cc)\<close>

subsection \<open>Condition codes and flags\<close>

text \<open>The ARM64 condition codes of the assembler's \<open>Condition\<close> enumeration.\<close>

datatype Condition =
  EQ | NE | CS | CC | MI | PL | VS | VC | HI | LS | GE | LT | GT | LE | AL | NV

text \<open>The condition flags N, Z, C, V written by a flag-setting instruction.\<close>

record nzcv =
  flagN :: bool
  flagZ :: bool
  flagC :: bool
  flagV :: bool

text \<open>When a conditional branch or select on a condition code is taken.\<close>

fun condition_holds :: "Condition \<Rightarrow> nzcv \<Rightarrow> bool" where
  "condition_holds EQ f = flagZ f"
| "condition_holds NE f = (\<not> flagZ f)"
| "condition_holds CS f = flagC f"
| "condition_holds CC f = (\<not> flagC f)"
| "condition_holds MI f = flagN f"
| "condition_holds PL f = (\<not> flagN f)"
| "condition_holds VS f = flagV f"
| "condition_holds VC f = (\<not> flagV f)"
| "condition_holds HI f = (flagC f \<and> \<not> flagZ f)"
| "condition_holds LS f = (\<not> (flagC f \<and> \<not> flagZ f))"
| "condition_holds GE f = (flagN f = flagV f)"
| "condition_holds LT f = (flagN f \<noteq> flagV f)"
| "condition_holds GT f = (\<not> flagZ f \<and> flagN f = flagV f)"
| "condition_holds LE f = (\<not> (\<not> flagZ f \<and> flagN f = flagV f))"
| "condition_holds AL f = True"
| "condition_holds NV f = True"

text \<open>\<open>NegateCondition\<close>: the \<open>default\<close> case is \<open>UNREACHABLE()\<close>, a fatal
  error of the compiler, modelled as \<open>None\<close>.\<close>

fun NegateCondition :: "Condition \<Rightarrow> Condition option" where
  "NegateCondition EQ = Some NE"
| "NegateCondition NE = Some EQ"
| "NegateCondition LT = Some GE"
| "NegateCondition LE = Some GT"
| "NegateCondition GT = Some LE"
| "NegateCondition GE = Some LT"
| "NegateCondition CC = Some CS"
| "NegateCondition LS = Some HI"
| "NegateCondition HI = Some LS"
| "NegateCondition CS = Some CC"
| "NegateCondition _ = None"

subsection \<open>Registers, labels and the machine state\<close>

text \<open>Registers are numbered as in the ARM64 register file. The scratch registers
  \<open>TMP\<close> (R16) and \<open>TMP2\<close> (R17), the zero register \<open>ZR\<close> (R31) and the pool
  pointer \<open>PP\<close> (R27) are fixed by the target's constants header, which is not part of
  this file; they are never handed out by the register allocator.\<close>

type_synonym Register = nat
type_synonym VRegister = nat

definition R0 :: Register where "R0 = 0"
definition TMP :: Register where "TMP = 16"
definition TMP2 :: Register where "TMP2 = 17"
definition PP :: Register where "PP = 27"
definition ZR :: Register where "ZR = 31"

text \<open>A register the allocator may bind to an operand: not a scratch register and not
  the zero register.\<close>

definition allocatable :: "Register \<Rightarrow> bool" where
  "allocatable r = (r \<noteq> TMP \<and> r \<noteq> TMP2 \<and> r \<noteq> ZR)"

datatype DeoptReasonId =
  kDeoptBinarySmiOp | kDeoptCheckArrayBound | kDeoptBinaryDoubleOp | kDeoptCheckSmi

text \<open>Labels are compared by identity in the source. \<open>DeoptStub id reason\<close> is the
  entry label that \<open>compiler->AddDeoptStub(id, reason)\<close> returns.\<close>

datatype Label =
    DeoptStub nat DeoptReasonId
  | BlockLabel nat
  | LocalLabel string
  | SlowPathEntry nat
  | SlowPathExit nat

text \<open>A store of a word into a slot of a heap object, as the store macros of the
  assembler perform it: the object, the address of the slot, the word stored, and
  whether the macro is the one with the write barrier.\<close>

record store_event =
  se_object :: "64 word"
  se_slot :: "64 word"
  se_value :: "64 word"
  se_barrier :: bool

text \<open>What the allocation stub leaves when it returns: the new object, the integer
  registers, the two halves of the vector registers, and memory.\<close>

record stub_result =
  sr_object :: "64 word"
  sr_xregs :: "Register \<Rightarrow> 64 word"
  sr_vregs :: "VRegister \<Rightarrow> 64 word"
  sr_vregs_hi :: "VRegister \<Rightarrow> 64 word"
  sr_mem :: "64 word \<Rightarrow> 8 word"

text \<open>Data state of the machine: the integer registers, the double-precision view of
  the vector registers (as bit patterns) and the upper 64 bits of each vector register,
  byte-addressed memory, and the allocation state that the allocation fast path and the
  allocation stub work on. \<open>store_log\<close> lists the object stores performed so far, oldest
  first. The condition flags are kept beside the data state, as the control state of
  the running code sequence.\<close>

record cpu =
  xregs :: "Register \<Rightarrow> 64 word"
  vregs :: "VRegister \<Rightarrow> 64 word"
  vregs_hi :: "VRegister \<Rightarrow> 64 word"
  mem :: "64 word \<Rightarrow> 8 word"
  heap_top :: "64 word"
  heap_end :: "64 word"
  saved_x :: "(Register \<times> 64 word) list list"
  saved_v :: "(VRegister \<times> 64 word) list list"
  saved_v_hi :: "(VRegister \<times> 64 word) list list"
  stub_results :: "stub_result list"
  store_log :: "store_event list"

definition rd :: "cpu \<Rightarrow> Register \<Rightarrow> 64 word" where
  "rd s r = (if r = ZR then 0 else xregs s r)"

definition wr :: "Register \<Rightarrow> 64 word \<Rightarrow> cpu \<Rightarrow> cpu" where
  "wr r v s = (if r = ZR then s else s\<lparr>xregs := (xregs s)(r := v)\<rparr>)"

subsection \<open>Tagged small integers\<close>

text \<open>\<open>kSmiTagSize = 1\<close>, \<open>kSmiTag = 0\<close>, \<open>kSmiBits = 62\<close> on a 64-bit target: a Smi value
  \<open>v\<close> with \<open>-2^62 \<le> v < 2^62\<close> is the word \<open>2 * v\<close>.\<close>

definition kSmiBits :: nat where "kSmiBits = 62"
definition kSmiMin :: int where "kSmiMin = - (2 ^ 62)"
definition kSmiMax :: int where "kSmiMax = 2 ^ 62 - 1"

definition is_smi_value :: "int \<Rightarrow> bool" where
  "is_smi_value v = (kSmiMin \<le> v \<and> v \<le> kSmiMax)"

definition smi_raw :: "int \<Rightarrow> int" where
  "smi_raw v = 2 * v"

definition tagged :: "int \<Rightarrow> 64 word" where
  "tagged v = word_of_int (smi_raw v)"


subsection \<open>The assembler vocabulary\<close>

datatype Shift = LSL | LSR | ASR

datatype Operand =
    Operand_reg Register
  | Operand_shifted Register Shift nat
  | Operand_imm int

datatype OperandSize =
  kByte | kUnsignedByte | kHalfword | kUnsignedHalfword | kWord | kUnsignedWord | kDoubleWord

text \<open>\<open>Address(rn, offset)\<close> and \<open>Address(rn, rm, UXTX, Address::Unscaled)\<close>.\<close>

datatype Address =
    Address_offset Register int
  | Address_reg Register Register

datatype ClassId =
    kIllegalCid | kNullCid | kDynamicCid | kSmiCid | kDoubleCid | kFloat32x4Cid
  | kInt32x4Cid | kFloat64x2Cid | kArrayCid | kImmutableArrayCid
  | kOneByteStringCid | kTwoByteStringCid
  | kTypedDataInt8ArrayCid | kTypedDataUint8ArrayCid | kTypedDataUint8ClampedArrayCid
  | kExternalTypedDataUint8ArrayCid | kExternalTypedDataUint8ClampedArrayCid
  | kTypedDataInt16ArrayCid | kTypedDataUint16ArrayCid
  | kTypedDataInt32ArrayCid | kTypedDataUint32ArrayCid
  | kTypedDataFloat32ArrayCid | kTypedDataFloat64ArrayCid
  | kTypedDataFloat32x4ArrayCid | kTypedDataInt32x4ArrayCid | kTypedDataFloat64x2ArrayCid

datatype Object = Smi int | NullObject | BoolObject bool | FieldObject nat | OtherObject nat

text \<open>The source of a no-barrier store: the overloads take a register or a constant.\<close>

datatype StoreSource = FromRegister Register | FromConstant Object

text \<open>The instructions and macro-instructions the lowering calls on the assembler.
  Families that differ only in the operation share one constructor; the source's
  mnemonics are the abbreviations below.\<close>

datatype DataOp = op_add | op_adds | op_sub | op_subs | op_and | op_orr | op_eor

datatype ImmOp =
    op_AddImmediate | op_AddImmediateSetFlags | op_SubImmediateSetFlags
  | op_AndImmediate | op_OrImmediate | op_XorImmediate

datatype RegOp = op_mul | op_smulh | op_sdiv | op_lslv | op_asrv

datatype FpuInstr =
    FLDRS VRegister Address
  | FLDRD VRegister Address
  | FLDRQ VRegister Address
  | FSTRS VRegister Address
  | StoreDToOffset VRegister Register int
  | StoreQToOffset VRegister Register int
  | FCMPD VRegister VRegister
  | SCVTFD VRegister Register
  | LoadDFieldFromOffset VRegister Register int
  | StoreDFieldToOffset VRegister Register int
  | LoadQFieldFromOffset VRegister Register int
  | StoreQFieldToOffset VRegister Register int

datatype HeapInstr =
    LoadFieldFromOffset Register Register int
  | LoadFromOffset Register Register int OperandSize
  | StoreIntoObject Register Address Register
  | StoreIntoObjectNoBarrier Register Address StoreSource
  | StoreIntoObjectOffset Register int Register bool
  | StoreIntoObjectOffsetNoBarrier Register int StoreSource
  | TryAllocate ClassId Label Register Register
  | SaveLiveRegisters "Register list" "VRegister list"
  | RestoreLiveRegisters "Register list" "VRegister list"
  | GenerateCall ClassId
  | CompareClassId Register ClassId

datatype Instr =
    B Label
  | B_cond Label Condition
  | Bind Label
  | Data DataOp Register Register Operand
  | ImmMacro ImmOp Register Register int
  | Reg3 RegOp Register Register Register
  | MSUB Register Register Register Register
  | CSEL Register Register Register Condition
  | Asr Register Register nat
  | Lsl Register Register nat
  | LoadImmediate Register int
  | LoadObject Register Object
  | CompareImmediate Register int
  | CompareObject Register Object
  | TSTI Register int
  | Ldr Register Address OperandSize
  | Str Register Address OperandSize
  | Fpu FpuInstr
  | Heap HeapInstr
  | Comment string

abbreviation ADD :: "Register \<Rightarrow> Register \<Rightarrow> Operand \<Rightarrow> Instr" where "ADD \<equiv> Data op_add"
abbreviation ADDS :: "Register \<Rightarrow> Register \<Rightarrow> Operand \<Rightarrow> Instr" where "ADDS \<equiv> Data op_adds"
abbreviation SUB :: "Register \<Rightarrow> Register \<Rightarrow> Operand \<Rightarrow> Instr" where "SUB \<equiv> Data op_sub"
abbreviation SUBS :: "Register \<Rightarrow> Register \<Rightarrow> Operand \<Rightarrow> Instr" where "SUBS \<equiv> Data op_subs"
abbreviation ANDR :: "Register \<Rightarrow> Register \<Rightarrow> Operand \<Rightarrow> Instr" where "ANDR \<equiv> Data op_and"
abbreviation ORR :: "Register \<Rightarrow> Register \<Rightarrow> Operand \<Rightarrow> Instr" where "ORR \<equiv> Data op_orr"
abbreviation EOR :: "Register \<Rightarrow> Register \<Rightarrow> Operand \<Rightarrow> Instr" where "EOR \<equiv> Data op_eor"
abbreviation MUL :: "Register \<Rightarrow> Register \<Rightarrow> Register \<Rightarrow> Instr" where "MUL \<equiv> Reg3 op_mul"
abbreviation SMULH :: "Register \<Rightarrow> Register \<Rightarrow> Register \<Rightarrow> Instr" where "SMULH \<equiv> Reg3 op_smulh"
abbreviation SDIV :: "Register \<Rightarrow> Register \<Rightarrow> Register \<Rightarrow> Instr" where "SDIV \<equiv> Reg3 op_sdiv"
abbreviation LSLV :: "Register \<Rightarrow> Register \<Rightarrow> Register \<Rightarrow> Instr" where "LSLV \<equiv> Reg3 op_lslv"
abbreviation ASRV :: "Register \<Rightarrow> Register \<Rightarrow> Register \<Rightarrow> Instr" where "ASRV \<equiv> Reg3 op_asrv"
abbreviation AddImmediate :: "Register \<Rightarrow> Register \<Rightarrow> int \<Rightarrow> Instr" where
  "AddImmediate \<equiv> ImmMacro op_AddImmediate"
abbreviation AddImmediateSetFlags :: "Register \<Rightarrow> Register \<Rightarrow> int \<Rightarrow> Instr" where
  "AddImmediateSetFlags \<equiv> ImmMacro op_AddImmediateSetFlags"
abbreviation SubImmediateSetFlags :: "Register \<Rightarrow> Register \<Rightarrow> int \<Rightarrow> Instr" where
  "SubImmediateSetFlags \<equiv> ImmMacro op_SubImmediateSetFlags"
abbreviation AndImmediate :: "Register \<Rightarrow> Register \<Rightarrow> int \<Rightarrow> Instr" where
  "AndImmediate \<equiv> ImmMacro op_AndImmediate"
abbreviation OrImmediate :: "Register \<Rightarrow> Register \<Rightarrow> int \<Rightarrow> Instr" where
  "OrImmediate \<equiv> ImmMacro op_OrImmediate"
abbreviation XorImmediate :: "Register \<Rightarrow> Register \<Rightarrow> int \<Rightarrow> Instr" where
  "XorImmediate \<equiv> ImmMacro op_XorImmediate"

text \<open>Assembler aliases: \<open>cmp\<close> is \<open>subs\<close> into the zero register, \<open>mov\<close> is \<open>orr\<close> with
  the zero register, \<open>SmiTag\<close> and \<open>SmiUntag\<close> shift by \<open>kSmiTagSize\<close>.\<close>

abbreviation CMP :: "Register \<Rightarrow> Operand \<Rightarrow> Instr" where
  "CMP rn opnd \<equiv> Data op_subs ZR rn opnd"
abbreviation CompareRegisters :: "Register \<Rightarrow> Register \<Rightarrow> Instr" where
  "CompareRegisters rn rm \<equiv> Data op_subs ZR rn (Operand_reg rm)"
abbreviation MOV :: "Register \<Rightarrow> Register \<Rightarrow> Instr" where
  "MOV rd' rm \<equiv> Data op_orr rd' ZR (Operand_reg rm)"
abbreviation SmiTag :: "Register \<Rightarrow> Instr" where
  "SmiTag r \<equiv> Lsl r r 1"
abbreviation SmiUntag :: "Register \<Rightarrow> Instr" where
  "SmiUntag r \<equiv> Asr r r 1"

subsection \<open>Semantics of the instructions\<close>

definition add_flags :: "64 word \<Rightarrow> 64 word \<Rightarrow> nzcv" where
  "add_flags a b =
     \<lparr>flagN = (sint (a + b) < 0), flagZ = (a + b = 0),
      flagC = (2 ^ 64 \<le> uint a + uint b), flagV = (sint (a + b) \<noteq> sint a + sint b)\<rparr>"

definition sub_flags :: "64 word \<Rightarrow> 64 word \<Rightarrow> nzcv" where
  "sub_flags a b =
     \<lparr>flagN = (sint (a - b) < 0), flagZ = (a - b = 0),
      flagC = (uint b \<le> uint a), flagV = (sint (a - b) \<noteq> sint a - sint b)\<rparr>"

definition logic_flags :: "64 word \<Rightarrow> nzcv" where
  "logic_flags r = \<lparr>flagN = (sint r < 0), flagZ = (r = 0), flagC = False, flagV = False\<rparr>"

text \<open>\<open>sdiv\<close> rounds towards zero; dividing by zero yields zero and nothing traps.\<close>

definition trunc_div :: "int \<Rightarrow> int \<Rightarrow> int" where
  "trunc_div a b = sgn a * sgn b * (\<bar>a\<bar> div \<bar>b\<bar>)"

definition sdiv64 :: "64 word \<Rightarrow> 64 word \<Rightarrow> 64 word" where
  "sdiv64 a b = (if b = 0 then 0 else word_of_int (trunc_div (sint a) (sint b)))"

text \<open>\<open>smulh\<close>: bits 64..127 of the signed 128-bit product.\<close>

definition smulh64 :: "64 word \<Rightarrow> 64 word \<Rightarrow> 64 word" where
  "smulh64 a b = word_of_int ((sint a * sint b) div 2 ^ 64)"

fun operand_value :: "cpu \<Rightarrow> Operand \<Rightarrow> 64 word" where
  "operand_value s (Operand_reg r) = rd s r"
| "operand_value s (Operand_shifted r LSL n) = push_bit n (rd s r)"
| "operand_value s (Operand_shifted r LSR n) = drop_bit n (rd s r)"
| "operand_value s (Operand_shifted r ASR n) = signed_drop_bit n (rd s r)"
| "operand_value s (Operand_imm i) = word_of_int i"

fun address_value :: "cpu \<Rightarrow> Address \<Rightarrow> 64 word" where
  "address_value s (Address_offset rn off) = rd s rn + word_of_int off"
| "address_value s (Address_reg rn rm) = rd s rn + rd s rm"

text \<open>Little-endian memory access of \<open>n\<close> bytes.\<close>

fun load_le :: "(64 word \<Rightarrow> 8 word) \<Rightarrow> 64 word \<Rightarrow> nat \<Rightarrow> 64 word" where
  "load_le m a 0 = 0"
| "load_le m a (Suc n) = or (ucast (m a)) (push_bit 8 (load_le m (a + 1) n))"

fun store_le :: "(64 word \<Rightarrow> 8 word) \<Rightarrow> 64 word \<Rightarrow> nat \<Rightarrow> 64 word \<Rightarrow> (64 word \<Rightarrow> 8 word)" where
  "store_le m a 0 v = m"
| "store_le m a (Suc n) v = store_le (m(a := ucast v)) (a + 1) n (drop_bit 8 v)"

fun size_bytes :: "OperandSize \<Rightarrow> nat" where
  "size_bytes kByte = 1"
| "size_bytes kUnsignedByte = 1"
| "size_bytes kHalfword = 2"
| "size_bytes kUnsignedHalfword = 2"
| "size_bytes kWord = 4"
| "size_bytes kUnsignedWord = 4"
| "size_bytes kDoubleWord = 8"

fun extend_loaded :: "OperandSize \<Rightarrow> 64 word \<Rightarrow> 64 word" where
  "extend_loaded kByte w = signed_take_bit 7 w"
| "extend_loaded kHalfword w = signed_take_bit 15 w"
| "extend_loaded kWord w = signed_take_bit 31 w"
| "extend_loaded sz w = w"

definition load_sized :: "cpu \<Rightarrow> 64 word \<Rightarrow> OperandSize \<Rightarrow> 64 word" where
  "load_sized s a sz = extend_loaded sz (load_le (mem s) a (size_bytes sz))"

definition kHeapObjectTag :: int where "kHeapObjectTag = 1"

text \<open>\<open>fcmpd\<close> on bit patterns: a NaN has all exponent bits set and a non-zero
  fraction; otherwise sign and magnitude order the two values, the two zeros being
  equal. Unordered sets C and V.\<close>

definition is_nan :: "64 word \<Rightarrow> bool" where
  "is_nan d = (0x7FF0000000000000 < and d 0x7FFFFFFFFFFFFFFF)"

definition double_key :: "64 word \<Rightarrow> int" where
  "double_key d =
     (if bit d 63 then - uint (and d 0x7FFFFFFFFFFFFFFF) else uint d)"

definition fcmp_flags :: "64 word \<Rightarrow> 64 word \<Rightarrow> nzcv" where
  "fcmp_flags a b =
     (if is_nan a \<or> is_nan b
        then \<lparr>flagN = False, flagZ = False, flagC = True, flagV = True\<rparr>
      else if double_key a = double_key b
        then \<lparr>flagN = False, flagZ = True, flagC = True, flagV = False\<rparr>
      else if double_key a < double_key b
        then \<lparr>flagN = True, flagZ = False, flagC = False, flagV = False\<rparr>
      else \<lparr>flagN = False, flagZ = False, flagC = True, flagV = False\<rparr>)"

text \<open>The raw word of a constant object. A Smi is its tagged value; the addresses of
  the other constants are fixed by the object store, which is a parameter here.\<close>

record ObjectStore =
  null_raw :: "64 word"
  true_raw :: "64 word"
  false_raw :: "64 word"
  other_raw :: "nat \<Rightarrow> 64 word"
  field_raw :: "nat \<Rightarrow> 64 word"

fun object_raw :: "ObjectStore \<Rightarrow> Object \<Rightarrow> 64 word" where
  "object_raw os (Smi v) = tagged v"
| "object_raw os NullObject = null_raw os"
| "object_raw os (BoolObject b) = (if b then true_raw os else false_raw os)"
| "object_raw os (FieldObject n) = field_raw os n"
| "object_raw os (OtherObject n) = other_raw os n"

text \<open>Instance sizes of the boxed numeric classes (header word plus payload, rounded
  to the allocation unit of 16 bytes).\<close>

fun instance_size :: "ClassId \<Rightarrow> int" where
  "instance_size kDoubleCid = 16"
| "instance_size kFloat32x4Cid = 32"
| "instance_size kInt32x4Cid = 32"
| "instance_size kFloat64x2Cid = 32"
| "instance_size c = 16"

datatype step_result = Next nzcv cpu | Goto Label nzcv cpu | Halt


fun data_result :: "DataOp \<Rightarrow> 64 word \<Rightarrow> 64 word \<Rightarrow> 64 word" where
  "data_result op_add a b = a + b"
| "data_result op_adds a b = a + b"
| "data_result op_sub a b = a - b"
| "data_result op_subs a b = a - b"
| "data_result op_and a b = and a b"
| "data_result op_orr a b = or a b"
| "data_result op_eor a b = xor a b"

fun data_flags :: "DataOp \<Rightarrow> 64 word \<Rightarrow> 64 word \<Rightarrow> nzcv \<Rightarrow> nzcv" where
  "data_flags op_adds a b f = add_flags a b"
| "data_flags op_subs a b f = sub_flags a b"
| "data_flags opr a b f = f"

fun imm_result :: "ImmOp \<Rightarrow> 64 word \<Rightarrow> 64 word \<Rightarrow> 64 word" where
  "imm_result op_AddImmediate a b = a + b"
| "imm_result op_AddImmediateSetFlags a b = a + b"
| "imm_result op_SubImmediateSetFlags a b = a - b"
| "imm_result op_AndImmediate a b = and a b"
| "imm_result op_OrImmediate a b = or a b"
| "imm_result op_XorImmediate a b = xor a b"

fun imm_flags :: "ImmOp \<Rightarrow> 64 word \<Rightarrow> 64 word \<Rightarrow> nzcv \<Rightarrow> nzcv" where
  "imm_flags op_AddImmediateSetFlags a b f = add_flags a b"
| "imm_flags op_SubImmediateSetFlags a b f = sub_flags a b"
| "imm_flags opr a b f = f"

text \<open>The variable shifts use the low six bits of the count register.\<close>

fun reg_result :: "RegOp \<Rightarrow> 64 word \<Rightarrow> 64 word \<Rightarrow> 64 word" where
  "reg_result op_mul a b = a * b"
| "reg_result op_smulh a b = smulh64 a b"
| "reg_result op_sdiv a b = sdiv64 a b"
| "reg_result op_lslv a b = push_bit (unat b mod 64) a"
| "reg_result op_asrv a b = signed_drop_bit (unat b mod 64) a"

text \<open>Modelled from the spec: the assembler (the encoder collaborator of section 6),
  the allocation stubs and the compiler's register save and restore are not part of
  this file. \<open>TryAllocate\<close> is the bump allocation of section 4.4: when the object fits
  below the end of the allocation area the tagged address of the new object is put in
  the instance register, the top is advanced and the header word is written through
  the scratch register; otherwise control goes to the failure label. A field access at
  a field offset subtracts the heap-object tag. \<open>SaveLiveRegisters\<close> and
  \<open>RestoreLiveRegisters\<close> push and pop the listed registers, the vector registers at
  their full width. \<open>GenerateCall\<close> of an allocation stub returns in \<open>R0\<close> and may change
  every other register and memory; what it leaves is taken from \<open>stub_results\<close>. A
  double-precision load clears the upper half of the vector register; a quad access
  moves 16 bytes, the lower half at the lower address. The four \<open>StoreIntoObject\<close> macros
  write the word to the slot; the two without \<open>NoBarrier\<close> in their name are the ones
  with the write barrier (section 4.7), and \<open>store_log\<close> records which one ran. The update
  of the store buffer inside the barrier is the assembler's and is not described.\<close>

definition load_q :: "VRegister \<Rightarrow> 64 word \<Rightarrow> cpu \<Rightarrow> cpu" where
  "load_q vd a s =
     s\<lparr>vregs := (vregs s)(vd := load_le (mem s) a 8),
       vregs_hi := (vregs_hi s)(vd := load_le (mem s) (a + 8) 8)\<rparr>"

definition store_q :: "VRegister \<Rightarrow> 64 word \<Rightarrow> cpu \<Rightarrow> cpu" where
  "store_q vt a s =
     s\<lparr>mem := store_le (store_le (mem s) a 8 (vregs s vt)) (a + 8) 8 (vregs_hi s vt)\<rparr>"

definition load_d :: "VRegister \<Rightarrow> 64 word \<Rightarrow> cpu \<Rightarrow> cpu" where
  "load_d vd a s =
     s\<lparr>vregs := (vregs s)(vd := load_le (mem s) a 8), vregs_hi := (vregs_hi s)(vd := 0)\<rparr>"

fun step_fpu :: "FpuInstr \<Rightarrow> nzcv \<Rightarrow> cpu \<Rightarrow> step_result" where
  "step_fpu (FCMPD vn vm) f s = Next (fcmp_flags (vregs s vn) (vregs s vm)) s"
| "step_fpu (FLDRD vd a) f s = Next f (load_d vd (address_value s a) s)"
| "step_fpu (FLDRQ vd a) f s = Next f (load_q vd (address_value s a) s)"
| "step_fpu (StoreDToOffset vt rn off) f s =
     Next f (s\<lparr>mem := store_le (mem s) (rd s rn + word_of_int off) 8 (vregs s vt)\<rparr>)"
| "step_fpu (StoreQToOffset vt rn off) f s = Next f (store_q vt (rd s rn + word_of_int off) s)"
| "step_fpu (LoadDFieldFromOffset vd rn off) f s =
     Next f (load_d vd (rd s rn + word_of_int (off - kHeapObjectTag)) s)"
| "step_fpu (StoreDFieldToOffset vt rn off) f s =
     Next f (s\<lparr>mem := store_le (mem s)
        (rd s rn + word_of_int (off - kHeapObjectTag)) 8 (vregs s vt)\<rparr>)"
| "step_fpu (LoadQFieldFromOffset vd rn off) f s =
     Next f (load_q vd (rd s rn + word_of_int (off - kHeapObjectTag)) s)"
| "step_fpu (StoreQFieldToOffset vt rn off) f s =
     Next f (store_q vt (rd s rn + word_of_int (off - kHeapObjectTag)) s)"
| "step_fpu other f s = Halt"

definition class_header :: "ClassId \<Rightarrow> 64 word" where
  "class_header c = word_of_int (instance_size c)"

fun restore_x :: "(Register \<times> 64 word) list \<Rightarrow> (Register \<Rightarrow> 64 word) \<Rightarrow> (Register \<Rightarrow> 64 word)" where
  "restore_x [] g = g"
| "restore_x ((r, v) # rest) g = restore_x rest (g(r := v))"

fun source_value :: "ObjectStore \<Rightarrow> cpu \<Rightarrow> StoreSource \<Rightarrow> 64 word" where
  "source_value os s (FromRegister r) = rd s r"
| "source_value os s (FromConstant c) = object_raw os c"

definition object_store :: "64 word \<Rightarrow> 64 word \<Rightarrow> 64 word \<Rightarrow> bool \<Rightarrow> cpu \<Rightarrow> cpu" where
  "object_store obj slot v barrier s =
     s\<lparr>mem := store_le (mem s) slot 8 v,
       store_log := store_log s
         @ [\<lparr>se_object = obj, se_slot = slot, se_value = v, se_barrier = barrier\<rparr>]\<rparr>"

fun step_heap :: "ObjectStore \<Rightarrow> HeapInstr \<Rightarrow> nzcv \<Rightarrow> cpu \<Rightarrow> step_result" where
  "step_heap os (LoadFieldFromOffset rt rn off) f s =
     Next f (wr rt (load_le (mem s) (rd s rn + word_of_int (off - kHeapObjectTag)) 8) s)"
| "step_heap os (LoadFromOffset rt rn off sz) f s =
     Next f (wr rt (load_sized s (rd s rn + word_of_int off) sz) s)"
| "step_heap os (StoreIntoObject obj a v) f s =
     Next f (object_store (rd s obj) (address_value s a) (rd s v) True s)"
| "step_heap os (StoreIntoObjectNoBarrier obj a src) f s =
     Next f (object_store (rd s obj) (address_value s a) (source_value os s src) False s)"
| "step_heap os (StoreIntoObjectOffset obj off v can_value_be_smi) f s =
     Next f (object_store (rd s obj) (rd s obj + word_of_int (off - kHeapObjectTag))
               (rd s v) True s)"
| "step_heap os (StoreIntoObjectOffsetNoBarrier obj off src) f s =
     Next f (object_store (rd s obj) (rd s obj + word_of_int (off - kHeapObjectTag))
               (source_value os s src) False s)"
| "step_heap os (TryAllocate cls failure instance_reg temp_reg) f s =
     (if uint (heap_top s) + instance_size cls \<le> uint (heap_end s)
      then Next f
        (wr temp_reg (class_header cls)
          (wr instance_reg (heap_top s + word_of_int kHeapObjectTag)
            (s\<lparr>mem := store_le (mem s) (heap_top s) 8 (class_header cls),
               heap_top := heap_top s + word_of_int (instance_size cls)\<rparr>)))
      else Goto failure f s)"
| "step_heap os (SaveLiveRegisters xs vs) f s =
     Next f (s\<lparr>saved_x := map (\<lambda>r. (r, xregs s r)) xs # saved_x s,
              saved_v := map (\<lambda>r. (r, vregs s r)) vs # saved_v s,
              saved_v_hi := map (\<lambda>r. (r, vregs_hi s r)) vs # saved_v_hi s\<rparr>)"
| "step_heap os (RestoreLiveRegisters xs vs) f s =
     (case (saved_x s, saved_v s, saved_v_hi s) of
        (sx # restx, sv # restv, svh # restvh) \<Rightarrow>
          Next f (s\<lparr>xregs := restore_x sx (xregs s), vregs := restore_x sv (vregs s),
                   vregs_hi := restore_x svh (vregs_hi s),
                   saved_x := restx, saved_v := restv, saved_v_hi := restvh\<rparr>)
      | _ \<Rightarrow> Halt)"
| "step_heap os (GenerateCall cls) f s =
     (case stub_results s of
        [] \<Rightarrow> Halt
      | r # rest \<Rightarrow>
          Next f (s\<lparr>xregs := (sr_xregs r)(R0 := sr_object r), vregs := sr_vregs r,
                   vregs_hi := sr_vregs_hi r, mem := sr_mem r, stub_results := rest\<rparr>))"
| "step_heap os other f s = Halt"

text \<open>One instruction. \<open>Halt\<close> stands for an instruction whose effect is not described
  here (single-precision accesses, conversions, the class id comparison).\<close>

fun step :: "ObjectStore \<Rightarrow> Instr \<Rightarrow> nzcv \<Rightarrow> cpu \<Rightarrow> step_result" where
  "step os (B l) f s = Goto l f s"
| "step os (B_cond l c) f s = (if condition_holds c f then Goto l f s else Next f s)"
| "step os (Bind l) f s = Next f s"
| "step os (Data opr rd' rn opnd) f s =
     Next (data_flags opr (rd s rn) (operand_value s opnd) f)
          (wr rd' (data_result opr (rd s rn) (operand_value s opnd)) s)"
| "step os (ImmMacro opr rd' rn imm) f s =
     Next (imm_flags opr (rd s rn) (word_of_int imm) f)
          (wr rd' (imm_result opr (rd s rn) (word_of_int imm)) s)"
| "step os (Reg3 opr rd' rn rm) f s = Next f (wr rd' (reg_result opr (rd s rn) (rd s rm)) s)"
| "step os (MSUB rd' rn rm ra) f s = Next f (wr rd' (rd s ra - rd s rn * rd s rm) s)"
| "step os (CSEL rd' rn rm c) f s =
     Next f (wr rd' (if condition_holds c f then rd s rn else rd s rm) s)"
| "step os (Asr rd' rn n) f s = Next f (wr rd' (signed_drop_bit n (rd s rn)) s)"
| "step os (Lsl rd' rn n) f s = Next f (wr rd' (push_bit n (rd s rn)) s)"
| "step os (LoadImmediate rd' imm) f s = Next f (wr rd' (word_of_int imm) s)"
| "step os (LoadObject rd' obj) f s = Next f (wr rd' (object_raw os obj) s)"
| "step os (CompareImmediate rn imm) f s = Next (sub_flags (rd s rn) (word_of_int imm)) s"
| "step os (CompareObject rn obj) f s = Next (sub_flags (rd s rn) (object_raw os obj)) s"
| "step os (TSTI rn imm) f s = Next (logic_flags (and (rd s rn) (word_of_int imm))) s"
| "step os (Ldr rt a sz) f s = Next f (wr rt (load_sized s (address_value s a) sz) s)"
| "step os (Str rt a sz) f s =
     Next f (s\<lparr>mem := store_le (mem s) (address_value s a) (size_bytes sz) (rd s rt)\<rparr>)"
| "step os (Fpu i) f s = step_fpu i f s"
| "step os (Heap i) f s = step_heap os i f s"
| "step os (Comment c) f s = Next f s"

text \<open>Running an emitted sequence. Every branch in the sequences below is a forward
  branch: a taken branch skips to the \<open>Bind\<close> of its label if that follows in the
  sequence, and leaves the sequence for that label otherwise.\<close>

datatype outcome = Fallthrough nzcv cpu | Taken Label nzcv cpu | Stuck

fun run :: "ObjectStore \<Rightarrow> Instr list \<Rightarrow> Label option \<Rightarrow> nzcv \<Rightarrow> cpu \<Rightarrow> outcome" where
  "run os [] None f s = Fallthrough f s"
| "run os [] (Some l) f s = Taken l f s"
| "run os (i # rest) (Some l) f s =
     (if i = Bind l then run os rest None f s else run os rest (Some l) f s)"
| "run os (i # rest) None f s =
     (case step os i f s of
        Next f' s' \<Rightarrow> run os rest None f' s'
      | Goto l f' s' \<Rightarrow> run os rest (Some l) f' s'
      | Halt \<Rightarrow> Stuck)"

definition exec :: "ObjectStore \<Rightarrow> Instr list \<Rightarrow> nzcv \<Rightarrow> cpu \<Rightarrow> outcome" where
  "exec os code f s = run os code None f s"

subsection \<open>Emission helpers\<close>

text \<open>Emission either yields the instructions appended to the buffer or stops the
  compiler (\<open>UNREACHABLE\<close>, a failed \<open>ASSERT\<close>, a branch to a \<open>NULL\<close> label): \<open>None\<close>.\<close>

fun emit_all :: "Instr list option list \<Rightarrow> Instr list option" where
  "emit_all [] = Some []"
| "emit_all (None # rest) = None"
| "emit_all (Some xs # rest) = (case emit_all rest of None \<Rightarrow> None | Some ys \<Rightarrow> Some (xs @ ys))"

fun b_to :: "Label option \<Rightarrow> Instr list option" where
  "b_to None = None"
| "b_to (Some l) = Some [B l]"

fun b_cond_to :: "Label option \<Rightarrow> Condition \<Rightarrow> Instr list option" where
  "b_cond_to None c = None"
| "b_cond_to (Some l) c = Some [B_cond l c]"

subsection \<open>Comparison and branch protocol\<close>

record BranchLabels =
  true_label :: Label
  false_label :: Label
  fall_through :: Label

definition EmitBranchOnCondition :: "Condition \<Rightarrow> BranchLabels \<Rightarrow> Instr list option" where
  "EmitBranchOnCondition true_condition labels =
     (if fall_through labels = false_label labels
      then Some [B_cond (true_label labels) true_condition]
      else (case NegateCondition true_condition of
              None \<Rightarrow> None
            | Some false_condition \<Rightarrow>
                Some ([B_cond (false_label labels) false_condition] @
                      (if fall_through labels \<noteq> true_label labels
                       then [B (true_label labels)] else []))))"

text \<open>Where control is after an emitted sequence: at the label a branch left for, or,
  having run off the end, at the fall-through label (the block emitted next).\<close>

fun reaches :: "outcome \<Rightarrow> Label \<Rightarrow> Label \<Rightarrow> bool" where
  "reaches (Taken l f s) fall target = (l = target)"
| "reaches (Fallthrough f s) fall target = (fall = target)"
| "reaches Stuck fall target = False"


subsection \<open>Locations\<close>

text \<open>The concrete bindings of \<open>Location\<close> that emission reads. Asking a location for a
  kind it does not have (\<open>reg()\<close> of a constant, \<open>Smi::Cast\<close> of a non-Smi) fails an
  assertion.\<close>

datatype Location =
    RegisterLocation Register
  | FpuRegisterLocation VRegister
  | Constant Object
  | StackSlot int
  | NoLocation

text \<open>An operand location holds the Smi value \<open>v\<close>: an allocated register with the
  tagged word, or the Smi constant itself.\<close>

fun holds_smi :: "cpu \<Rightarrow> Location \<Rightarrow> int \<Rightarrow> bool" where
  "holds_smi s (RegisterLocation r) v = (allocatable r \<and> xregs s r = tagged v)"
| "holds_smi s (Constant (Smi c)) v = (c = v)"
| "holds_smi s other v = False"

subsection \<open>CheckArrayBoundInstr\<close>

record CheckArrayBoundInstr =
  cab_deopt_id :: nat
  cab_length_loc :: Location
  cab_index_loc :: Location

definition CheckArrayBoundInstr_EmitNativeCode :: "CheckArrayBoundInstr \<Rightarrow> Instr list option" where
  "CheckArrayBoundInstr_EmitNativeCode i =
     (let deopt = DeoptStub (cab_deopt_id i) kDeoptCheckArrayBound in
      case (cab_length_loc i, cab_index_loc i) of
        (Constant (Smi length_value), Constant (Smi index_value)) \<Rightarrow>
          (if length_value > index_value \<and> index_value \<ge> 0 then Some [] else Some [B deopt])
      | (RegisterLocation length_reg, Constant (Smi index_value)) \<Rightarrow>
          Some [CompareImmediate length_reg (smi_raw index_value), B_cond deopt LS]
      | (Constant (Smi length_value), RegisterLocation index_reg) \<Rightarrow>
          Some [CompareImmediate index_reg (smi_raw length_value), B_cond deopt CS]
      | (RegisterLocation length_reg, RegisterLocation index_reg) \<Rightarrow>
          Some [CompareRegisters index_reg length_reg, B_cond deopt CS]
      | _ \<Rightarrow> None)"

subsection \<open>Example machine states\<close>

definition cpu_of :: "(Register \<Rightarrow> 64 word) \<Rightarrow> (VRegister \<Rightarrow> 64 word) \<Rightarrow> cpu" where
  "cpu_of xs vs =
     \<lparr>xregs = xs, vregs = vs, vregs_hi = (\<lambda>r. 0), mem = (\<lambda>a. 0),
      heap_top = 4096, heap_end = 8192,
      saved_x = [], saved_v = [], saved_v_hi = [], stub_results = [], store_log = []\<rparr>"

definition example_store :: ObjectStore where
  "example_store =
     \<lparr>null_raw = 17, true_raw = 33, false_raw = 49,
      other_raw = (\<lambda>n. 65 + 16 * of_nat n), field_raw = (\<lambda>n. 1025 + 16 * of_nat n)\<rparr>"

definition clear_flags :: nzcv where
  "clear_flags = \<lparr>flagN = False, flagZ = False, flagC = False, flagV = False\<rparr>"

subsection \<open>BinarySmiOpInstr\<close>

datatype TokenKind =
    kADD | kSUB | kMUL | kTRUNCDIV | kMOD | kDIV | kBIT_AND | kBIT_OR | kBIT_XOR
  | kSHR | kSHL | kAND | kOR | kEQ | kNE | kLT | kGT | kLTE | kGTE

text \<open>Modelled from the spec: the range analysis (class \<open>Range\<close>) is not part of this
  file. A range is the pair of constant bounds that the analysis has proven; \<open>NULL\<close>
  (no range known) is \<open>None\<close>. \<open>IsWithin\<close> and \<open>Overlaps\<close> compare the bounds with a
  closed interval.\<close>

record Range =
  range_min :: int
  range_max :: int

definition IsWithin :: "Range \<Rightarrow> int \<Rightarrow> int \<Rightarrow> bool" where
  "IsWithin r lo hi = (lo \<le> range_min r \<and> range_max r \<le> hi)"

definition Overlaps :: "Range \<Rightarrow> int \<Rightarrow> int \<Rightarrow> bool" where
  "Overlaps r lo hi = (\<not> (range_max r < lo \<or> hi < range_min r))"

definition in_range :: "Range option \<Rightarrow> int \<Rightarrow> bool" where
  "in_range r v = (case r of None \<Rightarrow> True | Some rg \<Rightarrow> range_min rg \<le> v \<and> v \<le> range_max rg)"

definition kMinusInfinity :: int where "kMinusInfinity = kSmiMin - 1"
definition kPlusInfinity :: int where "kPlusInfinity = kSmiMax + 1"

text \<open>\<open>Utils::IsPowerOfTwo\<close>, \<open>Utils::ShiftForPowerOfTwo\<close> and \<open>Utils::HighestBit\<close>.\<close>

definition IsPowerOfTwo :: "int \<Rightarrow> bool" where
  "IsPowerOfTwo x = (and x (x - 1) = 0 \<and> x \<noteq> 0)"

fun floor_log2 :: "nat \<Rightarrow> nat" where
  "floor_log2 n = (if n \<le> 1 then 0 else Suc (floor_log2 (n div 2)))"

definition ShiftForPowerOfTwo :: "int \<Rightarrow> nat" where
  "ShiftForPowerOfTwo x = floor_log2 (nat x)"

definition HighestBit :: "int \<Rightarrow> nat" where
  "HighestBit v = floor_log2 (nat \<bar>v\<bar>)"

record BinarySmiOpInstr =
  bso_op_kind :: TokenKind
  bso_is_truncating :: bool
  bso_CanDeoptimize :: bool
  bso_deopt_id :: nat
  bso_in0 :: Location
  bso_in1 :: Location
  bso_out0 :: Location
  bso_temp0 :: Location
  bso_range :: "Range option"
  bso_right_range :: "Range option"
  bso_left_BoundConstant :: "Object option"

definition EmitJavascriptOverflowCheck ::
    "Range option \<Rightarrow> Label option \<Rightarrow> Register \<Rightarrow> Instr list option" where
  "EmitJavascriptOverflowCheck rng overflow result =
     (case rng of
        None \<Rightarrow> None
      | Some r \<Rightarrow>
          if \<not> IsWithin r (- 0x20000000000000) 0x20000000000000
          then (case overflow of
                  None \<Rightarrow> None
                | Some l \<Rightarrow>
                    Some [CompareImmediate result (- 0x20000000000000), B_cond l LT,
                          CompareImmediate result 0x20000000000000, B_cond l GT])
          else Some [])"

definition js_check :: "bool \<Rightarrow> Range option \<Rightarrow> Label option \<Rightarrow> Register \<Rightarrow> Instr list option" where
  "js_check FLAG_throw_on_javascript_int_overflow rng deopt result =
     (if FLAG_throw_on_javascript_int_overflow
      then EmitJavascriptOverflowCheck rng deopt result else Some [])"

fun reg_of :: "Location \<Rightarrow> Register option" where
  "reg_of (RegisterLocation r) = Some r"
| "reg_of other = None"

definition EmitSmiShiftLeft :: "bool \<Rightarrow> BinarySmiOpInstr \<Rightarrow> Instr list option" where
  "EmitSmiShiftLeft FLAG_js shift_left =
     (let is_truncating = bso_is_truncating shift_left;
          deopt = (if bso_CanDeoptimize shift_left
                   then Some (DeoptStub (bso_deopt_id shift_left) kDeoptBinarySmiOp) else None);
          right_range = bso_right_range shift_left
      in case (bso_in0 shift_left, bso_out0 shift_left) of
        (RegisterLocation left, RegisterLocation result) \<Rightarrow>
          (case bso_in1 shift_left of
             Constant c \<Rightarrow>
               (case c of
                  Smi v \<Rightarrow>
                    emit_all
                      [if v = 0 then Some [MOV result left]
                       else if v < 0 \<or> v \<ge> 0x3F then
                         (if v \<ge> 0x3F \<and> is_truncating then Some [MOV result ZR] else b_to deopt)
                       else emit_all
                         [if \<not> is_truncating
                          then emit_all
                            [Some [Lsl TMP left (nat v),
                                   CMP left (Operand_shifted TMP ASR (nat v))],
                             b_cond_to deopt NE]
                          else Some [],
                          Some [Lsl result left (nat v)]],
                       js_check FLAG_js (bso_range shift_left) deopt result]
                | _ \<Rightarrow> None)
           | RegisterLocation right \<Rightarrow>
               (if bso_left_BoundConstant shift_left \<noteq> None \<and> \<not> is_truncating then
                  (case bso_left_BoundConstant shift_left of
                     Some (Smi left_int) \<Rightarrow>
                       if left_int = 0
                       then emit_all [Some [CompareRegisters right ZR], b_cond_to deopt MI,
                                      Some [MOV result ZR]]
                       else
                         (let max_right = int kSmiBits - int (HighestBit left_int);
                              right_needs_check =
                                (case right_range of None \<Rightarrow> True
                                 | Some r \<Rightarrow> \<not> IsWithin r 0 (max_right - 1))
                          in emit_all
                            [if right_needs_check
                             then emit_all [Some [CompareImmediate right (smi_raw max_right)],
                                            b_cond_to deopt CS]
                             else Some [],
                             Some [Asr TMP right 1, LSLV result left TMP],
                             js_check FLAG_js (bso_range shift_left) deopt result])
                   | _ \<Rightarrow> js_check FLAG_js (bso_range shift_left) deopt result)
                else
                  (let right_needs_check =
                         (case right_range of None \<Rightarrow> True
                          | Some r \<Rightarrow> \<not> IsWithin r 0 (int kSmiBits - 1))
                   in emit_all
                     [if is_truncating then
                        (if right_needs_check then
                           (let right_may_be_negative =
                                  (case right_range of None \<Rightarrow> True
                                   | Some r \<Rightarrow> \<not> IsWithin r 0 kPlusInfinity)
                            in emit_all
                              [if right_may_be_negative
                               then (if bso_CanDeoptimize shift_left
                                     then emit_all [Some [CompareRegisters right ZR],
                                                    b_cond_to deopt MI]
                                     else None)
                               else Some [],
                               Some [CompareImmediate right (smi_raw (int kSmiBits)),
                                     CSEL result ZR result CS,
                                     Asr TMP right 1,
                                     LSLV TMP left TMP,
                                     CSEL result TMP result CC]])
                         else Some [Asr TMP right 1, LSLV result left TMP])
                      else
                        (case reg_of (bso_temp0 shift_left) of
                           None \<Rightarrow> None
                         | Some temp \<Rightarrow>
                             emit_all
                               [if right_needs_check
                                then (if bso_CanDeoptimize shift_left
                                      then emit_all
                                        [Some [CompareImmediate right (smi_raw (int kSmiBits))],
                                         b_cond_to deopt CS]
                                      else None)
                                else Some [],
                                Some [Asr TMP right 1, LSLV temp left TMP, ASRV TMP2 temp TMP,
                                      CompareRegisters left TMP2],
                                b_cond_to deopt NE,
                                Some [LSLV result left TMP]]),
                      js_check FLAG_js (bso_range shift_left) deopt result]))
           | _ \<Rightarrow> None)
      | _ \<Rightarrow> None)"

text \<open>The \<open>switch\<close> of \<open>BinarySmiOpInstr::EmitNativeCode\<close> for a constant right operand;
  \<open>v\<close> is \<open>Smi::Cast(constant).Value()\<close> and \<open>smi_raw v\<close> the raw tagged immediate.\<close>

fun BinarySmiOp_constant_case ::
    "TokenKind \<Rightarrow> Label option \<Rightarrow> Register \<Rightarrow> Register \<Rightarrow> int \<Rightarrow> Instr list option" where
  "BinarySmiOp_constant_case kADD deopt left result v =
     (case deopt of
        None \<Rightarrow> Some [AddImmediate result left (smi_raw v)]
      | Some d \<Rightarrow> Some [AddImmediateSetFlags result left (smi_raw v), B_cond d VS])"
| "BinarySmiOp_constant_case kSUB deopt left result v =
     (case deopt of
        None \<Rightarrow> Some [AddImmediate result left (- smi_raw v)]
      | Some d \<Rightarrow> Some [SubImmediateSetFlags result left (smi_raw v), B_cond d VS])"
| "BinarySmiOp_constant_case kMUL deopt left result v =
     (case deopt of
        None \<Rightarrow>
          (if v = 2 then Some [Lsl result left 1]
           else Some [LoadImmediate TMP v, MUL result left TMP])
      | Some d \<Rightarrow>
          (if v = 2
           then Some [Asr TMP left 63, Lsl result left 1,
                      CMP TMP (Operand_shifted result ASR 63), B_cond d NE]
           else Some [LoadImmediate TMP v, MUL result left TMP, SMULH TMP left TMP,
                      CMP TMP (Operand_shifted result ASR 63), B_cond d NE]))"
| "BinarySmiOp_constant_case kTRUNCDIV deopt left result v =
     (if v = 1 then Some [MOV result left]
      else if v = - 1 then
        emit_all [Some [CompareImmediate left 0x8000000000000000], b_cond_to deopt EQ,
                  Some [SUB result ZR (Operand_reg left)]]
      else if \<not> IsPowerOfTwo \<bar>v\<bar> then None
      else
        (let shift_count = ShiftForPowerOfTwo \<bar>v\<bar> + 1 in
         if \<not> shift_count > 1 then None
         else Some ([Asr TMP left 63,
                     ADD TMP2 left (Operand_shifted TMP LSR (64 - shift_count)),
                     Asr result TMP2 shift_count] @
                    (if v < 0 then [SUB result ZR (Operand_reg result)] else []) @
                    [SmiTag result])))"
| "BinarySmiOp_constant_case kBIT_AND deopt left result v =
     Some [AndImmediate result left (smi_raw v)]"
| "BinarySmiOp_constant_case kBIT_OR deopt left result v =
     Some [OrImmediate result left (smi_raw v)]"
| "BinarySmiOp_constant_case kBIT_XOR deopt left result v =
     Some [XorImmediate result left (smi_raw v)]"
| "BinarySmiOp_constant_case kSHR deopt left result v =
     (if v = 0 then Some [MOV result left]
      else if v < 0 then b_to deopt
      else Some [Asr result left (nat (if v + 1 \<ge> 0x3F then 0x3F else v + 1)),
                 SmiTag result])"
| "BinarySmiOp_constant_case other deopt left result v = None"

text \<open>The zero check of the divisor, emitted unless the range analysis excludes zero.\<close>

definition divisor_zero_check :: "Range option \<Rightarrow> Label option \<Rightarrow> Register \<Rightarrow> Instr list option" where
  "divisor_zero_check right_range deopt right =
     (if (case right_range of None \<Rightarrow> True | Some r \<Rightarrow> Overlaps r 0 0)
      then emit_all [Some [CompareRegisters right ZR], b_cond_to deopt EQ]
      else Some [])"

text \<open>The \<open>switch\<close> for a right operand in a register.\<close>

fun BinarySmiOp_register_case ::
    "BinarySmiOpInstr \<Rightarrow> TokenKind \<Rightarrow> Label option \<Rightarrow> Register \<Rightarrow> Register \<Rightarrow> Register
     \<Rightarrow> Instr list option" where
  "BinarySmiOp_register_case i kADD deopt left right result =
     (case deopt of
        None \<Rightarrow> Some [ADD result left (Operand_reg right)]
      | Some d \<Rightarrow> Some [ADDS result left (Operand_reg right), B_cond d VS])"
| "BinarySmiOp_register_case i kSUB deopt left right result =
     (case deopt of
        None \<Rightarrow> Some [SUB result left (Operand_reg right)]
      | Some d \<Rightarrow> Some [SUBS result left (Operand_reg right), B_cond d VS])"
| "BinarySmiOp_register_case i kMUL deopt left right result =
     (case deopt of
        None \<Rightarrow> Some [Asr TMP left 1, MUL result TMP right]
      | Some d \<Rightarrow> Some [Asr TMP left 1, MUL result TMP right, SMULH TMP TMP right,
                         CMP TMP (Operand_shifted result ASR 63), B_cond d NE])"
| "BinarySmiOp_register_case i kBIT_AND deopt left right result =
     Some [ANDR result left (Operand_reg right)]"
| "BinarySmiOp_register_case i kBIT_OR deopt left right result =
     Some [ORR result left (Operand_reg right)]"
| "BinarySmiOp_register_case i kBIT_XOR deopt left right result =
     Some [EOR result left (Operand_reg right)]"
| "BinarySmiOp_register_case i kTRUNCDIV deopt left right result =
     emit_all
       [divisor_zero_check (bso_right_range i) deopt right,
        Some [Asr TMP2 left 1, Asr TMP right 1, SDIV result TMP2 TMP,
              CompareImmediate result 0x4000000000000000],
        b_cond_to deopt EQ,
        Some [SmiTag result]]"
| "BinarySmiOp_register_case i kMOD deopt left right result =
     emit_all
       [divisor_zero_check (bso_right_range i) deopt right,
        Some [Asr TMP2 left 1, Asr TMP right 1, SDIV result TMP2 TMP,
              Asr TMP right 1, MSUB result TMP result TMP2, SmiTag result,
              CompareRegisters result ZR, B_cond (LocalLabel ''done'') GE,
              CompareRegisters right ZR,
              SUB TMP result (Operand_reg right),
              ADD result result (Operand_reg right),
              CSEL result TMP result LT,
              Bind (LocalLabel ''done'')]]"
| "BinarySmiOp_register_case i kSHR deopt left right result =
     (case reg_of (bso_temp0 i) of
        None \<Rightarrow> None
      | Some temp \<Rightarrow>
          emit_all
            [if bso_CanDeoptimize i
             then emit_all [Some [CompareRegisters right ZR], b_cond_to deopt LT]
             else Some [],
             Some [Asr TMP right 1],
             if (case bso_right_range i of None \<Rightarrow> True
                 | Some r \<Rightarrow> \<not> IsWithin r kMinusInfinity 0x3F)
             then Some [LoadImmediate TMP2 0x3F, CompareRegisters TMP TMP2,
                        CSEL TMP TMP2 TMP GT]
             else Some [],
             Some [Asr temp left 1, ASRV result temp TMP, SmiTag result]])"
| "BinarySmiOp_register_case i other deopt left right result = None"

definition BinarySmiOpInstr_EmitNativeCode :: "bool \<Rightarrow> BinarySmiOpInstr \<Rightarrow> Instr list option" where
  "BinarySmiOpInstr_EmitNativeCode FLAG_throw_on_javascript_int_overflow i =
     (if bso_op_kind i = kSHL then EmitSmiShiftLeft FLAG_throw_on_javascript_int_overflow i
      else if bso_is_truncating i then None
      else
        (case (bso_in0 i, bso_out0 i) of
           (RegisterLocation left, RegisterLocation result) \<Rightarrow>
             (let deopt = (if bso_CanDeoptimize i
                           then Some (DeoptStub (bso_deopt_id i) kDeoptBinarySmiOp) else None)
              in case bso_in1 i of
                   Constant c \<Rightarrow>
                     (case c of
                        Smi v \<Rightarrow>
                          emit_all
                            [BinarySmiOp_constant_case (bso_op_kind i) deopt left result v,
                             js_check FLAG_throw_on_javascript_int_overflow (bso_range i) deopt result]
                      | _ \<Rightarrow> None)
                 | RegisterLocation right \<Rightarrow>
                     emit_all
                       [BinarySmiOp_register_case i (bso_op_kind i) deopt left right result,
                        js_check FLAG_throw_on_javascript_int_overflow (bso_range i) deopt result]
                 | _ \<Rightarrow> None)
         | _ \<Rightarrow> None))"

text \<open>The mathematical result of the three checked arithmetic operators, and what the
  lowering of a checked operation must leave: the tagged result in the result register
  when it falls through, or a transfer to the instruction's deopt stub.\<close>

fun arith_value :: "TokenKind \<Rightarrow> int \<Rightarrow> int \<Rightarrow> int" where
  "arith_value kADD x y = x + y"
| "arith_value kSUB x y = x - y"
| "arith_value kMUL x y = x * y"
| "arith_value other x y = 0"

fun result_or_deopt :: "Label \<Rightarrow> Register \<Rightarrow> int \<Rightarrow> outcome \<Rightarrow> bool" where
  "result_or_deopt d result v (Fallthrough f s) = (is_smi_value v \<and> xregs s result = tagged v)"
| "result_or_deopt d result v (Taken l f s) = (l = d)"
| "result_or_deopt d result v Stuck = False"

definition example_binary_smi_op :: "TokenKind \<Rightarrow> Location \<Rightarrow> BinarySmiOpInstr" where
  "example_binary_smi_op k right =
     \<lparr>bso_op_kind = k, bso_is_truncating = False, bso_CanDeoptimize = True, bso_deopt_id = 42,
      bso_in0 = RegisterLocation 1, bso_in1 = right, bso_out0 = RegisterLocation 3,
      bso_temp0 = NoLocation, bso_range = None, bso_right_range = None,
      bso_left_BoundConstant = None\<rparr>"

text \<open>The remainder that the \<open>kMOD\<close> lowering computes, as its comment in the source
  states it: the remainder of the truncating division, moved into the non-negative
  range by the divisor.\<close>

definition smi_mod_value :: "int \<Rightarrow> int \<Rightarrow> int" where
  "smi_mod_value a b =
     (let res = a - b * trunc_div a b
      in if res < 0 then (if b < 0 then res - b else res + b) else res)"

text \<open>The Smi value left in a register by a sequence that fell through.\<close>

fun fallthrough_value :: "outcome \<Rightarrow> Register \<Rightarrow> int option" where
  "fallthrough_value (Fallthrough f s) r = Some (sint (xregs s r) div 2)"
| "fallthrough_value other r = None"

fun deopts_unchanged :: "Label \<Rightarrow> cpu \<Rightarrow> outcome \<Rightarrow> bool" where
  "deopts_unchanged d s (Taken l f s') = (l = d \<and> s' = s)"
| "deopts_unchanged d s other = False"

fun falls_through :: "outcome \<Rightarrow> bool" where
  "falls_through (Fallthrough f s) = True"
| "falls_through other = False"

text \<open>Running the result of an emission; a failed emission has nothing to run.\<close>

definition exec_emitted :: "ObjectStore \<Rightarrow> Instr list option \<Rightarrow> nzcv \<Rightarrow> cpu \<Rightarrow> outcome" where
  "exec_emitted os code f s = (case code of None \<Rightarrow> Stuck | Some c \<Rightarrow> exec os c f s)"

definition example_division_cpu :: cpu where
  "example_division_cpu = cpu_of ((\<lambda>r. 0)(1 := tagged (- 7), 2 := tagged 2)) (\<lambda>r. 0)"

subsection \<open>Indexed loads and stores\<close>

datatype Representation =
    kNoRepresentation | kTagged | kUnboxedDouble | kUnboxedFloat32x4 | kUnboxedInt32x4
  | kUnboxedFloat64x2

text \<open>\<open>LoadIndexedInstr::representation\<close>; the \<open>default\<close> case is \<open>UNIMPLEMENTED\<close>.\<close>

fun LoadIndexedInstr_representation :: "ClassId \<Rightarrow> Representation option" where
  "LoadIndexedInstr_representation kArrayCid = Some kTagged"
| "LoadIndexedInstr_representation kImmutableArrayCid = Some kTagged"
| "LoadIndexedInstr_representation kTypedDataInt8ArrayCid = Some kTagged"
| "LoadIndexedInstr_representation kTypedDataUint8ArrayCid = Some kTagged"
| "LoadIndexedInstr_representation kTypedDataUint8ClampedArrayCid = Some kTagged"
| "LoadIndexedInstr_representation kExternalTypedDataUint8ArrayCid = Some kTagged"
| "LoadIndexedInstr_representation kExternalTypedDataUint8ClampedArrayCid = Some kTagged"
| "LoadIndexedInstr_representation kTypedDataInt16ArrayCid = Some kTagged"
| "LoadIndexedInstr_representation kTypedDataUint16ArrayCid = Some kTagged"
| "LoadIndexedInstr_representation kOneByteStringCid = Some kTagged"
| "LoadIndexedInstr_representation kTwoByteStringCid = Some kTagged"
| "LoadIndexedInstr_representation kTypedDataInt32ArrayCid = Some kTagged"
| "LoadIndexedInstr_representation kTypedDataUint32ArrayCid = Some kTagged"
| "LoadIndexedInstr_representation kTypedDataFloat32ArrayCid = Some kUnboxedDouble"
| "LoadIndexedInstr_representation kTypedDataFloat64ArrayCid = Some kUnboxedDouble"
| "LoadIndexedInstr_representation kTypedDataInt32x4ArrayCid = Some kUnboxedInt32x4"
| "LoadIndexedInstr_representation kTypedDataFloat32x4ArrayCid = Some kUnboxedFloat32x4"
| "LoadIndexedInstr_representation kTypedDataFloat64x2ArrayCid = Some kUnboxedFloat64x2"
| "LoadIndexedInstr_representation other = None"

text \<open>\<open>li_data_offset\<close> is \<open>FlowGraphCompiler::DataOffsetFor(class_id())\<close>, which is
  defined with the compiler and not in this file.\<close>

record LoadIndexedInstr =
  li_class_id :: ClassId
  li_index_scale :: nat
  li_IsExternal :: bool
  li_data_offset :: int
  li_in0 :: Location
  li_in1 :: Location
  li_out0 :: Location

fun fpu_reg_of :: "Location \<Rightarrow> VRegister option" where
  "fpu_reg_of (FpuRegisterLocation v) = Some v"
| "fpu_reg_of other = None"

text \<open>The address computation of \<open>LoadIndexedInstr::EmitNativeCode\<close>: the instructions
  and the resulting element address.\<close>

definition LoadIndexed_element_address ::
    "nat \<Rightarrow> int \<Rightarrow> Register \<Rightarrow> Register \<Rightarrow> (Instr list \<times> Address) option" where
  "LoadIndexed_element_address index_scale offset array index =
     (if index_scale = 1
        then Some ([ADD index array (Operand_shifted index ASR 1)], Address_offset index offset)
      else if index_scale = 2
        then (if offset \<noteq> 0
              then Some ([ADD index array (Operand_reg index)], Address_offset index offset)
              else Some ([], Address_reg array index))
      else if index_scale = 4
        then Some ([ADD index array (Operand_shifted index LSL 1)], Address_offset index offset)
      else if index_scale = 8
        then Some ([ADD index array (Operand_shifted index LSL 2)], Address_offset index offset)
      else if index_scale = 16
        then Some ([ADD index array (Operand_shifted index LSL 3)], Address_offset index offset)
      else None)"

fun LoadIndexed_fpu_load :: "ClassId \<Rightarrow> VRegister \<Rightarrow> Address \<Rightarrow> Instr list" where
  "LoadIndexed_fpu_load kTypedDataFloat32ArrayCid result a = [Fpu (FLDRS result a)]"
| "LoadIndexed_fpu_load kTypedDataFloat64ArrayCid result a = [Fpu (FLDRD result a)]"
| "LoadIndexed_fpu_load kTypedDataFloat64x2ArrayCid result a = [Fpu (FLDRQ result a)]"
| "LoadIndexed_fpu_load kTypedDataInt32x4ArrayCid result a = [Fpu (FLDRQ result a)]"
| "LoadIndexed_fpu_load kTypedDataFloat32x4ArrayCid result a = [Fpu (FLDRQ result a)]"
| "LoadIndexed_fpu_load other result a = []"

fun LoadIndexed_tagged_load ::
    "ClassId \<Rightarrow> nat \<Rightarrow> Register \<Rightarrow> Address \<Rightarrow> Instr list option" where
  "LoadIndexed_tagged_load kTypedDataInt8ArrayCid index_scale result a =
     (if index_scale = 1 then Some [Ldr result a kByte, SmiTag result] else None)"
| "LoadIndexed_tagged_load kTypedDataUint8ArrayCid index_scale result a =
     (if index_scale = 1 then Some [Ldr result a kUnsignedByte, SmiTag result] else None)"
| "LoadIndexed_tagged_load kTypedDataUint8ClampedArrayCid index_scale result a =
     (if index_scale = 1 then Some [Ldr result a kUnsignedByte, SmiTag result] else None)"
| "LoadIndexed_tagged_load kExternalTypedDataUint8ArrayCid index_scale result a =
     (if index_scale = 1 then Some [Ldr result a kUnsignedByte, SmiTag result] else None)"
| "LoadIndexed_tagged_load kExternalTypedDataUint8ClampedArrayCid index_scale result a =
     (if index_scale = 1 then Some [Ldr result a kUnsignedByte, SmiTag result] else None)"
| "LoadIndexed_tagged_load kOneByteStringCid index_scale result a =
     (if index_scale = 1 then Some [Ldr result a kUnsignedByte, SmiTag result] else None)"
| "LoadIndexed_tagged_load kTypedDataInt16ArrayCid index_scale result a =
     Some [Ldr result a kHalfword, SmiTag result]"
| "LoadIndexed_tagged_load kTypedDataUint16ArrayCid index_scale result a =
     Some [Ldr result a kUnsignedHalfword, SmiTag result]"
| "LoadIndexed_tagged_load kTwoByteStringCid index_scale result a =
     Some [Ldr result a kUnsignedHalfword, SmiTag result]"
| "LoadIndexed_tagged_load kTypedDataInt32ArrayCid index_scale result a =
     Some [Ldr result a kWord, SmiTag result]"
| "LoadIndexed_tagged_load kTypedDataUint32ArrayCid index_scale result a =
     Some [Ldr result a kUnsignedWord, SmiTag result]"
| "LoadIndexed_tagged_load kArrayCid index_scale result a = Some [Ldr result a kDoubleWord]"
| "LoadIndexed_tagged_load kImmutableArrayCid index_scale result a =
     Some [Ldr result a kDoubleWord]"
| "LoadIndexed_tagged_load other index_scale result a = None"

definition LoadIndexedInstr_EmitNativeCode :: "LoadIndexedInstr \<Rightarrow> Instr list option" where
  "LoadIndexedInstr_EmitNativeCode i =
     (case (reg_of (li_in0 i), reg_of (li_in1 i)) of
        (Some array, Some index) \<Rightarrow>
          (let offset = (if \<not> li_IsExternal i then li_data_offset i - kHeapObjectTag else 0) in
           case LoadIndexed_element_address (li_index_scale i) offset array index of
             None \<Rightarrow> None
           | Some (address_code, element_address) \<Rightarrow>
               (case LoadIndexedInstr_representation (li_class_id i) of
                  None \<Rightarrow> None
                | Some rep \<Rightarrow>
                    if rep = kUnboxedDouble \<or> rep = kUnboxedFloat32x4
                       \<or> rep = kUnboxedInt32x4 \<or> rep = kUnboxedFloat64x2
                    then (case fpu_reg_of (li_out0 i) of
                            None \<Rightarrow> None
                          | Some result \<Rightarrow>
                              Some (address_code @
                                    LoadIndexed_fpu_load (li_class_id i) result element_address))
                    else (case reg_of (li_out0 i) of
                            None \<Rightarrow> None
                          | Some result \<Rightarrow>
                              emit_all
                                [Some address_code,
                                 LoadIndexed_tagged_load (li_class_id i) (li_index_scale i)
                                   result element_address])))
      | _ \<Rightarrow> None)"

text \<open>\<open>si_ShouldEmitStoreBarrier\<close> is the instruction's static
  \<open>ShouldEmitStoreBarrier()\<close> classification, computed outside this file.\<close>

record StoreIndexedInstr =
  si_class_id :: ClassId
  si_index_scale :: nat
  si_IsExternal :: bool
  si_data_offset :: int
  si_ShouldEmitStoreBarrier :: bool
  si_in0 :: Location
  si_in1 :: Location
  si_in2 :: Location

text \<open>\<open>static_cast<int8_t>\<close> of an integer: reduction to eight bits, read as signed.\<close>

definition static_cast_int8 :: "int \<Rightarrow> int" where
  "static_cast_int8 v = sint (word_of_int v :: 8 word)"

definition StoreIndexed_scale_index :: "nat \<Rightarrow> Register \<Rightarrow> Instr list option" where
  "StoreIndexed_scale_index index_scale index =
     (if index_scale = 1 then Some [SmiUntag index]
      else if index_scale = 2 then Some []
      else if index_scale = 4 then Some [Lsl index index 1]
      else if index_scale = 8 then Some [Lsl index index 2]
      else if index_scale = 16 then Some [Lsl index index 3]
      else None)"

definition store_byte_code :: "Location \<Rightarrow> Address \<Rightarrow> Instr list option" where
  "store_byte_code value_loc element_address =
     (case value_loc of
        Constant c \<Rightarrow>
          (case c of
             Smi v \<Rightarrow> Some [LoadImmediate TMP (static_cast_int8 v),
                             Str TMP element_address kUnsignedByte]
           | _ \<Rightarrow> None)
      | RegisterLocation val \<Rightarrow> Some [SmiUntag val, Str val element_address kUnsignedByte]
      | _ \<Rightarrow> None)"

definition store_clamped_byte_code :: "Location \<Rightarrow> Address \<Rightarrow> Instr list option" where
  "store_clamped_byte_code value_loc element_address =
     (case value_loc of
        Constant c \<Rightarrow>
          (case c of
             Smi v \<Rightarrow>
               Some [LoadImmediate TMP
                       (static_cast_int8 (if v > 0xFF then 0xFF else if v < 0 then 0 else v)),
                     Str TMP element_address kUnsignedByte]
           | _ \<Rightarrow> None)
      | RegisterLocation val \<Rightarrow>
          Some [SmiUntag val,
                CompareImmediate val 0xFF,
                B_cond (LocalLabel ''store_value'') LS,
                LoadImmediate TMP 0x00,
                LoadImmediate TMP2 0xFF,
                CSEL val TMP val LE,
                CSEL val TMP2 val GT,
                Bind (LocalLabel ''store_value''),
                Str val element_address kUnsignedByte]
      | _ \<Rightarrow> None)"

definition store_sized_code :: "Location \<Rightarrow> Address \<Rightarrow> OperandSize \<Rightarrow> Instr list option" where
  "store_sized_code value_loc element_address sz =
     (case value_loc of
        RegisterLocation val \<Rightarrow> Some [SmiUntag val, Str val element_address sz]
      | _ \<Rightarrow> None)"

fun StoreIndexed_store ::
    "StoreIndexedInstr \<Rightarrow> ClassId \<Rightarrow> Register \<Rightarrow> Register \<Rightarrow> Address \<Rightarrow> Instr list option" where
  "StoreIndexed_store i kArrayCid array index element_address =
     (if si_ShouldEmitStoreBarrier i then
        (case si_in2 i of
           RegisterLocation val \<Rightarrow> Some [Heap (StoreIntoObject array element_address val)]
         | _ \<Rightarrow> None)
      else
        (case si_in2 i of
           Constant c \<Rightarrow>
             Some [Heap (StoreIntoObjectNoBarrier array element_address (FromConstant c))]
         | RegisterLocation val \<Rightarrow>
             Some [Heap (StoreIntoObjectNoBarrier array element_address (FromRegister val))]
         | _ \<Rightarrow> None))"
| "StoreIndexed_store i kTypedDataInt8ArrayCid array index element_address =
     store_byte_code (si_in2 i) element_address"
| "StoreIndexed_store i kTypedDataUint8ArrayCid array index element_address =
     store_byte_code (si_in2 i) element_address"
| "StoreIndexed_store i kExternalTypedDataUint8ArrayCid array index element_address =
     store_byte_code (si_in2 i) element_address"
| "StoreIndexed_store i kOneByteStringCid array index element_address =
     store_byte_code (si_in2 i) element_address"
| "StoreIndexed_store i kTypedDataUint8ClampedArrayCid array index element_address =
     store_clamped_byte_code (si_in2 i) element_address"
| "StoreIndexed_store i kExternalTypedDataUint8ClampedArrayCid array index element_address =
     store_clamped_byte_code (si_in2 i) element_address"
| "StoreIndexed_store i kTypedDataInt16ArrayCid array index element_address =
     store_sized_code (si_in2 i) element_address kUnsignedHalfword"
| "StoreIndexed_store i kTypedDataUint16ArrayCid array index element_address =
     store_sized_code (si_in2 i) element_address kUnsignedHalfword"
| "StoreIndexed_store i kTypedDataInt32ArrayCid array index element_address =
     store_sized_code (si_in2 i) element_address kUnsignedWord"
| "StoreIndexed_store i kTypedDataUint32ArrayCid array index element_address =
     store_sized_code (si_in2 i) element_address kUnsignedWord"
| "StoreIndexed_store i kTypedDataFloat32ArrayCid array index element_address =
     (case fpu_reg_of (si_in2 i) of
        None \<Rightarrow> None
      | Some in2 \<Rightarrow> Some [ADD index index (Operand_reg array),
                          Fpu (FSTRS in2 (Address_offset index 0))])"
| "StoreIndexed_store i kTypedDataFloat64ArrayCid array index element_address =
     (case fpu_reg_of (si_in2 i) of
        None \<Rightarrow> None
      | Some in2 \<Rightarrow> Some [ADD index index (Operand_reg array),
                          Fpu (StoreDToOffset in2 index 0)])"
| "StoreIndexed_store i kTypedDataFloat64x2ArrayCid array index element_address =
     (case fpu_reg_of (si_in2 i) of
        None \<Rightarrow> None
      | Some in2 \<Rightarrow> Some [ADD index index (Operand_reg array),
                          Fpu (StoreQToOffset in2 index 0)])"
| "StoreIndexed_store i kTypedDataInt32x4ArrayCid array index element_address =
     (case fpu_reg_of (si_in2 i) of
        None \<Rightarrow> None
      | Some in2 \<Rightarrow> Some [ADD index index (Operand_reg array),
                          Fpu (StoreQToOffset in2 index 0)])"
| "StoreIndexed_store i kTypedDataFloat32x4ArrayCid array index element_address =
     (case fpu_reg_of (si_in2 i) of
        None \<Rightarrow> None
      | Some in2 \<Rightarrow> Some [ADD index index (Operand_reg array),
                          Fpu (StoreQToOffset in2 index 0)])"
| "StoreIndexed_store i other array index element_address = None"

definition StoreIndexedInstr_EmitNativeCode :: "StoreIndexedInstr \<Rightarrow> Instr list option" where
  "StoreIndexedInstr_EmitNativeCode i =
     (case (reg_of (si_in0 i), reg_of (si_in1 i)) of
        (Some array, Some index) \<Rightarrow>
          emit_all
            [StoreIndexed_scale_index (si_index_scale i) index,
             Some (if \<not> si_IsExternal i
                   then [AddImmediate index index (si_data_offset i - kHeapObjectTag)]
                   else []),
             StoreIndexed_store i (si_class_id i) array index (Address_reg array index)]
      | _ \<Rightarrow> None)"

text \<open>The labels that the branches of a sequence name, in order.\<close>

fun branch_targets :: "Instr list \<Rightarrow> Label list" where
  "branch_targets [] = []"
| "branch_targets (B l # rest) = l # branch_targets rest"
| "branch_targets (B_cond l c # rest) = l # branch_targets rest"
| "branch_targets (Heap (TryAllocate cls l r t) # rest) = l # branch_targets rest"
| "branch_targets (i # rest) = branch_targets rest"

definition example_uint32_load :: LoadIndexedInstr where
  "example_uint32_load =
     \<lparr>li_class_id = kTypedDataUint32ArrayCid, li_index_scale = 4, li_IsExternal = False,
      li_data_offset = 16, li_in0 = RegisterLocation 1, li_in1 = RegisterLocation 2,
      li_out0 = RegisterLocation 3\<rparr>"

text \<open>A state whose memory holds \<open>0xFF\<close> in every byte: every unsigned 32-bit element
  is \<open>4294967295\<close>.\<close>

definition example_uint32_cpu :: cpu where
  "example_uint32_cpu =
     (cpu_of ((\<lambda>r. 0)(1 := 4097, 2 := tagged 5)) (\<lambda>r. 0))\<lparr>mem := (\<lambda>a. 255)\<rparr>"

text \<open>A source value clamped to the range of an unsigned byte.\<close>

definition clamp_byte :: "int \<Rightarrow> int" where
  "clamp_byte v = max 0 (min 255 v)"

definition example_clamped_store :: "Location \<Rightarrow> StoreIndexedInstr" where
  "example_clamped_store value_loc =
     \<lparr>si_class_id = kTypedDataUint8ClampedArrayCid, si_index_scale = 1, si_IsExternal = False,
      si_data_offset = 16, si_ShouldEmitStoreBarrier = False,
      si_in0 = RegisterLocation 1, si_in1 = RegisterLocation 2, si_in2 = value_loc\<rparr>"

definition example_clamped_cpu :: cpu where
  "example_clamped_cpu =
     cpu_of ((\<lambda>r. 0)(1 := 4097, 2 := tagged 5, 3 := tagged 300)) (\<lambda>r. 0)"

subsection \<open>EqualityCompareInstr and RelationalOpInstr\<close>

fun TokenKindToSmiCondition :: "TokenKind \<Rightarrow> Condition option" where
  "TokenKindToSmiCondition kEQ = Some EQ"
| "TokenKindToSmiCondition kNE = Some NE"
| "TokenKindToSmiCondition kLT = Some LT"
| "TokenKindToSmiCondition kGT = Some GT"
| "TokenKindToSmiCondition kLTE = Some LE"
| "TokenKindToSmiCondition kGTE = Some GE"
| "TokenKindToSmiCondition other = None"

fun FlipCondition :: "Condition \<Rightarrow> Condition option" where
  "FlipCondition EQ = Some EQ"
| "FlipCondition NE = Some NE"
| "FlipCondition LT = Some GT"
| "FlipCondition LE = Some GE"
| "FlipCondition GT = Some LT"
| "FlipCondition GE = Some LE"
| "FlipCondition CC = Some HI"
| "FlipCondition LS = Some CS"
| "FlipCondition HI = Some CC"
| "FlipCondition CS = Some LS"
| "FlipCondition other = None"

fun TokenKindToDoubleCondition :: "TokenKind \<Rightarrow> Condition option" where
  "TokenKindToDoubleCondition kEQ = Some EQ"
| "TokenKindToDoubleCondition kNE = Some NE"
| "TokenKindToDoubleCondition kLT = Some LT"
| "TokenKindToDoubleCondition kGT = Some GT"
| "TokenKindToDoubleCondition kLTE = Some LE"
| "TokenKindToDoubleCondition kGTE = Some GE"
| "TokenKindToDoubleCondition other = None"

text \<open>The fields that the two comparison instructions share.\<close>

record ComparisonInstr =
  cmp_kind :: TokenKind
  cmp_operation_cid :: ClassId
  cmp_in0 :: Location
  cmp_in1 :: Location
  cmp_out0 :: Location

text \<open>The comparison emitters return the emitted compare together with the true
  condition.\<close>

definition EmitSmiComparisonOp :: "ComparisonInstr \<Rightarrow> (Instr list \<times> Condition) option" where
  "EmitSmiComparisonOp i =
     (case TokenKindToSmiCondition (cmp_kind i) of
        None \<Rightarrow> None
      | Some true_condition \<Rightarrow>
          (case (cmp_in0 i, cmp_in1 i) of
             (Constant lc, Constant rc) \<Rightarrow> None
           | (Constant lc, RegisterLocation right) \<Rightarrow>
               (case FlipCondition true_condition of
                  None \<Rightarrow> None
                | Some flipped \<Rightarrow> Some ([CompareObject right lc], flipped))
           | (RegisterLocation left, Constant rc) \<Rightarrow>
               Some ([CompareObject left rc], true_condition)
           | (RegisterLocation left, RegisterLocation right) \<Rightarrow>
               Some ([CompareRegisters left right], true_condition)
           | _ \<Rightarrow> None))"

definition EmitDoubleComparisonOp :: "ComparisonInstr \<Rightarrow> (Instr list \<times> Condition) option" where
  "EmitDoubleComparisonOp i =
     (case (fpu_reg_of (cmp_in0 i), fpu_reg_of (cmp_in1 i)) of
        (Some left, Some right) \<Rightarrow>
          (case TokenKindToDoubleCondition (cmp_kind i) of
             None \<Rightarrow> None
           | Some true_condition \<Rightarrow> Some ([Fpu (FCMPD left right)], true_condition))
      | _ \<Rightarrow> None)"

text \<open>\<open>EqualityCompareInstr::EmitComparisonCode\<close> and
  \<open>RelationalOpInstr::EmitComparisonCode\<close> have the same body.\<close>

definition EmitComparisonCode :: "ComparisonInstr \<Rightarrow> (Instr list \<times> Condition) option" where
  "EmitComparisonCode i =
     (if cmp_operation_cid i = kSmiCid then EmitSmiComparisonOp i
      else if cmp_operation_cid i = kDoubleCid then EmitDoubleComparisonOp i
      else None)"

text \<open>The branch on the unordered flag that precedes the branch protocol.\<close>

definition nan_branch :: "ComparisonInstr \<Rightarrow> Condition \<Rightarrow> Label \<Rightarrow> Instr list" where
  "nan_branch i true_condition is_false =
     (if cmp_operation_cid i = kDoubleCid \<and> true_condition \<noteq> NE
      then [B_cond is_false VS] else [])"

definition materialize_bool :: "Register \<Rightarrow> Instr list" where
  "materialize_bool result =
     [Bind (LocalLabel ''is_false''),
      LoadObject result (BoolObject False),
      B (LocalLabel ''done''),
      Bind (LocalLabel ''is_true''),
      LoadObject result (BoolObject True),
      Bind (LocalLabel ''done'')]"

definition local_branch_labels :: BranchLabels where
  "local_branch_labels =
     \<lparr>true_label = LocalLabel ''is_true'', false_label = LocalLabel ''is_false'',
      fall_through = LocalLabel ''is_false''\<rparr>"

definition comparison_native_code :: "ComparisonInstr \<Rightarrow> Instr list option" where
  "comparison_native_code i =
     (case EmitComparisonCode i of
        None \<Rightarrow> None
      | Some (compare, true_condition) \<Rightarrow>
          (case reg_of (cmp_out0 i) of
             None \<Rightarrow> None
           | Some result \<Rightarrow>
               emit_all
                 [Some compare,
                  Some (nan_branch i true_condition (false_label local_branch_labels)),
                  EmitBranchOnCondition true_condition local_branch_labels,
                  Some (materialize_bool result)]))"

definition comparison_branch_code :: "ComparisonInstr \<Rightarrow> BranchLabels \<Rightarrow> Instr list option" where
  "comparison_branch_code i labels =
     (case EmitComparisonCode i of
        None \<Rightarrow> None
      | Some (compare, true_condition) \<Rightarrow>
          emit_all
            [Some compare,
             Some (nan_branch i true_condition (false_label labels)),
             EmitBranchOnCondition true_condition labels])"

definition EqualityCompareInstr_EmitNativeCode :: "ComparisonInstr \<Rightarrow> Instr list option" where
  "EqualityCompareInstr_EmitNativeCode i =
     (if cmp_kind i = kEQ \<or> cmp_kind i = kNE then comparison_native_code i else None)"

text \<open>\<open>labels\<close> is \<open>compiler->CreateBranchLabels(branch)\<close>.\<close>

definition EqualityCompareInstr_EmitBranchCode ::
    "ComparisonInstr \<Rightarrow> BranchLabels \<Rightarrow> Instr list option" where
  "EqualityCompareInstr_EmitBranchCode i labels =
     (if cmp_kind i = kNE \<or> cmp_kind i = kEQ then comparison_branch_code i labels else None)"

definition RelationalOpInstr_EmitNativeCode :: "ComparisonInstr \<Rightarrow> Instr list option" where
  "RelationalOpInstr_EmitNativeCode i = comparison_native_code i"

definition RelationalOpInstr_EmitBranchCode ::
    "ComparisonInstr \<Rightarrow> BranchLabels \<Rightarrow> Instr list option" where
  "RelationalOpInstr_EmitBranchCode i labels = comparison_branch_code i labels"

text \<open>A boolean-producing sequence leaves the constant \<open>b\<close> in the result register.\<close>

fun materializes :: "ObjectStore \<Rightarrow> Register \<Rightarrow> bool \<Rightarrow> outcome \<Rightarrow> bool" where
  "materializes os result b (Fallthrough f s) = (xregs s result = object_raw os (BoolObject b))"
| "materializes os result b other = False"

definition example_double_compare :: "TokenKind \<Rightarrow> ComparisonInstr" where
  "example_double_compare k =
     \<lparr>cmp_kind = k, cmp_operation_cid = kDoubleCid, cmp_in0 = FpuRegisterLocation 0,
      cmp_in1 = FpuRegisterLocation 1, cmp_out0 = RegisterLocation 3\<rparr>"

text \<open>A state with a quiet NaN in \<open>V0\<close> and \<open>1.0\<close> in \<open>V1\<close>.\<close>

definition example_nan_cpu :: cpu where
  "example_nan_cpu =
     cpu_of (\<lambda>r. 0) ((\<lambda>r. 0)(0 := 0x7FF8000000000000, 1 := 0x3FF0000000000000))"

subsection \<open>StoreInstanceFieldInstr\<close>

text \<open>The object layout constants and class id numbers come from the object model,
  which is not part of this file; they are parameters of the emission.\<close>

record VMLayout =
  Double_value_offset :: int
  Float32x4_value_offset :: int
  Float64x2_value_offset :: int
  Field_is_nullable_offset :: int
  Field_kind_bits_offset :: int
  Field_guarded_cid_offset :: int
  Field_kUnboxingCandidateBit :: nat
  cid_number :: "ClassId \<Rightarrow> int"













definition example_layout :: VMLayout where
  "example_layout =
     \<lparr>Double_value_offset = 8, Float32x4_value_offset = 8, Float64x2_value_offset = 8,
      Field_is_nullable_offset = 40, Field_kind_bits_offset = 48,
      Field_guarded_cid_offset = 32, Field_kUnboxingCandidateBit = 5,
      cid_number = (\<lambda>c. if c = kNullCid then 2 else if c = kDoubleCid then 40
                          else if c = kFloat32x4Cid then 41
                          else if c = kFloat64x2Cid then 43 else 0)\<rparr>"



subsection \<open>BoxDoubleInstr and UnboxDoubleInstr\<close>

text \<open>\<open>bd_live_cpu\<close> and \<open>bd_live_fpu\<close> are the registers of \<open>locs()->live_registers()\<close>,
  which the register allocator has filled in.\<close>

record BoxDoubleInstr =
  bd_in0 :: Location
  bd_temp0 :: Location
  bd_out0 :: Location
  bd_live_cpu :: "Register list"
  bd_live_fpu :: "VRegister list"

text \<open>\<open>slow_path\<close> identifies the \<open>BoxDoubleSlowPath\<close> object that the instruction creates
  and hands to \<open>compiler->AddSlowPathCode\<close>; its entry and exit labels are
  \<open>SlowPathEntry slow_path\<close> and \<open>SlowPathExit slow_path\<close>.\<close>

definition BoxDoubleInstr_EmitNativeCode ::
    "VMLayout \<Rightarrow> nat \<Rightarrow> BoxDoubleInstr \<Rightarrow> Instr list option" where
  "BoxDoubleInstr_EmitNativeCode L slow_path i =
     (case (reg_of (bd_out0 i), fpu_reg_of (bd_in0 i), reg_of (bd_temp0 i)) of
        (Some out_reg, Some value, Some temp) \<Rightarrow>
          Some [Heap (TryAllocate kDoubleCid (SlowPathEntry slow_path) out_reg temp),
                Bind (SlowPathExit slow_path),
                Fpu (StoreDFieldToOffset value out_reg (Double_value_offset L))]
      | _ \<Rightarrow> None)"

text \<open>\<open>BoxDoubleSlowPath::EmitNativeCode\<close>. The output register is taken out of the live
  registers before they are saved.\<close>

definition BoxDoubleSlowPath_EmitNativeCode ::
    "nat \<Rightarrow> BoxDoubleInstr \<Rightarrow> Instr list option" where
  "BoxDoubleSlowPath_EmitNativeCode slow_path i =
     (case reg_of (bd_out0 i) of
        None \<Rightarrow> None
      | Some out_reg \<Rightarrow>
          (let live_cpu = removeAll out_reg (bd_live_cpu i) in
           Some [Comment ''BoxDoubleSlowPath'',
                 Bind (SlowPathEntry slow_path),
                 Heap (SaveLiveRegisters live_cpu (bd_live_fpu i)),
                 Heap (GenerateCall kDoubleCid),
                 MOV out_reg R0,
                 Heap (RestoreLiveRegisters live_cpu (bd_live_fpu i)),
                 B (SlowPathExit slow_path)]))"

text \<open>\<open>ud_value_cid\<close>, \<open>ud_is_nullable\<close> and \<open>ud_ToNullableCid\<close> are what the compile type of
  the input, \<open>value()->Type()\<close>, answers to \<open>ToCid()\<close>, \<open>is_nullable()\<close> and
  \<open>ToNullableCid()\<close>.\<close>

record UnboxDoubleInstr =
  ud_value_cid :: ClassId
  ud_is_nullable :: bool
  ud_ToNullableCid :: ClassId
  ud_deopt_id :: nat
  ud_in0 :: Location
  ud_out0 :: Location

definition kSmiTagMask :: int where "kSmiTagMask = 1"
definition kSmiTagSize :: nat where "kSmiTagSize = 1"

definition UnboxDoubleInstr_EmitNativeCode ::
    "VMLayout \<Rightarrow> UnboxDoubleInstr \<Rightarrow> Instr list option" where
  "UnboxDoubleInstr_EmitNativeCode L i =
     (case (reg_of (ud_in0 i), fpu_reg_of (ud_out0 i)) of
        (Some value, Some result) \<Rightarrow>
          if ud_value_cid i = kDoubleCid then
            Some [Fpu (LoadDFieldFromOffset result value (Double_value_offset L))]
          else if ud_value_cid i = kSmiCid then
            Some [Asr TMP value kSmiTagSize, Fpu (SCVTFD result TMP)]
          else
            (let deopt = DeoptStub (ud_deopt_id i) kDeoptBinaryDoubleOp in
             if ud_is_nullable i \<and> ud_ToNullableCid i = kDoubleCid then
               Some [CompareObject value NullObject,
                     B_cond deopt EQ,
                     Fpu (LoadDFieldFromOffset result value (Double_value_offset L))]
             else
               Some [TSTI value kSmiTagMask,
                     B_cond (LocalLabel ''is_smi'') EQ,
                     Heap (CompareClassId value kDoubleCid),
                     B_cond deopt NE,
                     Fpu (LoadDFieldFromOffset result value (Double_value_offset L)),
                     B (LocalLabel ''done''),
                     Bind (LocalLabel ''is_smi''),
                     Asr TMP value kSmiTagSize,
                     Fpu (SCVTFD result TMP),
                     Bind (LocalLabel ''done'')])
      | _ \<Rightarrow> None)"

text \<open>Modelled from the spec: slow paths are appended after all main-line code and jump
  back to the resume label that follows the inline check (section 4.4). When the
  main-line sequence is left for a label bound in the slow-path code, execution goes
  on there; when the slow path leaves for a label bound in the main-line sequence,
  execution resumes at that binding.\<close>

definition exec_with_slow_path ::
    "ObjectStore \<Rightarrow> Instr list \<Rightarrow> Instr list \<Rightarrow> nzcv \<Rightarrow> cpu \<Rightarrow> outcome" where
  "exec_with_slow_path os main slow f s =
     (case exec os main f s of
        Taken l f1 s1 \<Rightarrow>
          if Bind l \<in> set slow then
            (case run os slow (Some l) f1 s1 of
               Taken l' f2 s2 \<Rightarrow>
                 if Bind l' \<in> set main then run os main (Some l') f2 s2
                 else Taken l' f2 s2
             | other \<Rightarrow> other)
          else Taken l f1 s1
      | other \<Rightarrow> other)"

text \<open>The box sequence with its slow path, followed by the unbox sequence.\<close>

definition box_then_unbox ::
    "ObjectStore \<Rightarrow> Instr list \<Rightarrow> Instr list \<Rightarrow> Instr list \<Rightarrow> nzcv \<Rightarrow> cpu \<Rightarrow> outcome" where
  "box_then_unbox os box slow unbox f s =
     (case exec_with_slow_path os box slow f s of
        Fallthrough f1 s1 \<Rightarrow> exec os unbox f1 s1
      | other \<Rightarrow> other)"

text \<open>The bump allocation of a double box succeeds in this state.\<close>

definition fast_allocation_succeeds :: "cpu \<Rightarrow> bool" where
  "fast_allocation_succeeds s =
     (uint (heap_top s) + instance_size kDoubleCid \<le> uint (heap_end s))"

definition example_box :: BoxDoubleInstr where
  "example_box =
     \<lparr>bd_in0 = FpuRegisterLocation 3, bd_temp0 = RegisterLocation 5,
      bd_out0 = RegisterLocation 4, bd_live_cpu = [1, 4, 0], bd_live_fpu = [2, 3]\<rparr>"

definition example_unbox :: UnboxDoubleInstr where
  "example_unbox =
     \<lparr>ud_value_cid = kDoubleCid, ud_is_nullable = False, ud_ToNullableCid = kDoubleCid,
      ud_deopt_id = 9, ud_in0 = RegisterLocation 4, ud_out0 = FpuRegisterLocation 6\<rparr>"

text \<open>A state whose allocation area is full, so that boxing takes the slow path; the
  allocation stub returns the object at address 24576 and leaves other values in every
  register. Register \<open>V3\<close> holds a NaN with a payload.\<close>

definition example_full_heap_cpu :: cpu where
  "example_full_heap_cpu =
     \<lparr>xregs = (\<lambda>r. 7), vregs = (\<lambda>r. 0)(3 := 0x7FF8000000000123),
      vregs_hi = (\<lambda>r. 0), mem = (\<lambda>a. 0), heap_top = 8192, heap_end = 8192,
      saved_x = [], saved_v = [], saved_v_hi = [],
      stub_results =
        [\<lparr>sr_object = 24577, sr_xregs = (\<lambda>r. 99), sr_vregs = (\<lambda>r. 77),
          sr_vregs_hi = (\<lambda>r. 55), sr_mem = (\<lambda>a. 0)\<rparr>],
      store_log = []\<rparr>"

subsection \<open>The object stores that a store instruction performs\<close>












section \<open>Properties\<close>

subsection \<open>Condition codes\<close>

lemma NegateCondition_holds:
  "NegateCondition c = Some nc \<Longrightarrow> condition_holds nc f = (\<not> condition_holds c f)"
  by (cases c) auto

lemma NegateCondition_twice:
  "NegateCondition c = Some nc \<Longrightarrow> NegateCondition nc = Some c"
  by (cases c) auto

text \<open>C10. For each of the ten condition codes that \<open>NegateCondition\<close> handles (EQ, NE,
  LT, LE, GT, GE, CC, CS, HI, LS) the result is the logical complement: it holds on a
  flags state exactly when the original does not. Negating twice gives the original
  condition back.\<close>

theorem NegateCondition_complement_involution:
  "c \<in> set [EQ, NE, LT, LE, GT, GE, CC, CS, HI, LS] \<Longrightarrow>
   \<exists>nc. NegateCondition c = Some nc
      \<and> (\<forall>f. condition_holds nc f = (\<not> condition_holds c f))
      \<and> NegateCondition nc = Some c"
proof -
  assume "c \<in> set [EQ, NE, LT, LE, GT, GE, CC, CS, HI, LS]"
  then obtain nc where nc: "NegateCondition c = Some nc"
    by auto
  show ?thesis
    using nc NegateCondition_holds [OF nc] NegateCondition_twice [OF nc] by blast
qed

theorem NegateCondition_complement_involution_witness:
  "LT \<in> set [EQ, NE, LT, LE, GT, GE, CC, CS, HI, LS] \<and>
   (\<exists>nc. NegateCondition LT = Some nc
      \<and> (\<forall>f. condition_holds nc f = (\<not> condition_holds LT f))
      \<and> NegateCondition nc = Some LT)"
  using NegateCondition_complement_involution [of LT] by simp

subsection \<open>The branch emitter\<close>

text \<open>C9, as stated, fails: for a true condition outside the ten that \<open>NegateCondition\<close>
  handles (here the overflow condition VS) and a fall-through that is not the false
  label, \<open>EmitBranchOnCondition\<close> reaches \<open>UNREACHABLE\<close> and emits nothing.\<close>

theorem EmitBranchOnCondition_unhandled_condition:
  "EmitBranchOnCondition VS
     \<lparr>true_label = BlockLabel 1, false_label = BlockLabel 2, fall_through = BlockLabel 3\<rparr> = None"
  by (simp add: EmitBranchOnCondition_def)

text \<open>C9, amended. When the fall-through is the false label (any true condition), or
  the true condition is one that \<open>NegateCondition\<close> handles: \<open>EmitBranchOnCondition\<close>
  emits exactly one conditional branch on the true condition to the true label if the
  fall-through is the false label; otherwise one conditional branch on the negated
  condition to the false label, followed by an unconditional branch to the true label
  exactly when the true label is not the fall-through. In every case control reaches
  the true label if the condition holds and the false label if it does not.\<close>

theorem EmitBranchOnCondition_handled:
  assumes "fall_through labels = false_label labels \<or> NegateCondition c \<noteq> None"
  shows "\<exists>code. EmitBranchOnCondition c labels = Some code
     \<and> (fall_through labels = false_label labels \<longrightarrow> code = [B_cond (true_label labels) c])
     \<and> (fall_through labels \<noteq> false_label labels \<longrightarrow>
          (\<exists>nc. NegateCondition c = Some nc
             \<and> code = B_cond (false_label labels) nc #
                  (if fall_through labels \<noteq> true_label labels then [B (true_label labels)] else [])))
     \<and> (\<forall>os f s.
          (condition_holds c f \<longrightarrow>
             reaches (exec os code f s) (fall_through labels) (true_label labels))
        \<and> (\<not> condition_holds c f \<longrightarrow>
             reaches (exec os code f s) (fall_through labels) (false_label labels)))"
proof (cases "fall_through labels = false_label labels")
  case True
  then show ?thesis
    by (simp add: EmitBranchOnCondition_def exec_def)
next
  case False
  with assms obtain nc where nc: "NegateCondition c = Some nc"
    by auto
  show ?thesis
    using False nc NegateCondition_holds [OF nc]
    by (simp add: EmitBranchOnCondition_def exec_def)
qed

theorem EmitBranchOnCondition_handled_witness:
  "(fall_through \<lparr>true_label = BlockLabel 1, false_label = BlockLabel 2, fall_through = BlockLabel 3\<rparr>
      = false_label \<lparr>true_label = BlockLabel 1, false_label = BlockLabel 2, fall_through = BlockLabel 3\<rparr>
      \<or> NegateCondition LT \<noteq> None)
   \<and> EmitBranchOnCondition LT
       \<lparr>true_label = BlockLabel 1, false_label = BlockLabel 2, fall_through = BlockLabel 3\<rparr>
       = Some [B_cond (BlockLabel 2) GE, B (BlockLabel 1)]"
  using EmitBranchOnCondition_handled
    [of "\<lparr>true_label = BlockLabel 1, false_label = BlockLabel 2, fall_through = BlockLabel 3\<rparr>" LT]
  by (simp add: EmitBranchOnCondition_def)

subsection \<open>Tagged words\<close>

lemma sint_word_of_int_64:
  "- (2 ^ 63) \<le> k \<Longrightarrow> k < 2 ^ 63 \<Longrightarrow> sint (word_of_int k :: 64 word) = k"
  by (simp add: sint_sbintrunc' signed_take_bit_int_eq_self)

lemma uint_word_of_int_64_pos:
  "0 \<le> k \<Longrightarrow> k < 2 ^ 64 \<Longrightarrow> uint (word_of_int k :: 64 word) = k"
  by (simp add: uint_word_of_int)

lemma uint_word_of_int_64_neg:
  assumes "- (2 ^ 64) \<le> k" "k < 0"
  shows "uint (word_of_int k :: 64 word) = k + 2 ^ 64"
proof -
  have "k mod 2 ^ 64 = (k + 2 ^ 64) mod 2 ^ 64"
    by simp
  also have "\<dots> = k + 2 ^ 64"
    using assms by (intro mod_pos_pos_trivial) auto
  finally show ?thesis
    by (simp add: uint_word_of_int)
qed

lemma sint_tagged: "is_smi_value v \<Longrightarrow> sint (tagged v) = 2 * v"
  unfolding tagged_def smi_raw_def is_smi_value_def kSmiMin_def kSmiMax_def
  by (rule sint_word_of_int_64) auto

lemma uint_tagged_nonneg:
  "is_smi_value v \<Longrightarrow> 0 \<le> v \<Longrightarrow> uint (tagged v) = 2 * v"
  unfolding tagged_def smi_raw_def is_smi_value_def kSmiMin_def kSmiMax_def
  by (rule uint_word_of_int_64_pos) auto

lemma uint_tagged_neg:
  "is_smi_value v \<Longrightarrow> v < 0 \<Longrightarrow> uint (tagged v) = 2 * v + 2 ^ 64"
  unfolding tagged_def smi_raw_def is_smi_value_def kSmiMin_def kSmiMax_def
  by (rule uint_word_of_int_64_neg) auto

lemma tagged_eq_iff:
  assumes "is_smi_value a" "is_smi_value b"
  shows "(tagged a = tagged b) = (a = b)"
proof
  assume "tagged a = tagged b"
  then have "sint (tagged a) = sint (tagged b)" by simp
  then show "a = b" using assms by (simp add: sint_tagged)
qed simp

text \<open>unsigned comparison of an index against a non-negative length\<close>
lemma uint_tagged_le_iff:
  assumes "is_smi_value len" "is_smi_value idx" "0 \<le> len"
  shows "(uint (tagged len) \<le> uint (tagged idx)) = (idx < 0 \<or> len \<le> idx)"
proof (cases "0 \<le> idx")
  case True
  then show ?thesis using assms by (simp add: uint_tagged_nonneg)
next
  case False
  then have "idx < 0" by simp
  then show ?thesis
    using assms unfolding is_smi_value_def kSmiMin_def kSmiMax_def
    by (simp add: uint_tagged_nonneg uint_tagged_neg is_smi_value_def kSmiMin_def kSmiMax_def)
qed


lemma rd_allocatable: "allocatable r \<Longrightarrow> rd s r = xregs s r"
  by (simp add: rd_def allocatable_def)

lemma wr_ZR: "wr ZR v s = s"
  by (simp add: wr_def)

lemma flagC_sub_flags: "flagC (sub_flags a b) = (uint b \<le> uint a)"
  by (simp add: sub_flags_def)

lemma flagZ_sub_flags: "flagZ (sub_flags a b) = (a = b)"
  by (simp add: sub_flags_def)

lemma LS_sub_flags:
  "(flagC (sub_flags a b) \<longrightarrow> flagZ (sub_flags a b)) = (uint a \<le> uint b)"
proof -
  have "(a - b = 0) = (a = b)"
    by simp
  also have "\<dots> = (uint a = uint b)"
    by (rule word_uint_eq_iff)
  finally show ?thesis
    unfolding sub_flags_def by (simp only: nzcv.simps) linarith
qed

lemma tagged_fold: "word_of_int (smi_raw v) = tagged v"
  by (simp add: tagged_def)

lemma holds_smi_cases:
  assumes "holds_smi s loc v"
  obtains (reg) r where "loc = RegisterLocation r" "allocatable r" "xregs s r = tagged v"
        | (const) "loc = Constant (Smi v)"
  using assms by (cases "(s, loc, v)" rule: holds_smi.cases) auto

subsection \<open>Array bounds check\<close>

text \<open>C2. For every index and every non-negative length (both Smi values, each in an
  allocated register or a Smi constant), the code emitted by \<open>CheckArrayBoundInstr\<close>
  leaves for the array-bounds deopt stub if and only if the index is outside
  \<open>[0, length)\<close>; every negative index takes the guard. An in-range index falls through
  with registers and memory exactly as they were (the compare only sets the condition
  flags).\<close>

theorem CheckArrayBound_guard_iff:
  assumes "is_smi_value index" and "is_smi_value len" and "0 \<le> len"
    and "holds_smi s (cab_index_loc i) index"
    and "holds_smi s (cab_length_loc i) len"
  shows "\<exists>code. CheckArrayBoundInstr_EmitNativeCode i = Some code \<and>
     (if 0 \<le> index \<and> index < len
      then \<exists>f'. exec os code f s = Fallthrough f' s
      else \<exists>f'. exec os code f s = Taken (DeoptStub (cab_deopt_id i) kDeoptCheckArrayBound) f' s)"
proof -
  note le = uint_tagged_le_iff [OF assms(2) assms(1) assms(3)]
  from assms(5) show ?thesis
  proof (cases rule: holds_smi_cases)
    case (reg lr)
    from assms(4) show ?thesis
    proof (cases rule: holds_smi_cases)
      case (reg ir)
      with \<open>cab_length_loc i = RegisterLocation lr\<close> \<open>allocatable lr\<close> \<open>xregs s lr = tagged len\<close> le
      show ?thesis
        by (auto simp: CheckArrayBoundInstr_EmitNativeCode_def exec_def rd_allocatable
            flagC_sub_flags flagZ_sub_flags wr_ZR)
    next
      case const
      with reg le show ?thesis
        by (simp add: CheckArrayBoundInstr_EmitNativeCode_def exec_def rd_allocatable
            LS_sub_flags wr_ZR tagged_fold)
    qed
  next
    case const
    note lconst = this
    from assms(4) show ?thesis
    proof (cases rule: holds_smi_cases)
      case (reg ir)
      with lconst le show ?thesis
        by (auto simp: CheckArrayBoundInstr_EmitNativeCode_def exec_def rd_allocatable
            flagC_sub_flags wr_ZR tagged_fold)
    next
      case const
      with lconst show ?thesis
        by (auto simp: CheckArrayBoundInstr_EmitNativeCode_def exec_def)
    qed
  qed
qed


theorem CheckArrayBound_guard_iff_witness:
  "is_smi_value 3 \<and> is_smi_value 5 \<and> (0::int) \<le> 5
   \<and> holds_smi (cpu_of ((\<lambda>r. 0)(1 := tagged 3, 2 := tagged 5)) (\<lambda>r. 0)) (RegisterLocation 1) 3
   \<and> holds_smi (cpu_of ((\<lambda>r. 0)(1 := tagged 3, 2 := tagged 5)) (\<lambda>r. 0)) (RegisterLocation 2) 5
   \<and> (\<exists>f'. exec example_store [CompareRegisters 1 2, B_cond (DeoptStub 7 kDeoptCheckArrayBound) CS]
          clear_flags (cpu_of ((\<lambda>r. 0)(1 := tagged 3, 2 := tagged 5)) (\<lambda>r. 0))
        = Fallthrough f' (cpu_of ((\<lambda>r. 0)(1 := tagged 3, 2 := tagged 5)) (\<lambda>r. 0)))"
  using CheckArrayBound_guard_iff [of 3 5
      "cpu_of ((\<lambda>r. 0)(1 := tagged 3, 2 := tagged 5)) (\<lambda>r. 0)"
      "\<lparr>cab_deopt_id = 7, cab_length_loc = RegisterLocation 2, cab_index_loc = RegisterLocation 1\<rparr>"
      example_store clear_flags]
  by (simp add: CheckArrayBoundInstr_EmitNativeCode_def cpu_of_def allocatable_def
      TMP_def TMP2_def ZR_def is_smi_value_def kSmiMin_def kSmiMax_def)

subsection \<open>Checked Smi arithmetic\<close>

lemma word_of_int_shift_64: "(word_of_int (k + 2 ^ 64) :: 64 word) = word_of_int k"
  by simp

lemma sint_word_of_int_64_high:
  assumes "2 ^ 63 \<le> k" "k < 2 ^ 64"
  shows "sint (word_of_int k :: 64 word) = k - 2 ^ 64"
proof -
  have "sint (word_of_int k :: 64 word) = sint (word_of_int ((k - 2 ^ 64) + 2 ^ 64) :: 64 word)"
    by simp
  also have "\<dots> = sint (word_of_int (k - 2 ^ 64) :: 64 word)"
    by (simp only: word_of_int_shift_64)
  also have "\<dots> = k - 2 ^ 64"
    using assms by (intro sint_word_of_int_64) auto
  finally show ?thesis .
qed

lemma sint_word_of_int_64_low:
  assumes "- (2 ^ 64) \<le> k" "k < - (2 ^ 63)"
  shows "sint (word_of_int k :: 64 word) = k + 2 ^ 64"
proof -
  have "sint (word_of_int k :: 64 word) = sint (word_of_int (k + 2 ^ 64) :: 64 word)"
    by (simp only: word_of_int_shift_64)
  also have "\<dots> = k + 2 ^ 64"
    using assms by (intro sint_word_of_int_64) auto
  finally show ?thesis .
qed

lemma sint_sign_extend:
  "sint (signed_drop_bit 63 (w :: 64 word)) = (if sint w < 0 then - 1 else 0)"
proof -
  have b: "- (2 ^ 63) \<le> sint w" "sint w < 2 ^ 63"
    using sint_ge [of w] sint_lt [of w] by simp_all
  have "sint w div 2 ^ 63 = (if sint w < 0 then - 1 else 0)"
  proof (cases "sint w < 0")
    case True
    with b have "sint w div 2 ^ 63 = - 1"
      by (intro int_div_pos_eq [where r = "sint w + 2 ^ 63"]) auto
    with True show ?thesis by simp
  next
    case False
    with b have "sint w div 2 ^ 63 = 0" by simp
    with False show ?thesis by simp
  qed
  then show ?thesis
    by (simp add: sint_signed_drop_bit_eq drop_bit_eq_div)
qed

lemma mul_overflow_check:
  assumes "- (2 ^ 126) \<le> p" "p < 2 ^ 126"
  shows "((word_of_int (p div 2 ^ 64) :: 64 word) = signed_drop_bit 63 (word_of_int p))
         = (- (2 ^ 63) \<le> p \<and> p < 2 ^ 63)"
proof -
  define hi where "hi = p div 2 ^ 64"
  have hi_lo: "- (2 ^ 63) \<le> hi" and hi_up: "hi < 2 ^ 63"
    using assms unfolding hi_def by (simp; linarith)+
  have sint_hi: "sint (word_of_int hi :: 64 word) = hi"
    using hi_lo hi_up by (rule sint_word_of_int_64)
  have eq: "((word_of_int hi :: 64 word) = signed_drop_bit 63 (word_of_int p))
      = (hi = (if sint (word_of_int p :: 64 word) < 0 then - 1 else 0))"
    by (simp only: word_eq_iff_signed [where ?'a = int] sint_hi sint_sign_extend)
  consider (inr) "- (2 ^ 63) \<le> p" "p < 2 ^ 63" | (high) "2 ^ 63 \<le> p" | (low) "p < - (2 ^ 63)"
    by linarith
  then have "(hi = (if sint (word_of_int p :: 64 word) < 0 then - 1 else 0))
      = (- (2 ^ 63) \<le> p \<and> p < 2 ^ 63)"
  proof cases
    case inr
    then have "sint (word_of_int p :: 64 word) = p"
      by (rule sint_word_of_int_64)
    moreover have "hi = (if p < 0 then - 1 else 0)"
      using inr unfolding hi_def by (auto intro: int_div_pos_eq [where r = "p + 2 ^ 64"])
    ultimately show ?thesis using inr by simp
  next
    case high
    have "hi \<noteq> (if sint (word_of_int p :: 64 word) < 0 then - 1 else 0)"
    proof (cases "p < 2 ^ 64")
      case True
      then have "sint (word_of_int p :: 64 word) = p - 2 ^ 64"
        using high by (intro sint_word_of_int_64_high)
      moreover have "hi = 0" using high True unfolding hi_def by simp
      ultimately show ?thesis using True by simp
    next
      case False
      then have "1 \<le> hi" unfolding hi_def by (simp; linarith)
      then show ?thesis by simp
    qed
    with high show ?thesis by simp
  next
    case low
    have "hi \<noteq> (if sint (word_of_int p :: 64 word) < 0 then - 1 else 0)"
    proof (cases "- (2 ^ 64) \<le> p")
      case True
      then have "sint (word_of_int p :: 64 word) = p + 2 ^ 64"
        using low by (intro sint_word_of_int_64_low)
      moreover have "hi = - 1"
        using low True unfolding hi_def by (intro int_div_pos_eq [where r = "p + 2 ^ 64"]) auto
      ultimately show ?thesis using True by simp
    next
      case False
      then have "hi \<le> - 2" unfolding hi_def by (simp; linarith)
      then show ?thesis by simp
    qed
    with low show ?thesis by simp
  qed
  with eq show ?thesis unfolding hi_def by simp
qed

lemma sint_word_of_int_64_iff:
  "(sint (word_of_int k :: 64 word) = k) = (- (2 ^ 63) \<le> k \<and> k < 2 ^ 63)"
  using sint_ge [of "word_of_int k :: 64 word"] sint_lt [of "word_of_int k :: 64 word"]
  by (auto simp: sint_word_of_int_64)

lemma is_smi_value_iff: "is_smi_value v = (- (2 ^ 63) \<le> 2 * v \<and> 2 * v < 2 ^ 63)"
  by (auto simp: is_smi_value_def kSmiMin_def kSmiMax_def)

lemma tagged_add: "tagged x + tagged y = tagged (x + y)"
  by (simp add: tagged_def smi_raw_def algebra_simps)

lemma tagged_sub: "tagged x - tagged y = tagged (x - y)"
  by (simp add: tagged_def smi_raw_def algebra_simps)

lemma sint_tagged_iff: "(sint (tagged v) = 2 * v) = is_smi_value v"
  unfolding tagged_def smi_raw_def is_smi_value_iff by (rule sint_word_of_int_64_iff)

lemma flagV_add_tagged:
  "is_smi_value x \<Longrightarrow> is_smi_value y \<Longrightarrow>
   flagV (add_flags (tagged x) (tagged y)) = (\<not> is_smi_value (x + y))"
  using sint_tagged_iff [of "x + y"]
  by (simp add: add_flags_def tagged_add sint_tagged)

lemma flagV_sub_tagged:
  "is_smi_value x \<Longrightarrow> is_smi_value y \<Longrightarrow>
   flagV (sub_flags (tagged x) (tagged y)) = (\<not> is_smi_value (x - y))"
  using sint_tagged_iff [of "x - y"]
  by (simp add: sub_flags_def tagged_sub sint_tagged)

lemma untag_tagged:
  assumes "is_smi_value x"
  shows "signed_drop_bit (Suc 0) (tagged x) = word_of_int x"
proof -
  have "sint (signed_drop_bit (Suc 0) (tagged x)) = x"
    using assms by (simp add: sint_signed_drop_bit_eq drop_bit_eq_div sint_tagged)
  moreover have "sint (word_of_int x :: 64 word) = x"
    using assms unfolding is_smi_value_iff by (intro sint_word_of_int_64) auto
  ultimately show ?thesis
    by (simp add: word_eq_iff_signed [where ?'a = int])
qed

lemma rd_wr:
  "rd (wr r v s) r' = (if r' = ZR then 0 else if r = r' then v else rd s r')"
  by (simp add: rd_def wr_def)

lemma xregs_wr:
  "xregs (wr r v s) r' = (if r = ZR then xregs s r' else if r = r' then v else xregs s r')"
  by (simp add: wr_def)

lemma rd_ZR: "rd s ZR = 0"
  by (simp add: rd_def)

lemma mem_wr: "mem (wr r v s) = mem s"
  by (simp add: wr_def)

lemmas reg_simps = rd_wr xregs_wr mem_wr rd_allocatable rd_ZR wr_ZR rd_ZR [unfolded ZR_def]
  wr_ZR [unfolded ZR_def] allocatable_def TMP_def TMP2_def ZR_def

lemma add_register_code:
  assumes "is_smi_value x" "is_smi_value y"
    and "allocatable left" "allocatable right" "allocatable result"
    and "xregs s left = tagged x" "xregs s right = tagged y"
  shows "\<exists>f' s'. xregs s' result = tagged (x + y) \<and>
     exec os [ADDS result left (Operand_reg right), B_cond d VS] f s =
       (if is_smi_value (x + y) then Fallthrough f' s' else Taken d f' s')"
  using assms
  by (simp add: exec_def flagV_add_tagged tagged_add rd_allocatable xregs_wr allocatable_def)

lemma add_constant_code:
  assumes "is_smi_value x" "is_smi_value y"
    and "allocatable left" "allocatable result"
    and "xregs s left = tagged x"
  shows "\<exists>f' s'. xregs s' result = tagged (x + y) \<and>
     exec os [AddImmediateSetFlags result left (smi_raw y), B_cond d VS] f s =
       (if is_smi_value (x + y) then Fallthrough f' s' else Taken d f' s')"
  using assms
  by (simp add: exec_def flagV_add_tagged tagged_add tagged_fold rd_allocatable xregs_wr allocatable_def)

lemma sub_register_code:
  assumes "is_smi_value x" "is_smi_value y"
    and "allocatable left" "allocatable right" "allocatable result"
    and "xregs s left = tagged x" "xregs s right = tagged y"
  shows "\<exists>f' s'. xregs s' result = tagged (x - y) \<and>
     exec os [SUBS result left (Operand_reg right), B_cond d VS] f s =
       (if is_smi_value (x - y) then Fallthrough f' s' else Taken d f' s')"
  using assms
  by (simp add: exec_def flagV_sub_tagged tagged_sub rd_allocatable xregs_wr allocatable_def)

lemma sub_constant_code:
  assumes "is_smi_value x" "is_smi_value y"
    and "allocatable left" "allocatable result"
    and "xregs s left = tagged x"
  shows "\<exists>f' s'. xregs s' result = tagged (x - y) \<and>
     exec os [SubImmediateSetFlags result left (smi_raw y), B_cond d VS] f s =
       (if is_smi_value (x - y) then Fallthrough f' s' else Taken d f' s')"
  using assms
  by (simp add: exec_def flagV_sub_tagged tagged_sub tagged_fold rd_allocatable xregs_wr allocatable_def)

lemma smi_product_bounds:
  assumes "is_smi_value x" "is_smi_value y"
  shows "- (2 ^ 126) \<le> x * (2 * y)" "x * (2 * y) < 2 ^ 126"
proof -
  have "\<bar>x\<bar> \<le> 2 ^ 62" "\<bar>y\<bar> \<le> 2 ^ 62"
    using assms by (auto simp: is_smi_value_def kSmiMin_def kSmiMax_def)
  then have "\<bar>x\<bar> * \<bar>y\<bar> \<le> 2 ^ 62 * 2 ^ 62"
    by (intro mult_mono) auto
  then have "\<bar>x * y\<bar> \<le> 2 ^ 124"
    by (simp add: abs_mult)
  then show "- (2 ^ 126) \<le> x * (2 * y)" "x * (2 * y) < 2 ^ 126"
    by (auto simp: abs_le_iff)
qed

lemma sint_word_of_smi: "is_smi_value x \<Longrightarrow> sint (word_of_int x :: 64 word) = x"
  unfolding is_smi_value_iff by (intro sint_word_of_int_64) auto

lemma mul_tagged: "word_of_int x * tagged y = tagged (x * y)"
  by (simp add: tagged_def smi_raw_def algebra_simps)

lemma smulh_tagged:
  "is_smi_value x \<Longrightarrow> is_smi_value y \<Longrightarrow>
   smulh64 (word_of_int x) (tagged y) = word_of_int ((x * (2 * y)) div 2 ^ 64)"
  by (simp only: smulh64_def sint_word_of_smi sint_tagged)

lemma mul_guard:
  assumes "is_smi_value x" "is_smi_value y"
  shows "(smulh64 (word_of_int x) (tagged y) = signed_drop_bit 63 (tagged (x * y)))
       = is_smi_value (x * y)"
proof -
  have "tagged (x * y) = word_of_int (x * (2 * y))"
    by (simp add: tagged_def smi_raw_def algebra_simps)
  moreover have "is_smi_value (x * y) = (- (2 ^ 63) \<le> x * (2 * y) \<and> x * (2 * y) < 2 ^ 63)"
    by (simp add: is_smi_value_iff algebra_simps)
  ultimately show ?thesis
    using mul_overflow_check [OF smi_product_bounds [OF assms]]
    by (simp only: smulh_tagged [OF assms])
qed

lemma mul_register_code:
  assumes "is_smi_value x" "is_smi_value y"
    and "allocatable left" "allocatable right" "allocatable result"
    and "result \<noteq> right"
    and "xregs s left = tagged x" "xregs s right = tagged y"
  shows "\<exists>f' s'. xregs s' result = tagged (x * y) \<and>
     exec os [Asr TMP left 1, MUL result TMP right, SMULH TMP TMP right,
              CMP TMP (Operand_shifted result ASR 63), B_cond d NE] f s =
       (if is_smi_value (x * y) then Fallthrough f' s' else Taken d f' s')"
  using assms
  by (simp add: exec_def reg_simps untag_tagged mul_tagged mul_guard flagZ_sub_flags)

lemma smulh64_commute: "smulh64 a b = smulh64 b a"
  by (simp add: smulh64_def mult.commute)

lemma mul_constant_code:
  assumes "is_smi_value x" "is_smi_value y"
    and "allocatable left" "allocatable result"
    and "result \<noteq> left"
    and "xregs s left = tagged x"
  shows "\<exists>f' s'. xregs s' result = tagged (x * y) \<and>
     exec os [LoadImmediate TMP y, MUL result left TMP, SMULH TMP left TMP,
              CMP TMP (Operand_shifted result ASR 63), B_cond d NE] f s =
       (if is_smi_value (x * y) then Fallthrough f' s' else Taken d f' s')"
proof -
  have "tagged x * word_of_int y = tagged (y * x)"
    by (simp add: tagged_def smi_raw_def algebra_simps)
  moreover have "(smulh64 (tagged x) (word_of_int y) = signed_drop_bit 63 (tagged (y * x)))
      = is_smi_value (y * x)"
    using mul_guard [OF assms(2) assms(1)] by (simp add: smulh64_commute)
  ultimately show ?thesis
    using assms
    by (simp add: exec_def reg_simps flagZ_sub_flags mult.commute)
qed

lemma double_guard:
  assumes "is_smi_value x"
  shows "(signed_drop_bit 63 (tagged x) = signed_drop_bit 63 (tagged (x * 2)))
       = is_smi_value (x * 2)"
proof -
  have t: "tagged (x * 2) = word_of_int (4 * x)"
    by (simp add: tagged_def smi_raw_def)
  have b: "- (2 ^ 64) \<le> 4 * x" "4 * x < 2 ^ 64"
    using assms by (auto simp: is_smi_value_def kSmiMin_def kSmiMax_def)
  have s: "is_smi_value (x * 2) = (- (2 ^ 63) \<le> 4 * x \<and> 4 * x < 2 ^ 63)"
    by (auto simp: is_smi_value_def kSmiMin_def kSmiMax_def)
  consider (inr) "- (2 ^ 63) \<le> 4 * x" "4 * x < 2 ^ 63" | (high) "2 ^ 63 \<le> 4 * x"
    | (low) "4 * x < - (2 ^ 63)"
    by linarith
  then have "((sint (tagged x) < 0) = (sint (tagged (x * 2)) < 0)) = is_smi_value (x * 2)"
  proof cases
    case inr
    then have "sint (word_of_int (4 * x) :: 64 word) = 4 * x"
      by (rule sint_word_of_int_64)
    with inr show ?thesis
      using assms by (simp add: t s sint_tagged)
  next
    case high
    then have "sint (word_of_int (4 * x) :: 64 word) = 4 * x - 2 ^ 64"
      using b by (intro sint_word_of_int_64_high)
    with high b show ?thesis
      using assms by (simp add: t s sint_tagged)
  next
    case low
    then have "sint (word_of_int (4 * x) :: 64 word) = 4 * x + 2 ^ 64"
      using b by (intro sint_word_of_int_64_low)
    with low b show ?thesis
      using assms by (simp add: t s sint_tagged)
  qed
  moreover have "(signed_drop_bit 63 (tagged x) = signed_drop_bit 63 (tagged (x * 2)))
      = ((sint (tagged x) < 0) = (sint (tagged (x * 2)) < 0))"
    by (auto simp: word_eq_iff_signed [where ?'a = int] sint_sign_extend)
  ultimately show ?thesis
    by (rule_tac trans)
qed

lemma push_bit_tagged: "tagged x * 2 = tagged (x * 2)"
  by (simp add: tagged_def smi_raw_def)

lemma mul_two_code:
  assumes "is_smi_value x"
    and "allocatable left" "allocatable result"
    and "xregs s left = tagged x"
  shows "\<exists>f' s'. xregs s' result = tagged (x * 2) \<and>
     exec os [Asr TMP left 63, Lsl result left 1,
              CMP TMP (Operand_shifted result ASR 63), B_cond d NE] f s =
       (if is_smi_value (x * 2) then Fallthrough f' s' else Taken d f' s')"
  using assms
  by (simp add: exec_def reg_simps flagZ_sub_flags push_bit_tagged double_guard)

lemma run_append:
  "run os (xs @ ys) m f s =
     (case run os xs m f s of
        Fallthrough f' s' \<Rightarrow> run os ys None f' s'
      | Taken l f' s' \<Rightarrow> run os ys (Some l) f' s'
      | Stuck \<Rightarrow> Stuck)"
proof (induction xs arbitrary: m f s)
  case Nil
  then show ?case by (cases m) simp_all
next
  case (Cons i xs)
  show ?case
  proof (cases m)
    case None
    then show ?thesis
      using Cons by (cases "step os i f s") simp_all
  next
    case (Some l)
    then show ?thesis
      using Cons by simp
  qed
qed

lemma js_check_cases:
  assumes "js_check FLAG rng (Some d) result = Some chk"
  shows "chk = [] \<or>
     chk = [CompareImmediate result (- 0x20000000000000), B_cond d LT,
            CompareImmediate result 0x20000000000000, B_cond d GT]"
  using assms
  by (auto simp: js_check_def EmitJavascriptOverflowCheck_def split: if_splits option.splits)

lemma js_check_exists:
  assumes "FLAG \<longrightarrow> rng \<noteq> None"
  shows "\<exists>chk. js_check FLAG rng (Some d) result = Some chk \<and> (\<not> FLAG \<longrightarrow> chk = [])"
  using assms
  by (auto simp: js_check_def EmitJavascriptOverflowCheck_def split: if_splits option.splits)

lemma checked_code_then_js_check:
  assumes core: "xregs s' result = tagged v"
      "exec os core f s = (if is_smi_value v then Fallthrough f' s' else Taken d f' s')"
    and chk: "js_check FLAG rng (Some d) result = Some chk"
  shows "result_or_deopt d result v (exec os (core @ chk) f s)"
proof -
  from js_check_cases [OF chk] show ?thesis
  proof
    assume "chk = []"
    with core show ?thesis by simp
  next
    assume c: "chk = [CompareImmediate result (- 0x20000000000000), B_cond d LT,
            CompareImmediate result 0x20000000000000, B_cond d GT]"
    show ?thesis
      using core unfolding exec_def run_append c
      by (simp split: if_splits)
  qed
qed

lemma checked_arith_core:
  assumes op: "opk = kADD \<or> opk = kSUB \<or> opk = kMUL"
    and regs: "allocatable left" "allocatable result" "xregs s left = tagged x"
    and right: "holds_smi s in1 y"
    and smi: "is_smi_value x" "is_smi_value y"
    and mul: "opk = kMUL \<longrightarrow> result \<noteq> left \<and> in1 \<noteq> RegisterLocation result"
  shows "\<exists>core f' s'.
      (case in1 of
         Constant c \<Rightarrow> (case c of Smi v \<Rightarrow> BinarySmiOp_constant_case opk (Some d) left result v
                                     | _ \<Rightarrow> None)
       | RegisterLocation right \<Rightarrow> BinarySmiOp_register_case i opk (Some d) left right result
       | _ \<Rightarrow> None) = Some core
    \<and> xregs s' result = tagged (arith_value opk x y)
    \<and> exec os core f s =
        (if is_smi_value (arith_value opk x y) then Fallthrough f' s' else Taken d f' s')"
  using right
proof (cases rule: holds_smi_cases)
  case (reg right)
  from op show ?thesis
  proof (elim disjE)
    assume "opk = kADD"
    then show ?thesis
      using add_register_code [OF smi regs(1) reg(2) regs(2) regs(3) reg(3), of os d f] reg(1)
      by auto
  next
    assume "opk = kSUB"
    then show ?thesis
      using sub_register_code [OF smi regs(1) reg(2) regs(2) regs(3) reg(3), of os d f] reg(1)
      by auto
  next
    assume "opk = kMUL"
    then show ?thesis
      using mul_register_code [OF smi regs(1) reg(2) regs(2) _ regs(3) reg(3), of os d f] reg(1) mul
      by auto
  qed
next
  case const
  from op show ?thesis
  proof (elim disjE)
    assume "opk = kADD"
    then show ?thesis
      using add_constant_code [OF smi regs, of os d f] const by auto
  next
    assume "opk = kSUB"
    then show ?thesis
      using sub_constant_code [OF smi regs, of os d f] const by auto
  next
    assume k: "opk = kMUL"
    show ?thesis
    proof (cases "y = 2")
      case True
      with k show ?thesis
        using mul_two_code [OF smi(1) regs, of os d f] const by auto
    next
      case False
      with k show ?thesis
        using mul_constant_code [OF smi regs(1) regs(2) _ regs(3), of os d f] const mul by auto
    qed
  qed
qed

text \<open>C1. For every pair of Smi values \<open>x\<close>, \<open>y\<close>, the code that \<open>BinarySmiOpInstr\<close> emits
  for a checked addition, subtraction or multiplication (the instruction is not
  truncating and can deoptimize; the right operand is a register or a Smi constant)
  either falls through with the tagged mathematically correct result in the result
  register, that result being a Smi value, or leaves for the instruction's
  \<open>kDeoptBinarySmiOp\<close> stub; it never falls through with a wrapped value. Without the
  additional Javascript overflow check, it falls through whenever the correct result is
  a Smi value.\<close>

theorem BinarySmiOp_checked_arithmetic:
  assumes op: "bso_op_kind i = kADD \<or> bso_op_kind i = kSUB \<or> bso_op_kind i = kMUL"
    and checked: "\<not> bso_is_truncating i" "bso_CanDeoptimize i"
    and locs: "bso_in0 i = RegisterLocation left" "bso_out0 i = RegisterLocation result"
      "allocatable result"
    and mul: "bso_op_kind i = kMUL \<longrightarrow> result \<noteq> left \<and> bso_in1 i \<noteq> RegisterLocation result"
    and flag: "FLAG_throw_on_javascript_int_overflow \<longrightarrow> bso_range i \<noteq> None"
    and smi: "is_smi_value x" "is_smi_value y"
    and operands: "holds_smi s (bso_in0 i) x" "holds_smi s (bso_in1 i) y"
  shows "\<exists>code. BinarySmiOpInstr_EmitNativeCode FLAG_throw_on_javascript_int_overflow i = Some code
     \<and> result_or_deopt (DeoptStub (bso_deopt_id i) kDeoptBinarySmiOp) result
           (arith_value (bso_op_kind i) x y) (exec os code f s)
     \<and> (\<not> FLAG_throw_on_javascript_int_overflow \<and> is_smi_value (arith_value (bso_op_kind i) x y)
           \<longrightarrow> (\<exists>f' s'. exec os code f s = Fallthrough f' s'))"
proof -
  let ?d = "DeoptStub (bso_deopt_id i) kDeoptBinarySmiOp"
  let ?v = "arith_value (bso_op_kind i) x y"
  have left: "allocatable left" "xregs s left = tagged x"
    using operands(1) locs(1) by simp_all
  obtain core f' s' where core:
    "(case bso_in1 i of
         Constant c \<Rightarrow> (case c of Smi v \<Rightarrow>
             BinarySmiOp_constant_case (bso_op_kind i) (Some ?d) left result v | _ \<Rightarrow> None)
       | RegisterLocation right \<Rightarrow>
             BinarySmiOp_register_case i (bso_op_kind i) (Some ?d) left right result
       | _ \<Rightarrow> None) = Some core"
    "xregs s' result = tagged ?v"
    "exec os core f s = (if is_smi_value ?v then Fallthrough f' s' else Taken ?d f' s')"
    using checked_arith_core [OF op left(1) locs(3) left(2) operands(2) smi mul, of i ?d os f]
    by blast
  obtain chk where chk:
    "js_check FLAG_throw_on_javascript_int_overflow (bso_range i) (Some ?d) result = Some chk"
    "\<not> FLAG_throw_on_javascript_int_overflow \<longrightarrow> chk = []"
    using js_check_exists [OF flag] by blast
  have emit: "BinarySmiOpInstr_EmitNativeCode FLAG_throw_on_javascript_int_overflow i
      = Some (core @ chk)"
    using op checked locs core(1) chk(1)
    by (auto simp: BinarySmiOpInstr_EmitNativeCode_def split: Location.splits Object.splits)
  have "result_or_deopt ?d result ?v (exec os (core @ chk) f s)"
    using core(2,3) chk(1) by (rule checked_code_then_js_check)
  moreover have "\<not> FLAG_throw_on_javascript_int_overflow \<and> is_smi_value ?v
      \<longrightarrow> (\<exists>f' s'. exec os (core @ chk) f s = Fallthrough f' s')"
    using chk(2) core(3) by auto
  ultimately show ?thesis
    using emit by blast
qed

theorem BinarySmiOp_checked_arithmetic_witness:
  "(bso_op_kind (example_binary_smi_op kMUL (RegisterLocation 2)) = kADD
      \<or> bso_op_kind (example_binary_smi_op kMUL (RegisterLocation 2)) = kSUB
      \<or> bso_op_kind (example_binary_smi_op kMUL (RegisterLocation 2)) = kMUL)
   \<and> \<not> bso_is_truncating (example_binary_smi_op kMUL (RegisterLocation 2))
   \<and> bso_CanDeoptimize (example_binary_smi_op kMUL (RegisterLocation 2))
   \<and> is_smi_value (2 ^ 61) \<and> is_smi_value 4
   \<and> holds_smi (cpu_of ((\<lambda>r. 0)(1 := tagged (2 ^ 61), 2 := tagged 4)) (\<lambda>r. 0))
         (bso_in0 (example_binary_smi_op kMUL (RegisterLocation 2))) (2 ^ 61)
   \<and> holds_smi (cpu_of ((\<lambda>r. 0)(1 := tagged (2 ^ 61), 2 := tagged 4)) (\<lambda>r. 0))
         (bso_in1 (example_binary_smi_op kMUL (RegisterLocation 2))) 4
   \<and> (\<exists>code. BinarySmiOpInstr_EmitNativeCode False (example_binary_smi_op kMUL (RegisterLocation 2))
          = Some code
        \<and> result_or_deopt (DeoptStub 42 kDeoptBinarySmiOp) 3 (2 ^ 61 * 4)
            (exec example_store code clear_flags
               (cpu_of ((\<lambda>r. 0)(1 := tagged (2 ^ 61), 2 := tagged 4)) (\<lambda>r. 0))))"
  using BinarySmiOp_checked_arithmetic
    [of "example_binary_smi_op kMUL (RegisterLocation 2)" 1 3 False "2 ^ 61" 4
        "cpu_of ((\<lambda>r. 0)(1 := tagged (2 ^ 61), 2 := tagged 4)) (\<lambda>r. 0)"
        example_store clear_flags]
  by (simp add: example_binary_smi_op_def cpu_of_def allocatable_def TMP_def TMP2_def ZR_def
      is_smi_value_def kSmiMin_def kSmiMax_def)

subsection \<open>Division and modulo\<close>

lemma trunc_div_abs_le: "\<bar>trunc_div a b\<bar> \<le> \<bar>a\<bar>"
proof (cases "b = 0")
  case True
  then show ?thesis by (simp add: trunc_div_def)
next
  case False
  then have "\<bar>a\<bar> div \<bar>b\<bar> \<le> \<bar>a\<bar> div 1"
    by (intro zdiv_mono2) auto
  moreover have "0 \<le> \<bar>a\<bar> div \<bar>b\<bar>"
    using False by (intro pos_imp_zdiv_nonneg_iff [THEN iffD2]) auto
  ultimately show ?thesis
    unfolding trunc_div_def by (simp add: abs_mult abs_sgn_eq)
qed

lemma trunc_remainder: "a - b * trunc_div a b = sgn a * (\<bar>a\<bar> mod \<bar>b\<bar>)"
proof -
  have "b * trunc_div a b = sgn a * ((b * sgn b) * (\<bar>a\<bar> div \<bar>b\<bar>))"
    by (simp add: trunc_div_def)
  also have "b * sgn b = \<bar>b\<bar>"
    by (simp add: abs_sgn)
  finally have "a - b * trunc_div a b = sgn a * \<bar>a\<bar> - sgn a * (\<bar>b\<bar> * (\<bar>a\<bar> div \<bar>b\<bar>))"
    by (simp add: mult_sgn_abs)
  also have "\<dots> = sgn a * (\<bar>a\<bar> - \<bar>b\<bar> * (\<bar>a\<bar> div \<bar>b\<bar>))"
    by (simp only: right_diff_distrib)
  also have "\<bar>a\<bar> - \<bar>b\<bar> * (\<bar>a\<bar> div \<bar>b\<bar>) = \<bar>a\<bar> mod \<bar>b\<bar>"
    by (rule minus_mult_div_eq_mod)
  finally show ?thesis .
qed

lemma trunc_remainder_bounds:
  assumes "b \<noteq> 0"
  shows "\<bar>a - b * trunc_div a b\<bar> < \<bar>b\<bar>"
proof -
  have "0 < \<bar>b\<bar>" using assms by simp
  then have "0 \<le> \<bar>a\<bar> mod \<bar>b\<bar>" "\<bar>a\<bar> mod \<bar>b\<bar> < \<bar>b\<bar>"
    by simp_all
  then show ?thesis
    using assms unfolding trunc_remainder by (simp add: abs_mult abs_sgn_eq)
qed

lemma smi_mod_value_eq:
  assumes "b \<noteq> 0"
  shows "smi_mod_value a b = a mod \<bar>b\<bar>"
proof -
  define m where "m = \<bar>b\<bar>"
  have pos: "0 < m" using assms by (simp add: m_def)
  have bm: "b < 0 \<Longrightarrow> - b = m" "\<not> b < 0 \<Longrightarrow> b = m"
    by (simp_all add: m_def)
  have r0: "a - b * trunc_div a b = sgn a * (\<bar>a\<bar> mod m)"
    unfolding m_def by (rule trunc_remainder)
  have adj: "\<And>res. (if b < 0 then res - b else res + b) = res + m"
    using bm by auto
  have val: "smi_mod_value a b =
      (if sgn a * (\<bar>a\<bar> mod m) < 0 then sgn a * (\<bar>a\<bar> mod m) + m else sgn a * (\<bar>a\<bar> mod m))"
    by (simp only: smi_mod_value_def Let_def r0 adj)
  have nn: "\<And>k. 0 \<le> k mod m" "\<And>k. k mod m < m"
    using pos by simp_all
  have "smi_mod_value a b = a mod m"
  proof (cases "0 \<le> a")
    case True
    then have "sgn a * (\<bar>a\<bar> mod m) = a mod m"
      by (cases "a = 0") simp_all
    then show ?thesis
      using nn(1) [of a] by (simp add: val)
  next
    case False
    then have s: "sgn a * (\<bar>a\<bar> mod m) = - ((- a) mod m)"
      by simp
    have "a mod m = (if (- a) mod m = 0 then 0 else m - (- a) mod m)"
      using zmod_zminus1_eq_if [of "- a" m] by simp
    then show ?thesis
      using nn [of "- a"] unfolding val s by (cases "(- a) mod m = 0") simp_all
  qed
  then show ?thesis by (simp only: m_def)
qed

lemma smi_mod_value_bounds:
  assumes "b \<noteq> 0"
  shows "0 \<le> smi_mod_value a b" "smi_mod_value a b < \<bar>b\<bar>"
  using assms by (simp_all add: smi_mod_value_eq)

lemma smi_mod_value_congruent:
  assumes "b \<noteq> 0"
  shows "\<exists>q. a = b * q + smi_mod_value a b"
proof -
  have "a = \<bar>b\<bar> * (a div \<bar>b\<bar>) + a mod \<bar>b\<bar>"
    by simp
  also have "\<bar>b\<bar> = b * sgn b"
    by (simp add: abs_sgn)
  finally have "a = b * (sgn b * (a div (b * sgn b))) + a mod (b * sgn b)"
    by (simp only: mult.assoc)
  then have "a = b * (sgn b * (a div (b * sgn b))) + smi_mod_value a b"
    using assms by (simp add: smi_mod_value_eq abs_sgn)
  then show ?thesis by blast
qed

lemma word_of_smi_eq_0_iff: "is_smi_value b \<Longrightarrow> ((word_of_int b :: 64 word) = 0) = (b = 0)"
  using sint_word_of_smi [of b] by (auto simp: word_eq_iff_signed [where ?'a = int])

lemma sdiv64_smi:
  assumes "is_smi_value a" "is_smi_value b" "b \<noteq> 0"
  shows "sdiv64 (word_of_int a) (word_of_int b) = word_of_int (trunc_div a b)"
  using assms by (simp add: sdiv64_def word_of_smi_eq_0_iff sint_word_of_smi)

lemma trunc_div_smi_bounds:
  assumes "is_smi_value a"
  shows "- (2 ^ 62) \<le> trunc_div a b" "trunc_div a b \<le> 2 ^ 62"
  using assms trunc_div_abs_le [of a b]
  by (auto simp: is_smi_value_def kSmiMin_def kSmiMax_def)

lemma truncdiv_guard:
  assumes "is_smi_value a"
  shows "((word_of_int (trunc_div a b) :: 64 word) = 4611686018427387904)
       = (\<not> is_smi_value (trunc_div a b))"
proof -
  have "sint (word_of_int (trunc_div a b) :: 64 word) = trunc_div a b"
    using trunc_div_smi_bounds [OF assms, of b] by (intro sint_word_of_int_64) auto
  moreover have "sint (4611686018427387904 :: 64 word) = 4611686018427387904"
    by simp
  ultimately show ?thesis
    using trunc_div_smi_bounds [OF assms, of b]
    by (auto simp: word_eq_iff_signed [where ?'a = int] is_smi_value_def kSmiMin_def kSmiMax_def)
qed

lemma tag_word: "(word_of_int q :: 64 word) * 2 = tagged q"
  by (simp add: tagged_def smi_raw_def)

lemma trunc_div_min_by_minus_one: "\<not> is_smi_value (trunc_div kSmiMin (- 1))"
  by (simp add: trunc_div_def kSmiMin_def is_smi_value_def kSmiMax_def)

lemma tagged_zero: "tagged 0 = 0"
  by (simp add: tagged_def smi_raw_def)

lemma tagged_eq_0_iff: "is_smi_value b \<Longrightarrow> (tagged b = 0) = (b = 0)"
  using tagged_eq_iff [of b 0] by (simp add: tagged_zero is_smi_value_def kSmiMin_def kSmiMax_def)

lemma zero_check_cases:
  assumes "divisor_zero_check rr (Some d) right = Some zc"
  shows "zc = [] \<or> zc = [CompareRegisters right ZR, B_cond d EQ]"
  using assms by (auto simp: divisor_zero_check_def split: if_splits)

lemma zero_check_exists:
  "\<exists>zc. divisor_zero_check rr (Some d) right = Some zc \<and>
     (in_range rr 0 \<longrightarrow> zc = [CompareRegisters right ZR, B_cond d EQ])"
  by (auto simp: divisor_zero_check_def in_range_def Overlaps_def split: option.splits)

lemma zero_check_run:
  assumes "zc = [] \<or> zc = [CompareRegisters right ZR, B_cond d EQ]"
    and "allocatable right" "xregs s right = tagged b" "is_smi_value b" "b \<noteq> 0"
  shows "\<exists>f'. run os zc None f s = Fallthrough f' s"
  using assms by (auto simp: reg_simps wr_ZR flagZ_sub_flags tagged_eq_0_iff)

lemma zero_check_taken:
  assumes "allocatable right" "xregs s right = tagged 0"
  shows "\<exists>f'. run os [CompareRegisters right ZR, B_cond d EQ] None f s = Taken d f' s"
  using assms by (simp add: reg_simps wr_ZR flagZ_sub_flags tagged_zero)

lemma truncdiv_body:
  assumes "is_smi_value a" "is_smi_value b" "b \<noteq> 0"
    and "allocatable left" "allocatable right" "allocatable result"
    and "xregs s left = tagged a" "xregs s right = tagged b"
  shows "\<exists>f' s'. (is_smi_value (trunc_div a b) \<longrightarrow> xregs s' result = tagged (trunc_div a b)) \<and>
     run os [Asr TMP2 left 1, Asr TMP right 1, SDIV result TMP2 TMP,
             CompareImmediate result 0x4000000000000000,
             B_cond d EQ, SmiTag result] None f s =
       (if is_smi_value (trunc_div a b) then Fallthrough f' s' else Taken d f' s')"
  using assms
  by (simp add: reg_simps untag_tagged sdiv64_smi truncdiv_guard flagZ_sub_flags tag_word)

lemma flagN_sub_zero: "flagN (sub_flags w 0) = (sint w < 0)"
  by (simp add: sub_flags_def)

lemma flagV_sub_zero: "flagV (sub_flags w 0) = False"
  by (simp add: sub_flags_def)

lemma trunc_remainder_smi:
  assumes "is_smi_value b" "b \<noteq> 0"
  shows "is_smi_value (a - b * trunc_div a b)"
  using trunc_remainder_bounds [OF assms(2), of a] assms(1)
  by (auto simp: is_smi_value_def kSmiMin_def kSmiMax_def)

lemma msub_words:
  "(word_of_int a :: 64 word) - word_of_int b * word_of_int q = word_of_int (a - b * q)"
  by simp

lemma mod_body:
  assumes "is_smi_value a" "is_smi_value b" "b \<noteq> 0"
    and "allocatable left" "allocatable right" "allocatable result" "result \<noteq> right"
    and "xregs s left = tagged a" "xregs s right = tagged b"
  shows "\<exists>f' s'. xregs s' result = tagged (smi_mod_value a b) \<and>
     run os [Asr TMP2 left 1, Asr TMP right 1, SDIV result TMP2 TMP,
              Asr TMP right 1, MSUB result TMP result TMP2, SmiTag result,
              CompareRegisters result ZR, B_cond (LocalLabel ''done'') GE,
              CompareRegisters right ZR,
              SUB TMP result (Operand_reg right),
              ADD result result (Operand_reg right),
              CSEL result TMP result LT,
              Bind (LocalLabel ''done'')] None f s = Fallthrough f' s'"
proof -
  have r: "sint (tagged (a - b * trunc_div a b)) = 2 * (a - b * trunc_div a b)"
    using trunc_remainder_smi [OF assms(2,3)] by (rule sint_tagged)
  show ?thesis
    using assms
    by (simp add: reg_simps untag_tagged sdiv64_smi msub_words tag_word wr_ZR
        flagN_sub_zero flagV_sub_zero r sint_tagged tagged_add tagged_sub smi_mod_value_def Let_def
        del: of_int_diff of_int_mult)
qed

lemma run_seeking_no_bind:
  "Bind l \<notin> set xs \<Longrightarrow> run os xs (Some l) f s = Taken l f s"
  by (induction xs) auto

lemma js_check_no_bind:
  assumes "js_check FLAG rng (Some d) result = Some chk"
  shows "Bind l \<notin> set chk"
  using js_check_cases [OF assms] by auto

lemma guarded_then_js_check:
  assumes core: "run os core None f s = (if ok then Fallthrough f' s' else Taken d f' s')"
      "ok \<longrightarrow> is_smi_value v \<and> xregs s' result = tagged v"
    and chk: "js_check FLAG rng (Some d) result = Some chk"
  shows "result_or_deopt d result v (run os (core @ chk) None f s)"
proof -
  from js_check_cases [OF chk] show ?thesis
  proof
    assume "chk = []"
    with core show ?thesis by simp
  next
    assume c: "chk = [CompareImmediate result (- 0x20000000000000), B_cond d LT,
            CompareImmediate result 0x20000000000000, B_cond d GT]"
    show ?thesis
      using core unfolding run_append c
      by (simp split: if_splits)
  qed
qed

lemma division_by_zero_deopts:
  assumes zc: "run os zc None f s = Taken d f' s"
    and rest: "Bind d \<notin> set rest"
  shows "deopts_unchanged d s (exec os (zc @ rest) f s)"
  using assms by (simp add: exec_def run_append run_seeking_no_bind)

lemma division_nonzero_runs:
  assumes zc: "run os zc None f s = Fallthrough f1 s"
    and body: "run os body None f1 s = (if ok then Fallthrough f' s' else Taken d f' s')"
      "ok \<longrightarrow> is_smi_value v \<and> xregs s' result = tagged v"
    and chk: "js_check FLAG rng (Some d) result = Some chk" "\<not> FLAG \<longrightarrow> chk = []"
  shows "result_or_deopt d result v (exec os (zc @ body @ chk) f s)
     \<and> (\<not> FLAG \<and> ok \<longrightarrow> falls_through (exec os (zc @ body @ chk) f s))"
proof -
  have "exec os (zc @ body @ chk) f s = run os (body @ chk) None f1 s"
    using zc by (simp add: exec_def run_append)
  moreover have "result_or_deopt d result v (run os (body @ chk) None f1 s)"
    using body chk(1) by (rule guarded_then_js_check)
  moreover have "\<not> FLAG \<and> ok \<longrightarrow> falls_through (run os (body @ chk) None f1 s)"
    using body(1) chk(2) by auto
  ultimately show ?thesis by simp
qed

text \<open>C3, as stated, fails: the quotient of \<open>kTRUNCDIV\<close> is truncated towards zero while
  the remainder of \<open>kMOD\<close> is made non-negative, so the two do not recombine to a
  negative dividend. For dividend \<open>-7\<close> and divisor \<open>2\<close> the emitted code computes the
  quotient \<open>-3\<close> and the remainder \<open>1\<close>, and \<open>2 * (-3) + 1 = -5\<close>.\<close>

theorem BinarySmiOp_division_identity_fails:
  "fallthrough_value
     (exec_emitted example_store
        (BinarySmiOpInstr_EmitNativeCode False (example_binary_smi_op kTRUNCDIV (RegisterLocation 2)))
        clear_flags example_division_cpu) 3 = Some (- 3)
   \<and> fallthrough_value
     (exec_emitted example_store
        (BinarySmiOpInstr_EmitNativeCode False (example_binary_smi_op kMOD (RegisterLocation 2)))
        clear_flags example_division_cpu) 3 = Some 1
   \<and> (- 7 :: int) \<noteq> 2 * (- 3) + 1"
  by (simp add: exec_emitted_def BinarySmiOpInstr_EmitNativeCode_def example_binary_smi_op_def
      divisor_zero_check_def js_check_def example_division_cpu_def
      exec_def cpu_of_def rd_def wr_def ZR_def TMP_def TMP2_def tagged_def smi_raw_def
      sub_flags_def sdiv64_def trunc_div_def)

text \<open>C3, amended. For every dividend and divisor (Smi values in registers, the divisor
  within its analysed range if there is one) and a \<open>kTRUNCDIV\<close> or \<open>kMOD\<close> instruction
  that can deoptimize: a zero divisor reaches the emitted zero check and branches to the
  deopt stub with no register or memory written, so before the divide. For a non-zero
  divisor, \<open>kTRUNCDIV\<close> falls through with the tagged quotient truncated towards zero, or
  deoptimizes; the remainder \<open>dividend - divisor * quotient\<close> of that quotient is smaller
  in magnitude than the divisor. \<open>kMOD\<close> falls through with the tagged non-negative
  remainder \<open>dividend mod |divisor|\<close>, which lies in \<open>[0, |divisor|)\<close> and differs from
  the dividend by a multiple of the divisor. The quotient of the minimum Smi by \<open>-1\<close> is
  not a Smi value, so that division takes the guard.\<close>


theorem BinarySmiOp_division:
  assumes op: "bso_op_kind i = kTRUNCDIV \<or> bso_op_kind i = kMOD"
    and checked: "\<not> bso_is_truncating i" "bso_CanDeoptimize i"
    and locs: "bso_in0 i = RegisterLocation left" "bso_in1 i = RegisterLocation right"
      "bso_out0 i = RegisterLocation result" "allocatable result" "result \<noteq> right"
    and flag: "FLAG_throw_on_javascript_int_overflow \<longrightarrow> bso_range i \<noteq> None"
    and smi: "is_smi_value a" "is_smi_value b"
    and operands: "holds_smi s (bso_in0 i) a" "holds_smi s (bso_in1 i) b"
    and range: "in_range (bso_right_range i) b"
  shows "\<exists>code. BinarySmiOpInstr_EmitNativeCode FLAG_throw_on_javascript_int_overflow i = Some code
     \<and> (b = 0 \<longrightarrow>
          deopts_unchanged (DeoptStub (bso_deopt_id i) kDeoptBinarySmiOp) s (exec os code f s))
     \<and> (b \<noteq> 0 \<longrightarrow>
          result_or_deopt (DeoptStub (bso_deopt_id i) kDeoptBinarySmiOp) result
            (if bso_op_kind i = kTRUNCDIV then trunc_div a b else smi_mod_value a b)
            (exec os code f s)
        \<and> (\<not> FLAG_throw_on_javascript_int_overflow
             \<and> (bso_op_kind i = kTRUNCDIV \<longrightarrow> is_smi_value (trunc_div a b))
             \<longrightarrow> falls_through (exec os code f s))
        \<and> \<bar>a - b * trunc_div a b\<bar> < \<bar>b\<bar>
        \<and> smi_mod_value a b = a mod \<bar>b\<bar>
        \<and> 0 \<le> smi_mod_value a b \<and> smi_mod_value a b < \<bar>b\<bar>
        \<and> (\<exists>q. a = b * q + smi_mod_value a b))
     \<and> \<not> is_smi_value (trunc_div kSmiMin (- 1))"
proof -
  let ?d = "DeoptStub (bso_deopt_id i) kDeoptBinarySmiOp"
  let ?F = FLAG_throw_on_javascript_int_overflow
  have left: "allocatable left" "xregs s left = tagged a"
    using operands(1) locs(1) by simp_all
  have right: "allocatable right" "xregs s right = tagged b"
    using operands(2) locs(2) by simp_all
  obtain zc where zc: "divisor_zero_check (bso_right_range i) (Some ?d) right = Some zc"
      "in_range (bso_right_range i) 0 \<longrightarrow> zc = [CompareRegisters right ZR, B_cond ?d EQ]"
    using zero_check_exists by blast
  note zc_forms = zero_check_cases [OF zc(1)]
  obtain chk where chk: "js_check ?F (bso_range i) (Some ?d) result = Some chk"
      "\<not> ?F \<longrightarrow> chk = []"
    using js_check_exists [OF flag] by blast
  note chk_nb = js_check_no_bind [OF chk(1)]
  have math: "b \<noteq> 0 \<longrightarrow> \<bar>a - b * trunc_div a b\<bar> < \<bar>b\<bar>
        \<and> smi_mod_value a b = a mod \<bar>b\<bar>
        \<and> 0 \<le> smi_mod_value a b \<and> smi_mod_value a b < \<bar>b\<bar>
        \<and> (\<exists>q. a = b * q + smi_mod_value a b)"
    using trunc_remainder_bounds [of b a] smi_mod_value_eq [of b a] smi_mod_value_bounds [of b a]
      smi_mod_value_congruent [of b a]
    by blast
  have zero: "b = 0 \<Longrightarrow> \<exists>f'. run os zc None f s = Taken ?d f' s"
    using zc(2) range zero_check_taken [OF right(1), where s = s and d = ?d and os = os and f = f] right(2) by auto
  have nonzero: "b \<noteq> 0 \<Longrightarrow> \<exists>f1. run os zc None f s = Fallthrough f1 s"
    using zero_check_run [OF zc_forms right smi(2)] by blast
  from op show ?thesis
  proof
    assume k: "bso_op_kind i = kTRUNCDIV"
    let ?body = "[Asr TMP2 left 1, Asr TMP right 1, SDIV result TMP2 TMP,
             CompareImmediate result 0x4000000000000000, B_cond ?d EQ, SmiTag result]"
    have emit: "BinarySmiOpInstr_EmitNativeCode ?F i = Some (zc @ ?body @ chk)"
      using k checked locs zc(1) chk(1) by (simp add: BinarySmiOpInstr_EmitNativeCode_def)
    have z: "b = 0 \<longrightarrow> deopts_unchanged ?d s (exec os (zc @ ?body @ chk) f s)"
    proof
      assume "b = 0"
      then obtain f' where "run os zc None f s = Taken ?d f' s"
        using zero by blast
      then show "deopts_unchanged ?d s (exec os (zc @ ?body @ chk) f s)"
        using chk_nb by (intro division_by_zero_deopts) auto
    qed
    have nz: "b \<noteq> 0 \<longrightarrow>
        result_or_deopt ?d result (trunc_div a b) (exec os (zc @ ?body @ chk) f s)
        \<and> (\<not> ?F \<and> is_smi_value (trunc_div a b)
             \<longrightarrow> falls_through (exec os (zc @ ?body @ chk) f s))"
    proof
      assume b: "b \<noteq> 0"
      then obtain f1 where f1: "run os zc None f s = Fallthrough f1 s"
        using nonzero by blast
      obtain f' s' where body:
        "is_smi_value (trunc_div a b) \<longrightarrow> xregs s' result = tagged (trunc_div a b)"
        "run os ?body None f1 s =
           (if is_smi_value (trunc_div a b) then Fallthrough f' s' else Taken ?d f' s')"
        using truncdiv_body [OF smi b left(1) right(1) locs(4) left(2) right(2), where os = os and d = ?d and f = f1]
        by blast
      from body(1) have ok: "is_smi_value (trunc_div a b) \<longrightarrow>
          is_smi_value (trunc_div a b) \<and> xregs s' result = tagged (trunc_div a b)"
        by simp
      show "result_or_deopt ?d result (trunc_div a b) (exec os (zc @ ?body @ chk) f s)
        \<and> (\<not> ?F \<and> is_smi_value (trunc_div a b)
             \<longrightarrow> falls_through (exec os (zc @ ?body @ chk) f s))"
        using f1 body(2) ok chk by (rule division_nonzero_runs)
    qed
    show ?thesis
      using emit z nz math k trunc_div_min_by_minus_one by auto
  next
    assume k: "bso_op_kind i = kMOD"
    let ?body = "[Asr TMP2 left 1, Asr TMP right 1, SDIV result TMP2 TMP,
              Asr TMP right 1, MSUB result TMP result TMP2, SmiTag result,
              CompareRegisters result ZR, B_cond (LocalLabel ''done'') GE,
              CompareRegisters right ZR,
              SUB TMP result (Operand_reg right),
              ADD result result (Operand_reg right),
              CSEL result TMP result LT,
              Bind (LocalLabel ''done'')]"
    have emit: "BinarySmiOpInstr_EmitNativeCode ?F i = Some (zc @ ?body @ chk)"
      using k checked locs zc(1) chk(1) by (simp add: BinarySmiOpInstr_EmitNativeCode_def)
    have z: "b = 0 \<longrightarrow> deopts_unchanged ?d s (exec os (zc @ ?body @ chk) f s)"
    proof
      assume "b = 0"
      then obtain f' where "run os zc None f s = Taken ?d f' s"
        using zero by blast
      then show "deopts_unchanged ?d s (exec os (zc @ ?body @ chk) f s)"
        using chk_nb by (intro division_by_zero_deopts) auto
    qed
    have nz: "b \<noteq> 0 \<longrightarrow>
        result_or_deopt ?d result (smi_mod_value a b) (exec os (zc @ ?body @ chk) f s)
        \<and> (\<not> ?F \<and> True \<longrightarrow> falls_through (exec os (zc @ ?body @ chk) f s))"
    proof
      assume b: "b \<noteq> 0"
      then obtain f1 where f1: "run os zc None f s = Fallthrough f1 s"
        using nonzero by blast
      obtain f' s' where body:
        "xregs s' result = tagged (smi_mod_value a b)"
        "run os ?body None f1 s = Fallthrough f' s'"
        using mod_body [OF smi b left(1) right(1) locs(4) locs(5) left(2) right(2), where os = os and f = f1]
        by blast
      have v: "is_smi_value (smi_mod_value a b)"
        using smi_mod_value_bounds [OF b, of a] smi(2)
        by (auto simp: is_smi_value_def kSmiMin_def kSmiMax_def)
      have run: "run os ?body None f1 s = (if True then Fallthrough f' s' else Taken ?d f' s')"
        using body(2) by simp
      have ok: "True \<longrightarrow> is_smi_value (smi_mod_value a b)
          \<and> xregs s' result = tagged (smi_mod_value a b)"
        using v body(1) by simp
      show "result_or_deopt ?d result (smi_mod_value a b) (exec os (zc @ ?body @ chk) f s)
        \<and> (\<not> ?F \<and> True \<longrightarrow> falls_through (exec os (zc @ ?body @ chk) f s))"
        using f1 run ok chk by (rule division_nonzero_runs)
    qed
    show ?thesis
      using emit z nz math k trunc_div_min_by_minus_one by auto
  qed
qed

theorem BinarySmiOp_division_witness:
  "(bso_op_kind (example_binary_smi_op kMOD (RegisterLocation 2)) = kTRUNCDIV
      \<or> bso_op_kind (example_binary_smi_op kMOD (RegisterLocation 2)) = kMOD)
   \<and> \<not> bso_is_truncating (example_binary_smi_op kMOD (RegisterLocation 2))
   \<and> bso_CanDeoptimize (example_binary_smi_op kMOD (RegisterLocation 2))
   \<and> is_smi_value (- 7) \<and> is_smi_value 2
   \<and> holds_smi example_division_cpu (bso_in0 (example_binary_smi_op kMOD (RegisterLocation 2))) (- 7)
   \<and> holds_smi example_division_cpu (bso_in1 (example_binary_smi_op kMOD (RegisterLocation 2))) 2
   \<and> in_range (bso_right_range (example_binary_smi_op kMOD (RegisterLocation 2))) 2
   \<and> (\<exists>code. BinarySmiOpInstr_EmitNativeCode False (example_binary_smi_op kMOD (RegisterLocation 2))
          = Some code
        \<and> result_or_deopt (DeoptStub 42 kDeoptBinarySmiOp) 3 (smi_mod_value (- 7) 2)
            (exec example_store code clear_flags example_division_cpu)
        \<and> falls_through (exec example_store code clear_flags example_division_cpu))
   \<and> smi_mod_value (- 7) 2 = 1"
  using BinarySmiOp_division
    [of "example_binary_smi_op kMOD (RegisterLocation 2)" 1 2 3 False "- 7" 2
        example_division_cpu example_store clear_flags]
  by (simp add: example_binary_smi_op_def example_division_cpu_def cpu_of_def allocatable_def
      TMP_def TMP2_def ZR_def is_smi_value_def kSmiMin_def kSmiMax_def in_range_def) blast

subsection \<open>Indexed load of unsigned 32-bit elements\<close>

lemma load_le_bits: "bit (load_le m a n) k \<Longrightarrow> k < 8 * n"
proof (induction n arbitrary: a k)
  case 0
  then show ?case by simp
next
  case (Suc n)
  from Suc.prems have "bit (ucast (m a) :: 64 word) k \<or> bit (push_bit 8 (load_le m (a + 1) n)) k"
    by (simp add: bit_or_iff)
  then show ?case
  proof
    assume "bit (ucast (m a) :: 64 word) k"
    then have "k < 8" by (auto simp: bit_ucast_iff dest: bit_imp_le_length)
    then show ?thesis by simp
  next
    assume "bit (push_bit 8 (load_le m (a + 1) n)) k"
    then have "8 \<le> k" "bit (load_le m (a + 1) n) (k - 8)"
      by (auto simp: bit_push_bit_iff)
    with Suc.IH [of "a + 1" "k - 8"] show ?thesis by simp
  qed
qed

lemma load_le_take_bit: "take_bit (8 * n) (load_le m a n) = load_le m a n"
  by (rule bit_eqI) (auto simp: bit_take_bit_iff dest: load_le_bits)

lemma load_le_4_bound: "uint (load_le m a 4) < 2 ^ 32"
proof -
  have "load_le m a 4 = take_bit 32 (load_le m a 4)"
    using load_le_take_bit [of 4 m a] by simp
  then have "uint (load_le m a 4) = take_bit 32 (uint (load_le m a 4))"
    by (metis unsigned_take_bit_eq)
  then show ?thesis
    by (metis take_bit_int_less_exp)
qed

lemma store_le_other:
  "n \<le> unat (x - a) \<Longrightarrow> store_le m a n v x = m x"
proof (induction n arbitrary: m a v)
  case 0
  then show ?case by simp
next
  case (Suc n)
  then have nz: "x - a \<noteq> 0"
    by (auto simp: unat_eq_0)
  have "x - (a + 1) = (x - a) - 1"
    by simp
  moreover have "unat ((x - a) - 1) = unat (x - a) - 1"
    using nz by (rule unat_minus_one)
  ultimately have "unat (x - (a + 1)) = unat (x - a) - 1"
    by (simp only:)
  with Suc.prems have "n \<le> unat (x - (a + 1))"
    by simp
  then have "store_le (m(a := ucast v)) (a + 1) n (drop_bit 8 v) x = (m(a := ucast v)) x"
    by (rule Suc.IH)
  moreover have "x \<noteq> a" using nz by simp
  ultimately show ?case by simp
qed

lemma load_store_le:
  "n \<le> 8 \<Longrightarrow> load_le (store_le m a n v) a n = take_bit (8 * n) v"
proof (induction n arbitrary: m a v)
  case 0
  then show ?case by simp
next
  case (Suc n)
  let ?m = "m(a := ucast v)"
  have "a - (a + 1) = - 1"
    by simp
  then have "unat (a - (a + 1)) = 2 ^ 64 - 1"
    by (simp only: unsigned_minus_1_eq_mask mask_eq_exp_minus_1) simp
  with Suc.prems have "n \<le> unat (a - (a + 1))"
    by simp
  then have first: "store_le ?m (a + 1) n (drop_bit 8 v) a = ucast v"
    by (simp add: store_le_other)
  have rest: "load_le (store_le ?m (a + 1) n (drop_bit 8 v)) (a + 1) n
      = take_bit (8 * n) (drop_bit 8 v)"
    using Suc.prems by (intro Suc.IH) simp
  have "or (ucast (ucast v :: 8 word) :: 64 word) (push_bit 8 (take_bit (8 * n) (drop_bit 8 v)))
      = take_bit (8 * Suc n) v"
    by (rule bit_eqI)
      (auto simp: bit_or_iff bit_ucast_iff bit_push_bit_iff bit_take_bit_iff bit_drop_bit_eq
        dest: bit_imp_le_length)
  then show ?case
    by (simp add: first rest)
qed

lemma load_store_le_8: "load_le (store_le m a 8 v) a 8 = v"
  using load_store_le [of 8 m a v] take_bit_length_eq [of v] by simp

lemma tag_loaded_uint32:
  assumes "uint w < 2 ^ 32"
  shows "is_smi_value (uint w)" "(w :: 64 word) * 2 = tagged (uint w)"
proof -
  have "(- 4611686018427387904 :: int) \<le> 0"
    by simp
  also have "0 \<le> uint w"
    by simp
  finally show "is_smi_value (uint w)"
    using assms by (simp add: is_smi_value_def kSmiMin_def kSmiMax_def)
  show "w * 2 = tagged (uint w)"
    by (simp add: tagged_def smi_raw_def)
qed

text \<open>C8, as stated, fails: the code emitted for a \<open>kTypedDataUint32ArrayCid\<close> load is
  the address computation, a zero-extending 32-bit load and \<open>SmiTag\<close>. It contains no
  compare and no branch, so there is no range check and no deopt guard; the largest
  element value \<open>4294967295\<close> is loaded and tagged on the fall-through path.\<close>

theorem LoadIndexed_uint32_has_no_range_check:
  "LoadIndexedInstr_EmitNativeCode example_uint32_load
     = Some [ADD 2 1 (Operand_shifted 2 LSL 1), Ldr 3 (Address_offset 2 15) kUnsignedWord,
             SmiTag 3]
   \<and> branch_targets
        [ADD 2 1 (Operand_shifted 2 LSL 1), Ldr 3 (Address_offset 2 15) kUnsignedWord,
         SmiTag 3] = []
   \<and> fallthrough_value
        (exec_emitted example_store (LoadIndexedInstr_EmitNativeCode example_uint32_load)
           clear_flags example_uint32_cpu) 3 = Some 4294967295"
  by code_simp

text \<open>C8, amended. For every indexed load of an unsigned 32-bit element
  (\<open>kTypedDataUint32ArrayCid\<close>) the emitted code has no branch at all, hence no range
  check and no deopt guard; it always falls through with the result register holding
  the tagged value of the four bytes at the element address, zero-extended. That value
  is below \<open>2^32\<close> and so always a Smi value on this 64-bit target: nothing is
  truncated by the tagging.\<close>


theorem LoadIndexed_uint32_no_guard:
  assumes cid: "li_class_id i = kTypedDataUint32ArrayCid"
    and scale: "li_index_scale i \<in> {1, 2, 4, 8, 16}"
    and locs: "li_in0 i = RegisterLocation array" "li_in1 i = RegisterLocation index"
      "li_out0 i = RegisterLocation result"
    and regs: "allocatable array" "allocatable index" "allocatable result"
  shows "\<exists>code. LoadIndexedInstr_EmitNativeCode i = Some code
     \<and> branch_targets code = []
     \<and> (\<exists>f' s' a. exec os code f s = Fallthrough f' s'
           \<and> xregs s' result = tagged (uint (load_le (mem s) a 4))
           \<and> is_smi_value (uint (load_le (mem s) a 4))
           \<and> uint (load_le (mem s) a 4) < 2 ^ 32)"
proof -
  have t: "\<And>a. is_smi_value (uint (load_le (mem s) a 4))
      \<and> load_le (mem s) a 4 * 2 = tagged (uint (load_le (mem s) a 4))
      \<and> uint (load_le (mem s) a 4) < 2 ^ 32"
    using tag_loaded_uint32 load_le_4_bound by blast
  from scale consider "li_index_scale i = 1" | "li_index_scale i = 2" | "li_index_scale i = 4"
    | "li_index_scale i = 8" | "li_index_scale i = 16"
    by auto
  then show ?thesis
  proof cases
    case 1
    then show ?thesis
      using cid locs regs t
      by (simp add: LoadIndexedInstr_EmitNativeCode_def LoadIndexed_element_address_def exec_def
          load_sized_def reg_simps wr_def) blast?
  next
    case 2
    then show ?thesis
      using cid locs regs t
      by (simp add: LoadIndexedInstr_EmitNativeCode_def LoadIndexed_element_address_def exec_def
          load_sized_def reg_simps wr_def) blast?
  next
    case 3
    then show ?thesis
      using cid locs regs t
      by (simp add: LoadIndexedInstr_EmitNativeCode_def LoadIndexed_element_address_def exec_def
          load_sized_def reg_simps wr_def) blast?
  next
    case 4
    then show ?thesis
      using cid locs regs t
      by (simp add: LoadIndexedInstr_EmitNativeCode_def LoadIndexed_element_address_def exec_def
          load_sized_def reg_simps wr_def) blast?
  next
    case 5
    then show ?thesis
      using cid locs regs t
      by (simp add: LoadIndexedInstr_EmitNativeCode_def LoadIndexed_element_address_def exec_def
          load_sized_def reg_simps wr_def) blast?
  qed
qed

theorem LoadIndexed_uint32_no_guard_witness:
  "li_class_id example_uint32_load = kTypedDataUint32ArrayCid
   \<and> li_index_scale example_uint32_load \<in> {1, 2, 4, 8, 16}
   \<and> li_in0 example_uint32_load = RegisterLocation 1
   \<and> li_in1 example_uint32_load = RegisterLocation 2
   \<and> li_out0 example_uint32_load = RegisterLocation 3
   \<and> allocatable 1 \<and> allocatable 2 \<and> allocatable 3
   \<and> (\<exists>code. LoadIndexedInstr_EmitNativeCode example_uint32_load = Some code
     \<and> branch_targets code = []
     \<and> (\<exists>f' s' a. exec example_store code clear_flags example_uint32_cpu = Fallthrough f' s'
           \<and> xregs s' 3 = tagged (uint (load_le (mem example_uint32_cpu) a 4))
           \<and> is_smi_value (uint (load_le (mem example_uint32_cpu) a 4))
           \<and> uint (load_le (mem example_uint32_cpu) a 4) < 2 ^ 32))"
  using LoadIndexed_uint32_no_guard
    [of example_uint32_load 1 2 3 example_store clear_flags example_uint32_cpu]
  by (simp add: example_uint32_load_def allocatable_def TMP_def TMP2_def ZR_def)

subsection \<open>Clamped byte stores\<close>

lemma signed_less_sub_flags:
  "(flagN (sub_flags a b) \<noteq> flagV (sub_flags a b)) = (sint a < sint b)"
proof -
  define d where "d = sint a - sint b"
  have ab: "a - b = word_of_int d"
    by (simp add: d_def)
  have bounds: "- (2 ^ 64) < d" "d < 2 ^ 64"
    using sint_ge [of a] sint_lt [of a] sint_ge [of b] sint_lt [of b]
    by (simp_all add: d_def)
  consider (inr) "- (2 ^ 63) \<le> d" "d < 2 ^ 63" | (high) "2 ^ 63 \<le> d" | (low) "d < - (2 ^ 63)"
    by linarith
  then have "((sint (word_of_int d :: 64 word) < 0) \<noteq> (sint (word_of_int d :: 64 word) \<noteq> d))
      = (d < 0)"
  proof cases
    case inr
    then have "sint (word_of_int d :: 64 word) = d" by (rule sint_word_of_int_64)
    then show ?thesis by simp
  next
    case high
    then have "sint (word_of_int d :: 64 word) = d - 2 ^ 64"
      using bounds by (intro sint_word_of_int_64_high) auto
    then show ?thesis using high bounds by simp
  next
    case low
    then have "sint (word_of_int d :: 64 word) = d + 2 ^ 64"
      using bounds by (intro sint_word_of_int_64_low) auto
    then show ?thesis using low bounds by simp
  qed
  then show ?thesis
    unfolding sub_flags_def ab by (simp add: d_def)
qed

lemma ucast_word_of_int_8: "(ucast (word_of_int k :: 64 word) :: 8 word) = word_of_int k"
  by (rule bit_word_eqI) (simp add: bit_ucast_iff bit_word_of_int_iff)

lemma stored_int8: "(word_of_int (sint (word_of_int c :: 8 word)) :: 8 word) = word_of_int c"
  by simp

lemma signed_less_sub_flags':
  "(flagN (sub_flags a b) = (\<not> flagV (sub_flags a b))) = (sint a < sint b)"
  using signed_less_sub_flags [of a b] by auto

lemma signed_ge_sub_flags:
  "(flagN (sub_flags a b) = flagV (sub_flags a b)) = (sint b \<le> sint a)"
  using signed_less_sub_flags [of a b] by auto

lemma ucast_scast_8: "(ucast (scast (w :: 8 word) :: 64 word) :: 8 word) = w"
  by (rule bit_word_eqI) (auto simp: bit_ucast_iff bit_signed_iff)

lemma uint_word_of_smi_le_255:
  assumes "is_smi_value v"
  shows "(uint (word_of_int v :: 64 word) \<le> 255) = (0 \<le> v \<and> v \<le> 255)"
proof (cases "0 \<le> v")
  case True
  then have "uint (word_of_int v :: 64 word) = v"
    using assms by (intro uint_word_of_int_64_pos) (auto simp: is_smi_value_def kSmiMax_def)
  with True show ?thesis by simp
next
  case False
  then have "uint (word_of_int v :: 64 word) = v + 2 ^ 64"
    using assms by (intro uint_word_of_int_64_neg) (auto simp: is_smi_value_def kSmiMin_def)
  with False assms show ?thesis by (simp add: is_smi_value_def kSmiMin_def)
qed

lemma clamped_register_code:
  assumes "is_smi_value v" "allocatable val" "xregs s val = tagged v"
    and "allocatable array" "allocatable index" "val \<noteq> array" "val \<noteq> index"
  shows "\<exists>f' s'. run os
       [SmiUntag val, CompareImmediate val 0xFF, B_cond (LocalLabel ''store_value'') LS,
        LoadImmediate TMP 0x00, LoadImmediate TMP2 0xFF,
        CSEL val TMP val LE, CSEL val TMP2 val GT,
        Bind (LocalLabel ''store_value''),
        Str val (Address_reg array index) kUnsignedByte] None f s = Fallthrough f' s'
     \<and> mem s' = (mem s)(xregs s array + xregs s index := word_of_int (clamp_byte v))"
proof -
  have ls: "(flagC (sub_flags (word_of_int v) 255) \<longrightarrow> flagZ (sub_flags (word_of_int v) 255))
      = (0 \<le> v \<and> v \<le> 255)"
    using uint_word_of_smi_le_255 [OF assms(1)] by (simp add: LS_sub_flags)
  have lt: "(flagN (sub_flags (word_of_int v) 255) \<noteq> flagV (sub_flags (word_of_int v) 255))
      = (v < 255)"
    using assms(1) signed_less_sub_flags [of "word_of_int v" 255] by (simp add: sint_word_of_smi)
  have z: "flagZ (sub_flags (word_of_int v) 255) = (v = 255)"
    using assms(1) sint_word_of_smi [of v]
    by (auto simp: flagZ_sub_flags word_eq_iff_signed [where ?'a = int])
  show ?thesis
  proof (cases "0 \<le> v \<and> v \<le> 255")
    case True
    then show ?thesis
      using assms ls
      by (simp add: reg_simps untag_tagged ucast_word_of_int_8 clamp_byte_def)
  next
    case False
    then show ?thesis
      using assms ls lt z
      by (auto simp: reg_simps untag_tagged ucast_word_of_int_8 clamp_byte_def)
  qed
qed

lemma clamped_constant_code:
  assumes "allocatable array" "allocatable index"
  shows "\<exists>f' s'. run os
       [LoadImmediate TMP (static_cast_int8 (if v > 0xFF then 0xFF else if v < 0 then 0 else v)),
        Str TMP (Address_reg array index) kUnsignedByte] None f s = Fallthrough f' s'
     \<and> mem s' = (mem s)(xregs s array + xregs s index := word_of_int (clamp_byte v))"
proof -
  have "(if v > 0xFF then 0xFF else if v < 0 then 0 else v) = clamp_byte v"
    by (simp add: clamp_byte_def max_def min_def)
  then show ?thesis
    using assms
    by (simp add: reg_simps static_cast_int8_def ucast_scast_8)
qed

lemma store_address_code:
  assumes "scale \<in> {1, 2, 4, 8, 16}" "allocatable index"
  shows "\<exists>sc s1. StoreIndexed_scale_index scale index = Some sc
     \<and> run os (sc @ (if \<not> ext then [AddImmediate index index off] else [])) None f s
         = Fallthrough f s1
     \<and> mem s1 = mem s \<and> (\<forall>r. r \<noteq> index \<longrightarrow> xregs s1 r = xregs s r)
     \<and> (scale = 1 \<longrightarrow> xregs s1 index =
           signed_drop_bit 1 (xregs s index) + (if ext then 0 else word_of_int off))"
  using assms
  by (auto simp: StoreIndexed_scale_index_def reg_simps)

text \<open>C7. For every store into an unsigned-clamped byte element
  (\<open>kTypedDataUint8ClampedArrayCid\<close> or its external variant), with the source a Smi
  constant or a Smi in a register, the emitted code falls through having written
  exactly one byte of memory, and that byte is the source value clamped to \<open>[0, 255]\<close>;
  for element size 1 the byte is at the array register plus the untagged index plus the
  data offset. Constants are clamped when the code is emitted, registers by a compare
  and two conditional selects. The values \<open>-5, 0, 200, 255, 300\<close> give the bytes
  \<open>0, 0, 200, 255, 255\<close>.\<close>


theorem StoreIndexed_clamped_byte:
  assumes cid: "si_class_id i = kTypedDataUint8ClampedArrayCid
        \<or> si_class_id i = kExternalTypedDataUint8ClampedArrayCid"
    and scale: "si_index_scale i \<in> {1, 2, 4, 8, 16}"
    and locs: "si_in0 i = RegisterLocation array" "si_in1 i = RegisterLocation index"
    and regs: "allocatable array" "allocatable index" "array \<noteq> index"
      "si_in2 i \<noteq> RegisterLocation array" "si_in2 i \<noteq> RegisterLocation index"
    and val: "is_smi_value v" "holds_smi s (si_in2 i) v"
  shows "\<exists>code. StoreIndexedInstr_EmitNativeCode i = Some code
     \<and> (\<exists>f' s' a. exec os code f s = Fallthrough f' s'
           \<and> mem s' = (mem s)(a := word_of_int (clamp_byte v))
           \<and> (si_index_scale i = 1 \<longrightarrow>
                a = xregs s array + (signed_drop_bit 1 (xregs s index)
                      + (if si_IsExternal i then 0
                         else word_of_int (si_data_offset i - kHeapObjectTag)))))
     \<and> map clamp_byte [- 5, 0, 200, 255, 300] = [0, 0, 200, 255, 255]"
proof -
  let ?off = "si_data_offset i - kHeapObjectTag"
  let ?pre = "\<lambda>sc. sc @ (if \<not> si_IsExternal i then [AddImmediate index index ?off] else [])"
  obtain sc s1 where pre:
    "StoreIndexed_scale_index (si_index_scale i) index = Some sc"
    "run os (?pre sc) None f s = Fallthrough f s1"
    "mem s1 = mem s" "\<forall>r. r \<noteq> index \<longrightarrow> xregs s1 r = xregs s r"
    "si_index_scale i = 1 \<longrightarrow> xregs s1 index =
       signed_drop_bit 1 (xregs s index) + (if si_IsExternal i then 0 else word_of_int ?off)"
    using store_address_code [OF scale regs(2), of os "si_IsExternal i" ?off f s] by blast
  have arr: "xregs s1 array = xregs s array"
    using pre(4) regs(3) by simp
  have "\<exists>st f' s'. store_clamped_byte_code (si_in2 i) (Address_reg array index) = Some st
      \<and> run os st None f s1 = Fallthrough f' s'
      \<and> mem s' = (mem s1)(xregs s1 array + xregs s1 index := word_of_int (clamp_byte v))"
    using val(2)
  proof (cases rule: holds_smi_cases)
    case (reg r)
    have "xregs s1 r = tagged v"
      using pre(4) reg regs(5) by simp
    from clamped_register_code [OF val(1) reg(2) this regs(1) regs(2), of os f]
    show ?thesis
      using reg regs(4,5) by (simp add: store_clamped_byte_code_def)
  next
    case const
    from clamped_constant_code [OF regs(1) regs(2), of os v f s1]
    show ?thesis
      using const by (simp add: store_clamped_byte_code_def)
  qed
  then obtain st f' s' where st:
    "store_clamped_byte_code (si_in2 i) (Address_reg array index) = Some st"
    "run os st None f s1 = Fallthrough f' s'"
    "mem s' = (mem s1)(xregs s1 array + xregs s1 index := word_of_int (clamp_byte v))"
    by blast
  have emit: "StoreIndexedInstr_EmitNativeCode i = Some (?pre sc @ st)"
    using cid locs pre(1) st(1) by (auto simp: StoreIndexedInstr_EmitNativeCode_def)
  have "exec os (?pre sc @ st) f s = run os (?pre sc @ st) None f s"
    by (simp only: exec_def)
  also have "\<dots> = (case run os (?pre sc) None f s of
        Fallthrough f' s' \<Rightarrow> run os st None f' s'
      | Taken l f' s' \<Rightarrow> run os st (Some l) f' s'
      | Stuck \<Rightarrow> Stuck)"
    by (rule run_append)
  also have "\<dots> = run os st None f s1"
    by (simp only: pre(2) outcome.case)
  finally have run: "exec os (?pre sc @ st) f s = Fallthrough f' s'"
    using st(2) by simp
  have "map clamp_byte [- 5, 0, 200, 255, 300] = [0, 0, 200, 255, 255]"
    by (simp add: clamp_byte_def)
  then show ?thesis
    using emit run st(3) pre(3) pre(5) arr by auto
qed

theorem StoreIndexed_clamped_byte_witness:
  "(si_class_id (example_clamped_store (RegisterLocation 3)) = kTypedDataUint8ClampedArrayCid
      \<or> si_class_id (example_clamped_store (RegisterLocation 3))
          = kExternalTypedDataUint8ClampedArrayCid)
   \<and> si_index_scale (example_clamped_store (RegisterLocation 3)) \<in> {1, 2, 4, 8, 16}
   \<and> allocatable 1 \<and> allocatable 2 \<and> (1 :: nat) \<noteq> 2
   \<and> is_smi_value 300
   \<and> holds_smi example_clamped_cpu (si_in2 (example_clamped_store (RegisterLocation 3))) 300
   \<and> (\<exists>code. StoreIndexedInstr_EmitNativeCode (example_clamped_store (RegisterLocation 3))
          = Some code
     \<and> (\<exists>f' s' a. exec example_store code clear_flags example_clamped_cpu = Fallthrough f' s'
           \<and> mem s' = (mem example_clamped_cpu)(a := word_of_int (clamp_byte 300))
           \<and> a = xregs example_clamped_cpu 1
                 + (signed_drop_bit 1 (xregs example_clamped_cpu 2) + word_of_int (16 - kHeapObjectTag))))
   \<and> clamp_byte 300 = 255"
  using StoreIndexed_clamped_byte
    [of "example_clamped_store (RegisterLocation 3)" 1 2 300 example_clamped_cpu
        example_store clear_flags]
  by (simp add: example_clamped_store_def example_clamped_cpu_def cpu_of_def allocatable_def
      TMP_def TMP2_def ZR_def is_smi_value_def kSmiMin_def kSmiMax_def clamp_byte_def)

subsection \<open>Double comparisons with NaN operands\<close>

lemma fcmp_flags_unordered:
  "is_nan a \<or> is_nan b \<Longrightarrow>
   fcmp_flags a b = \<lparr>flagN = False, flagZ = False, flagC = True, flagV = True\<rparr>"
  by (simp add: fcmp_flags_def)

lemma EmitBranchOnCondition_cases:
  assumes "EmitBranchOnCondition c labels = Some bc"
  shows "\<exists>c'. bc = [B_cond (true_label labels) c'] \<or> bc = [B_cond (false_label labels) c']
     \<or> bc = [B_cond (false_label labels) c', B (true_label labels)]"
  using assms by (auto simp: EmitBranchOnCondition_def split: if_splits option.splits)

lemma EmitBranchOnCondition_exists:
  "NegateCondition c \<noteq> None \<Longrightarrow> \<exists>bc. EmitBranchOnCondition c labels = Some bc"
  by (auto simp: EmitBranchOnCondition_def)

lemma EmitBranchOnCondition_no_bind:
  assumes "EmitBranchOnCondition c labels = Some bc"
  shows "Bind l \<notin> set bc"
  using EmitBranchOnCondition_cases [OF assms] by auto

lemma double_condition_cases:
  assumes "k \<in> {kEQ, kLT, kGT, kLTE, kGTE}"
  obtains c where "TokenKindToDoubleCondition k = Some c" "c \<noteq> NE" "NegateCondition c \<noteq> None"
  using assms by auto

lemma nan_comparison_native:
  assumes cid: "cmp_operation_cid i = kDoubleCid"
    and kind: "cmp_kind i \<in> {kEQ, kLT, kGT, kLTE, kGTE}"
    and locs: "cmp_in0 i = FpuRegisterLocation l" "cmp_in1 i = FpuRegisterLocation r"
      "cmp_out0 i = RegisterLocation result" "allocatable result"
    and nan: "is_nan (vregs s l) \<or> is_nan (vregs s r)"
  shows "\<exists>code. comparison_native_code i = Some code
     \<and> take 2 code = [Fpu (FCMPD l r), B_cond (LocalLabel ''is_false'') VS]
     \<and> materializes os result False (exec os code f s)"
proof -
  from kind obtain c where c: "TokenKindToDoubleCondition (cmp_kind i) = Some c" "c \<noteq> NE"
      "NegateCondition c \<noteq> None"
    by (rule double_condition_cases)
  show ?thesis
    using cid locs c fcmp_flags_unordered [OF nan]
    by (simp add: comparison_native_code_def EmitComparisonCode_def EmitDoubleComparisonOp_def
        nan_branch_def local_branch_labels_def EmitBranchOnCondition_def materialize_bool_def
        exec_def reg_simps)
qed

lemma nan_comparison_branch:
  assumes cid: "cmp_operation_cid i = kDoubleCid"
    and kind: "cmp_kind i \<in> {kEQ, kLT, kGT, kLTE, kGTE}"
    and locs: "cmp_in0 i = FpuRegisterLocation l" "cmp_in1 i = FpuRegisterLocation r"
    and nan: "is_nan (vregs s l) \<or> is_nan (vregs s r)"
  shows "\<exists>code. comparison_branch_code i labels = Some code
     \<and> take 2 code = [Fpu (FCMPD l r), B_cond (false_label labels) VS]
     \<and> reaches (exec os code f s) (fall_through labels) (false_label labels)"
proof -
  from kind obtain c where c: "TokenKindToDoubleCondition (cmp_kind i) = Some c" "c \<noteq> NE"
      "NegateCondition c \<noteq> None"
    by (rule double_condition_cases)
  then obtain bc where bc: "EmitBranchOnCondition c labels = Some bc"
    using EmitBranchOnCondition_exists by blast
  have emit: "comparison_branch_code i labels
      = Some ([Fpu (FCMPD l r), B_cond (false_label labels) VS] @ bc)"
    using cid locs c bc
    by (simp add: comparison_branch_code_def EmitComparisonCode_def EmitDoubleComparisonOp_def
        nan_branch_def)
  have "exec os ([Fpu (FCMPD l r), B_cond (false_label labels) VS] @ bc) f s
      = run os bc (Some (false_label labels)) (fcmp_flags (vregs s l) (vregs s r)) s"
    using fcmp_flags_unordered [OF nan] by (simp add: exec_def)
  also have "\<dots> = Taken (false_label labels) (fcmp_flags (vregs s l) (vregs s r)) s"
    using EmitBranchOnCondition_no_bind [OF bc] by (rule run_seeking_no_bind)
  finally show ?thesis
    using emit by simp
qed

lemma nan_not_equal_native:
  assumes cid: "cmp_operation_cid i = kDoubleCid" and kind: "cmp_kind i = kNE"
    and locs: "cmp_in0 i = FpuRegisterLocation l" "cmp_in1 i = FpuRegisterLocation r"
      "cmp_out0 i = RegisterLocation result" "allocatable result"
    and nan: "is_nan (vregs s l) \<or> is_nan (vregs s r)"
  shows "\<exists>code. comparison_native_code i = Some code
     \<and> materializes os result True (exec os code f s)"
  using cid kind locs fcmp_flags_unordered [OF nan]
  by (simp add: comparison_native_code_def EmitComparisonCode_def EmitDoubleComparisonOp_def
      nan_branch_def local_branch_labels_def EmitBranchOnCondition_def materialize_bool_def
      exec_def reg_simps)

text \<open>C4. For every comparison of double operands other than not-equal, when either
  operand is a NaN: the code that \<open>EqualityCompareInstr\<close> (operator equal) and
  \<open>RelationalOpInstr\<close> emit evaluates to false, on the path that materializes a boolean
  (the result register holds \<open>Bool::False()\<close>) and on the branch path (control reaches
  the false label). In each case the instruction right after the \<open>fcmpd\<close> is the extra
  branch to the false label on the unordered condition VS, ahead of the branches of
  \<open>EmitBranchOnCondition\<close>.\<close>


theorem double_comparison_nan_is_false:
  assumes cid: "cmp_operation_cid i = kDoubleCid"
    and kind: "cmp_kind i \<in> {kEQ, kLT, kGT, kLTE, kGTE}"
    and locs: "cmp_in0 i = FpuRegisterLocation l" "cmp_in1 i = FpuRegisterLocation r"
      "cmp_out0 i = RegisterLocation result" "allocatable result"
    and nan: "is_nan (vregs s l) \<or> is_nan (vregs s r)"
  shows "(cmp_kind i = kEQ \<longrightarrow>
        (\<exists>code. EqualityCompareInstr_EmitNativeCode i = Some code
           \<and> take 2 code = [Fpu (FCMPD l r), B_cond (LocalLabel ''is_false'') VS]
           \<and> materializes os result False (exec os code f s))
      \<and> (\<exists>code. EqualityCompareInstr_EmitBranchCode i labels = Some code
           \<and> take 2 code = [Fpu (FCMPD l r), B_cond (false_label labels) VS]
           \<and> reaches (exec os code f s) (fall_through labels) (false_label labels)))
   \<and> (\<exists>code. RelationalOpInstr_EmitNativeCode i = Some code
           \<and> take 2 code = [Fpu (FCMPD l r), B_cond (LocalLabel ''is_false'') VS]
           \<and> materializes os result False (exec os code f s))
   \<and> (\<exists>code. RelationalOpInstr_EmitBranchCode i labels = Some code
           \<and> take 2 code = [Fpu (FCMPD l r), B_cond (false_label labels) VS]
           \<and> reaches (exec os code f s) (fall_through labels) (false_label labels))"
  using nan_comparison_native [OF cid kind locs nan, of os f]
    nan_comparison_branch [OF cid kind locs(1,2) nan, of labels os f]
  by (simp add: EqualityCompareInstr_EmitNativeCode_def EqualityCompareInstr_EmitBranchCode_def
      RelationalOpInstr_EmitNativeCode_def RelationalOpInstr_EmitBranchCode_def)

theorem double_comparison_nan_is_false_witness:
  "cmp_operation_cid (example_double_compare kEQ) = kDoubleCid
   \<and> cmp_kind (example_double_compare kEQ) \<in> {kEQ, kLT, kGT, kLTE, kGTE}
   \<and> allocatable 3
   \<and> (is_nan (vregs example_nan_cpu 0) \<or> is_nan (vregs example_nan_cpu 1))
   \<and> (\<exists>code. EqualityCompareInstr_EmitNativeCode (example_double_compare kEQ) = Some code
           \<and> take 2 code = [Fpu (FCMPD 0 1), B_cond (LocalLabel ''is_false'') VS]
           \<and> materializes example_store 3 False (exec example_store code clear_flags example_nan_cpu))
   \<and> (\<exists>code. EqualityCompareInstr_EmitBranchCode (example_double_compare kEQ)
               \<lparr>true_label = BlockLabel 1, false_label = BlockLabel 2, fall_through = BlockLabel 3\<rparr>
             = Some code
           \<and> reaches (exec example_store code clear_flags example_nan_cpu)
                (BlockLabel 3) (BlockLabel 2))"
  using double_comparison_nan_is_false
    [of "example_double_compare kEQ" 0 1 3 example_nan_cpu example_store clear_flags
        "\<lparr>true_label = BlockLabel 1, false_label = BlockLabel 2, fall_through = BlockLabel 3\<rparr>"]
  by (simp add: example_double_compare_def example_nan_cpu_def cpu_of_def is_nan_def
      allocatable_def TMP_def TMP2_def ZR_def) blast

subsection \<open>Boxing and unboxing doubles\<close>

lemma restore_x_saved:
  "restore_x (map (\<lambda>r. (r, g0 r)) rs) g r = (if r \<in> set rs then g0 r else g r)"
  by (induction rs arbitrary: g) auto

lemma box_fast_path:
  assumes "fast_allocation_succeeds s"
  shows "\<exists>f1 s1. exec_with_slow_path os
            [Heap (TryAllocate kDoubleCid (SlowPathEntry n) out_reg temp),
             Bind (SlowPathExit n),
             Fpu (StoreDFieldToOffset value out_reg off)] slow f s = Fallthrough f1 s1
         \<and> load_le (mem s1) (rd s1 out_reg + word_of_int (off - kHeapObjectTag)) 8 = vregs s value"
  using assms
  by (simp add: exec_with_slow_path_def exec_def fast_allocation_succeeds_def load_store_le_8
      wr_def rd_def)

lemma box_slow_path:
  assumes "\<not> fast_allocation_succeeds s" and "stub_results s \<noteq> []"
    and "value \<in> set live_fpu"
  shows "\<exists>f1 s1. exec_with_slow_path os
            [Heap (TryAllocate kDoubleCid (SlowPathEntry n) out_reg temp),
             Bind (SlowPathExit n),
             Fpu (StoreDFieldToOffset value out_reg off)]
            [Comment ''BoxDoubleSlowPath'',
             Bind (SlowPathEntry n),
             Heap (SaveLiveRegisters live_cpu live_fpu),
             Heap (GenerateCall kDoubleCid),
             MOV out_reg R0,
             Heap (RestoreLiveRegisters live_cpu live_fpu),
             B (SlowPathExit n)] f s = Fallthrough f1 s1
         \<and> load_le (mem s1) (rd s1 out_reg + word_of_int (off - kHeapObjectTag)) 8 = vregs s value"
proof -
  from assms(2) obtain r rest where sr: "stub_results s = r # rest"
    by (cases "stub_results s") auto
  show ?thesis
    using assms(1,3) sr
    by (simp add: exec_with_slow_path_def exec_def fast_allocation_succeeds_def load_store_le_8
      wr_def rd_def restore_x_saved)
qed

text \<open>C5. Boxing then unboxing a double gives back the same 64 bits, whatever they are
  (zeros of either sign, NaNs with any payload, the extreme finite values). Running the
  code of \<open>BoxDoubleInstr\<close> together with its slow path, and then the code of an
  \<open>UnboxDoubleInstr\<close> whose input is the box and has the static class id \<open>kDoubleCid\<close>,
  falls through with the result register holding the bit pattern that the value
  register held at the start. This holds when the bump allocation succeeds, and when it
  fails and the allocation stub called on the slow path returns, the value register
  then being one of the live registers that the slow path saves and restores.\<close>

theorem BoxDouble_UnboxDouble_round_trip:
  assumes "BoxDoubleInstr_EmitNativeCode L n b = Some box"
    and "BoxDoubleSlowPath_EmitNativeCode n b = Some slow"
    and "UnboxDoubleInstr_EmitNativeCode L u = Some unbox"
    and "ud_value_cid u = kDoubleCid"
    and "ud_in0 u = bd_out0 b"
    and "bd_in0 b = FpuRegisterLocation value_reg"
    and "ud_out0 u = FpuRegisterLocation result"
    and "fast_allocation_succeeds s
         \<or> (stub_results s \<noteq> [] \<and> value_reg \<in> set (bd_live_fpu b))"
  shows "\<exists>f' s'. box_then_unbox os box slow unbox f s = Fallthrough f' s'
           \<and> vregs s' result = vregs s value_reg"
proof -
  from assms(1,6) obtain out_reg temp where
    locs: "bd_out0 b = RegisterLocation out_reg" "bd_temp0 b = RegisterLocation temp"
    and box: "box = [Heap (TryAllocate kDoubleCid (SlowPathEntry n) out_reg temp),
                     Bind (SlowPathExit n),
                     Fpu (StoreDFieldToOffset value_reg out_reg (Double_value_offset L))]"
    by (auto simp: BoxDoubleInstr_EmitNativeCode_def split: option.splits
        elim!: reg_of.elims fpu_reg_of.elims)
  from assms(2) locs(1) have slow:
    "slow = [Comment ''BoxDoubleSlowPath'',
             Bind (SlowPathEntry n),
             Heap (SaveLiveRegisters (removeAll out_reg (bd_live_cpu b)) (bd_live_fpu b)),
             Heap (GenerateCall kDoubleCid),
             MOV out_reg R0,
             Heap (RestoreLiveRegisters (removeAll out_reg (bd_live_cpu b)) (bd_live_fpu b)),
             B (SlowPathExit n)]"
    by (auto simp: BoxDoubleSlowPath_EmitNativeCode_def Let_def)
  from assms(3,4,5,7) locs(1) have unbox:
    "unbox = [Fpu (LoadDFieldFromOffset result out_reg (Double_value_offset L))]"
    by (simp add: UnboxDoubleInstr_EmitNativeCode_def)
  have "\<exists>f1 s1. exec_with_slow_path os box slow f s = Fallthrough f1 s1
         \<and> load_le (mem s1)
              (rd s1 out_reg + word_of_int (Double_value_offset L - kHeapObjectTag)) 8
            = vregs s value_reg"
  proof (cases "fast_allocation_succeeds s")
    case True
    then show ?thesis
      unfolding box by (rule box_fast_path)
  next
    case False
    with assms(8) have "stub_results s \<noteq> []" "value_reg \<in> set (bd_live_fpu b)"
      by auto
    with False show ?thesis
      unfolding box slow by (rule box_slow_path)
  qed
  then obtain f1 s1 where
    boxed: "exec_with_slow_path os box slow f s = Fallthrough f1 s1"
    and loaded: "load_le (mem s1)
              (rd s1 out_reg + word_of_int (Double_value_offset L - kHeapObjectTag)) 8
            = vregs s value_reg"
    by blast
  show ?thesis
    using boxed loaded by (simp add: box_then_unbox_def unbox exec_def load_d_def)
qed

theorem BoxDouble_UnboxDouble_round_trip_witness:
  "BoxDoubleInstr_EmitNativeCode example_layout 0 example_box
     = Some [Heap (TryAllocate kDoubleCid (SlowPathEntry 0) 4 5),
             Bind (SlowPathExit 0),
             Fpu (StoreDFieldToOffset 3 4 8)]
   \<and> BoxDoubleSlowPath_EmitNativeCode 0 example_box
     = Some [Comment ''BoxDoubleSlowPath'',
             Bind (SlowPathEntry 0),
             Heap (SaveLiveRegisters [1, 0] [2, 3]),
             Heap (GenerateCall kDoubleCid),
             MOV 4 R0,
             Heap (RestoreLiveRegisters [1, 0] [2, 3]),
             B (SlowPathExit 0)]
   \<and> UnboxDoubleInstr_EmitNativeCode example_layout example_unbox
     = Some [Fpu (LoadDFieldFromOffset 6 4 8)]
   \<and> ud_value_cid example_unbox = kDoubleCid
   \<and> ud_in0 example_unbox = bd_out0 example_box
   \<and> bd_in0 example_box = FpuRegisterLocation 3
   \<and> ud_out0 example_unbox = FpuRegisterLocation 6
   \<and> \<not> fast_allocation_succeeds example_full_heap_cpu
   \<and> stub_results example_full_heap_cpu \<noteq> []
   \<and> 3 \<in> set (bd_live_fpu example_box)
   \<and> (\<exists>f' s'. box_then_unbox example_store
          [Heap (TryAllocate kDoubleCid (SlowPathEntry 0) 4 5),
           Bind (SlowPathExit 0),
           Fpu (StoreDFieldToOffset 3 4 8)]
          [Comment ''BoxDoubleSlowPath'',
           Bind (SlowPathEntry 0),
           Heap (SaveLiveRegisters [1, 0] [2, 3]),
           Heap (GenerateCall kDoubleCid),
           MOV 4 R0,
           Heap (RestoreLiveRegisters [1, 0] [2, 3]),
           B (SlowPathExit 0)]
          [Fpu (LoadDFieldFromOffset 6 4 8)] clear_flags example_full_heap_cpu
            = Fallthrough f' s'
        \<and> vregs s' 6 = 0x7FF8000000000123)"
  using BoxDouble_UnboxDouble_round_trip
    [where L = example_layout and n = 0 and b = example_box and u = example_unbox
       and box = "[Heap (TryAllocate kDoubleCid (SlowPathEntry 0) 4 5),
                   Bind (SlowPathExit 0),
                   Fpu (StoreDFieldToOffset 3 4 8)]"
       and slow = "[Comment ''BoxDoubleSlowPath'',
                    Bind (SlowPathEntry 0),
                    Heap (SaveLiveRegisters [1, 0] [2, 3]),
                    Heap (GenerateCall kDoubleCid),
                    MOV 4 R0,
                    Heap (RestoreLiveRegisters [1, 0] [2, 3]),
                    B (SlowPathExit 0)]"
       and unbox = "[Fpu (LoadDFieldFromOffset 6 4 8)]"
       and value_reg = 3 and result = 6 and s = example_full_heap_cpu
       and os = example_store and f = clear_flags]
  by (simp add: BoxDoubleInstr_EmitNativeCode_def BoxDoubleSlowPath_EmitNativeCode_def
      UnboxDoubleInstr_EmitNativeCode_def example_layout_def example_box_def
      example_unbox_def fast_allocation_succeeds_def example_full_heap_cpu_def Let_def)

text \<open>The example on the slow path, evaluated: the NaN payload comes back, the output
  register holds the object that the stub returned, and the saved registers have their
  old values.\<close>

lemma BoxDouble_slow_path_example:
  "(case box_then_unbox example_store
          [Heap (TryAllocate kDoubleCid (SlowPathEntry 0) 4 5),
           Bind (SlowPathExit 0),
           Fpu (StoreDFieldToOffset 3 4 8)]
          [Comment ''BoxDoubleSlowPath'',
           Bind (SlowPathEntry 0),
           Heap (SaveLiveRegisters [1, 0] [2, 3]),
           Heap (GenerateCall kDoubleCid),
           MOV 4 R0,
           Heap (RestoreLiveRegisters [1, 0] [2, 3]),
           B (SlowPathExit 0)]
          [Fpu (LoadDFieldFromOffset 6 4 8)] clear_flags example_full_heap_cpu of
      Fallthrough f' s' \<Rightarrow> vregs s' 6 = 0x7FF8000000000123 \<and> xregs s' 4 = 24577 \<and> xregs s' 1 = 7 \<and> vregs s' 2 = 0
           \<and> xregs s' 5 = 99
    | _ \<Rightarrow> False)"
  by code_simp

subsection \<open>Write barriers\<close>

































end
